theory Spec2Isabelle
  imports Complex_Main
begin

section \<open>JavaScript numbers and values\<close>

text \<open>
  A JavaScript number is modelled as a finite real or one of the three special values.
  Arithmetic on finite values is exact (rounding to 64-bit precision, overflow and the
  sign of zero are not represented); on the special values it follows the IEEE rules.
  A zero divisor is read as \<open>+0\<close>.
\<close>

datatype jsnum = NaN | PInf | NInf | Fin real

fun jneg :: "jsnum \<Rightarrow> jsnum" where
  "jneg NaN = NaN"
| "jneg PInf = NInf"
| "jneg NInf = PInf"
| "jneg (Fin a) = Fin (- a)"

fun jadd :: "jsnum \<Rightarrow> jsnum \<Rightarrow> jsnum" where
  "jadd (Fin a) (Fin b) = Fin (a + b)"
| "jadd NaN _ = NaN"
| "jadd _ NaN = NaN"
| "jadd PInf NInf = NaN"
| "jadd NInf PInf = NaN"
| "jadd PInf _ = PInf"
| "jadd NInf _ = NInf"
| "jadd _ PInf = PInf"
| "jadd _ NInf = NInf"

definition jsub :: "jsnum \<Rightarrow> jsnum \<Rightarrow> jsnum" where
  "jsub a b = jadd a (jneg b)"

fun jsgn :: "jsnum \<Rightarrow> real" where
  "jsgn NaN = 0"
| "jsgn PInf = 1"
| "jsgn NInf = - 1"
| "jsgn (Fin a) = sgn a"

definition inf_of :: "real \<Rightarrow> jsnum" where
  "inf_of s = (if 0 < s then PInf else if s < 0 then NInf else NaN)"

fun jmul :: "jsnum \<Rightarrow> jsnum \<Rightarrow> jsnum" where
  "jmul (Fin a) (Fin b) = Fin (a * b)"
| "jmul NaN _ = NaN"
| "jmul _ NaN = NaN"
| "jmul a b = inf_of (jsgn a * jsgn b)"

fun jdiv :: "jsnum \<Rightarrow> jsnum \<Rightarrow> jsnum" where
  "jdiv (Fin a) (Fin b) = (if b = 0 then inf_of (sgn a) else Fin (a / b))"
| "jdiv NaN _ = NaN"
| "jdiv _ NaN = NaN"
| "jdiv (Fin a) _ = Fin 0"
| "jdiv a (Fin b) = inf_of (jsgn a * (if b < 0 then - 1 else 1))"
| "jdiv _ _ = NaN"

fun jabs :: "jsnum \<Rightarrow> jsnum" where
  "jabs NaN = NaN"
| "jabs (Fin a) = Fin \<bar>a\<bar>"
| "jabs _ = PInf"

fun finite_num :: "jsnum \<Rightarrow> bool" where
  "finite_num (Fin a) = True"
| "finite_num _ = False"

text \<open>
  The values a property or an option can hold here: \<open>undefined\<close>, \<open>null\<close>, a number,
  or a function object (identified by a number; the code below never calls one).
  Strings, booleans and nested objects as property values are outside the model.
\<close>

datatype jsval = Undefined | Null | Num jsnum | Closure nat

fun ToNumber :: "jsval \<Rightarrow> jsnum" where
  "ToNumber Undefined = NaN"
| "ToNumber Null = Fin 0"
| "ToNumber (Num n) = n"
| "ToNumber (Closure f) = NaN"

fun truthy :: "jsval \<Rightarrow> bool" where
  "truthy Undefined = False"
| "truthy Null = False"
| "truthy (Num NaN) = False"
| "truthy (Num (Fin a)) = (a \<noteq> 0)"
| "truthy (Num _) = True"
| "truthy (Closure f) = True"

text \<open>The operators of the source: \<open>a || b\<close>, and the arithmetic ones, which convert
  their operands with ToNumber. The binary \<open>+\<close> is numeric addition on the operands it
  meets here: every peak the resolvers see comes out of \<open>JSON.parse\<close>, so its
  properties are numbers, \<open>null\<close> or absent (see \<open>jsonObj\<close>), never a function or a
  string, for which \<open>+\<close> would concatenate.\<close>

definition js_or :: "jsval \<Rightarrow> jsval \<Rightarrow> jsval" where
  "js_or a b = (if truthy a then a else b)"

definition js_plus :: "jsval \<Rightarrow> jsval \<Rightarrow> jsval" where
  "js_plus a b = Num (jadd (ToNumber a) (ToNumber b))"

definition js_minus :: "jsval \<Rightarrow> jsval \<Rightarrow> jsval" where
  "js_minus a b = Num (jsub (ToNumber a) (ToNumber b))"

definition js_times :: "jsval \<Rightarrow> jsval \<Rightarrow> jsval" where
  "js_times a b = Num (jmul (ToNumber a) (ToNumber b))"

definition js_over :: "jsval \<Rightarrow> jsval \<Rightarrow> jsval" where
  "js_over a b = Num (jdiv (ToNumber a) (ToNumber b))"

section \<open>Objects\<close>

text \<open>An object is its list of properties in insertion order. Reading an absent
  property gives \<open>undefined\<close>; writing replaces the value or appends the property.\<close>

type_synonym obj = "(string \<times> jsval) list"

definition getProp :: "obj \<Rightarrow> string \<Rightarrow> jsval" where
  "getProp ob k = (case map_of ob k of None \<Rightarrow> Undefined | Some v \<Rightarrow> v)"

fun setProp :: "obj \<Rightarrow> string \<Rightarrow> jsval \<Rightarrow> obj" where
  "setProp [] k v = [(k, v)]"
| "setProp (p # ps) k v = (if fst p = k then (k, v) # ps else p # setProp ps k v)"

text \<open>\<open>JSON.parse(JSON.stringify(o))\<close> on one property value: \<open>undefined\<close> and
  functions are left out, \<open>NaN\<close> and the infinities come back as \<open>null\<close>.\<close>

fun jsonValue :: "jsval \<Rightarrow> jsval option" where
  "jsonValue Undefined = None"
| "jsonValue (Closure f) = None"
| "jsonValue Null = Some Null"
| "jsonValue (Num (Fin a)) = Some (Num (Fin a))"
| "jsonValue (Num _) = Some Null"

fun jsonObj :: "obj \<Rightarrow> obj" where
  "jsonObj [] = []"
| "jsonObj ((k, v) # ps) =
     (case jsonValue v of None \<Rightarrow> jsonObj ps | Some w \<Rightarrow> (k, w) # jsonObj ps)"

section \<open>Errors\<close>

datatype error = Error string | TypeError string

section \<open>The value resolver of index.js (first \<open>optimize\<close>)\<close>

definition STATE_INIT :: int where "STATE_INIT = 0"
definition STATE_MIN :: int where "STATE_MIN = 1"
definition STATE_MAX :: int where "STATE_MAX = 2"
definition STATE_GRADIENT_DIFFERENCE :: int where "STATE_GRADIENT_DIFFERENCE = 3"

definition X :: int where "X = 0"
definition Y :: int where "Y = 1"
definition WIDTH :: int where "WIDTH = 2"
definition MU :: int where "MU = 3"

definition keys :: "string list" where
  "keys = [''x'', ''y'', ''width'', ''mu'']"

text \<open>The \<open>getValueOptions\<close> object that \<open>checkInput\<close> hands to \<open>optimize\<close>; the
  resolver reads these thirteen properties of it.\<close>

record getValueOptions =
  maxY :: jsval
  minFactorX :: jsval
  maxFactorX :: jsval
  minFactorY :: jsval
  maxFactorY :: jsval
  minFactorWidth :: jsval
  maxFactorWidth :: jsval
  minMuValue :: jsval
  maxMuValue :: jsval
  xGradientDifference :: jsval
  yGradientDifference :: jsval
  widthGradientDifference :: jsval
  muGradientDifference :: jsval

text \<open>The defaults that the documentation comment of \<open>optimize\<close> (index.js, lines
  24 to 35) gives for these options; \<open>maxY\<close> is the maximum of the data.\<close>

definition defaultOptions :: "jsval \<Rightarrow> getValueOptions" where
  "defaultOptions m =
     \<lparr> maxY = m,
       minFactorX = Num (Fin 2), maxFactorX = Num (Fin 2),
       minFactorY = Num (Fin 0), maxFactorY = Num (Fin (3 / 2)),
       minFactorWidth = Num (Fin (1 / 4)), maxFactorWidth = Num (Fin 4),
       minMuValue = Num (Fin 0), maxMuValue = Num (Fin 1),
       xGradientDifference = Undefined,
       yGradientDifference = Num (Fin (1 / 1000)),
       widthGradientDifference = Undefined,
       muGradientDifference = Num (Fin (1 / 100)) \<rparr>"

definition getValue :: "int \<Rightarrow> obj \<Rightarrow> int \<Rightarrow> getValueOptions \<Rightarrow> error + jsval" where
  "getValue parameterIndex peak state opts =
    (if state = STATE_INIT then
       (if parameterIndex = X then Inr (getProp peak ''x'')
        else if parameterIndex = Y then Inr (js_over (getProp peak ''y'') (maxY opts))
        else if parameterIndex = WIDTH then Inr (getProp peak ''width'')
        else if parameterIndex = MU then Inr (js_or (getProp peak ''mu'') (Num (Fin (1 / 2))))
        else Inl (Error ''The parameter is not supported''))
     else if state = STATE_GRADIENT_DIFFERENCE then
       (if parameterIndex = X then
          Inr (if getProp peak ''xGradientDifference'' \<noteq> Undefined
               then getProp peak ''xGradientDifference''
               else if xGradientDifference opts \<noteq> Undefined
               then xGradientDifference opts
               else js_over (getProp peak ''width'') (Num (Fin 2000)))
        else if parameterIndex = Y then
          Inr (if getProp peak ''yGradientDifference'' \<noteq> Undefined
               then getProp peak ''yGradientDifference''
               else yGradientDifference opts)
        else if parameterIndex = WIDTH then
          Inr (if getProp peak ''widthGradientDifference'' \<noteq> Undefined
               then getProp peak ''widthGradientDifference''
               else if widthGradientDifference opts \<noteq> Undefined
               then widthGradientDifference opts
               else js_over (getProp peak ''width'') (Num (Fin 2000)))
        else if parameterIndex = MU then
          Inr (if getProp peak ''muGradientDifference'' \<noteq> Undefined
               then getProp peak ''muGradientDifference''
               else muGradientDifference opts)
        else Inl (Error ''The parameter is not supported''))
     else if state = STATE_MIN then
       (if parameterIndex = X then
          Inr (js_minus (getProp peak ''x'') (js_times (getProp peak ''width'') (minFactorX opts)))
        else if parameterIndex = Y then
          Inr (js_times (js_over (getProp peak ''y'') (maxY opts)) (minFactorY opts))
        else if parameterIndex = WIDTH then
          Inr (js_times (getProp peak ''width'') (minFactorWidth opts))
        else if parameterIndex = MU then Inr (minMuValue opts)
        else Inl (Error ''The parameter is not supported''))
     else if state = STATE_MAX then
       (if parameterIndex = X then
          Inr (js_plus (getProp peak ''x'') (js_times (getProp peak ''width'') (maxFactorX opts)))
        else if parameterIndex = Y then
          Inr (js_times (js_over (getProp peak ''y'') (maxY opts)) (maxFactorY opts))
        else if parameterIndex = WIDTH then
          Inr (js_times (getProp peak ''width'') (maxFactorWidth opts))
        else if parameterIndex = MU then Inr (maxMuValue opts)
        else Inl (Error ''The parameter is not supported''))
     else Inl (Error ''the state is not supported''))"

section \<open>The value resolver of the second \<open>optimize\<close> of index.js\<close>

text \<open>The second \<open>optimize\<close> (index.js, from line 194) has a resolver of its own,
  also called \<open>getValue\<close> in the source; it takes the sampling step \<open>dt\<close> and has no
  gradient-step state.\<close>

definition getValue2 :: "int \<Rightarrow> obj \<Rightarrow> int \<Rightarrow> jsnum \<Rightarrow> jsval" where
  "getValue2 parameterIndex peak key dt =
    (if parameterIndex = 0 then
       (if key = STATE_INIT then getProp peak ''x''
        else if key = STATE_MIN then js_minus (getProp peak ''x'') (Num dt)
        else js_plus (getProp peak ''x'') (Num dt))
     else if parameterIndex = 1 then
       (if key = STATE_INIT then getProp peak ''y''
        else if key = STATE_MIN then Num (Fin 0) else Num (Fin (3 / 2)))
     else if parameterIndex = 2 then
       (if key = STATE_INIT then getProp peak ''width''
        else if key = STATE_MIN then js_over (getProp peak ''width'') (Num (Fin 4))
        else js_times (getProp peak ''width'') (Num (Fin 4)))
     else
       (if key = STATE_INIT then Num (Fin (1 / 2))
        else if key = STATE_MIN then Num (Fin 0) else Num (Fin 1)))"

section \<open>The shape model library (shapes/)\<close>

text \<open>\<open>p[r]\<close> for a numeric key: an element when \<open>r\<close> is an index of the array,
  \<open>undefined\<close> otherwise (also for a key that is not an integer).\<close>

definition elemAt :: "jsnum list \<Rightarrow> real \<Rightarrow> jsval" where
  "elemAt p r =
     (if 0 \<le> r \<and> r = of_int \<lfloor>r\<rfloor> \<and> nat \<lfloor>r\<rfloor> < length p then Num (p ! nat \<lfloor>r\<rfloor>)
      else Undefined)"

text \<open>The loop \<open>for (let i = 0; i < nL; i++) result += body(i)\<close> shared by the three
  functions; \<open>nL\<close> is a quotient and need not be an integer.\<close>

function sumLoop :: "real \<Rightarrow> (nat \<Rightarrow> jsnum) \<Rightarrow> nat \<Rightarrow> jsnum \<Rightarrow> jsnum" where
  "sumLoop nL body i result =
     (if real i < nL then sumLoop nL body (i + 1) (jadd result (body i)) else result)"
  by pat_completeness auto
termination
proof (relation "measure (\<lambda>(nL, body, i, result). nat \<lceil>nL\<rceil> - i)")
  show "wf (measure (\<lambda>(nL, body, i, result). nat \<lceil>nL\<rceil> - i))"
    by simp
next
  fix nL :: real and body :: "nat \<Rightarrow> jsnum" and i :: nat and result :: jsnum
  assume "real i < nL"
  then have "int i < \<lceil>nL\<rceil>"
    by linarith
  then show "((nL, body, i + 1, jadd result (body i)), (nL, body, i, result))
      \<in> measure (\<lambda>(nL, body, i, result). nat \<lceil>nL\<rceil> - i)"
    by simp
qed

declare sumLoop.simps [simp del]

text \<open>The evaluators \<open>gaussianFct\<close>, \<open>lorentzianFct\<close> and \<open>pseudovoigtFct\<close> come from
  the package ml-peak-shape-generator; they are parameters here.\<close>

type_synonym evaluator3 = "jsval \<Rightarrow> jsval \<Rightarrow> jsval \<Rightarrow> jsnum \<Rightarrow> jsnum"
type_synonym evaluator4 = "jsval \<Rightarrow> jsval \<Rightarrow> jsval \<Rightarrow> jsval \<Rightarrow> jsnum \<Rightarrow> jsnum"

definition sumOfGaussians :: "evaluator3 \<Rightarrow> jsnum list \<Rightarrow> jsnum \<Rightarrow> jsnum" where
  "sumOfGaussians gaussianFct p t =
     (let nL = real (length p) / 3 in
      sumLoop nL
        (\<lambda>i. gaussianFct (elemAt p (real i)) (elemAt p (real i + nL))
               (elemAt p (real i + nL * 2)) t)
        0 (Fin 0))"

definition sumOfLorentzians :: "evaluator3 \<Rightarrow> jsnum list \<Rightarrow> jsnum \<Rightarrow> jsnum" where
  "sumOfLorentzians lorentzianFct p t =
     (let nL = real (length p) / 3 in
      sumLoop nL
        (\<lambda>i. lorentzianFct (elemAt p (real i)) (elemAt p (real i + nL))
               (elemAt p (real i + nL * 2)) t)
        0 (Fin 0))"

definition sumOfGaussianLorentzians :: "evaluator4 \<Rightarrow> jsnum list \<Rightarrow> jsnum \<Rightarrow> jsnum" where
  "sumOfGaussianLorentzians pseudovoigtFct p t =
     (let nL = real (length p) / 4 in
      sumLoop nL
        (\<lambda>i. pseudovoigtFct (elemAt p (real i)) (elemAt p (real i + nL))
               (elemAt p (real i + nL * 2)) (elemAt p (real i + nL * 3)) t)
        0 (Fin 0))"

section \<open>The override resolution of checkInput\<close>

text \<open>An override in the options: a literal, or a function of the peak.\<close>

datatype resolvable = Literal jsnum | FunctionOfPeak "obj \<Rightarrow> jsval"

text \<open>Modelled from the spec: \<open>optimization.parameters.x.max\<close> as \<open>checkInput\<close> returns
  it. The file checkInput.js is not under src/ (only its test is). The test reads
  \<open>parameters.x.max[0](peaks[0])\<close>: the value is an array with one function per peak,
  and the bound of peak \<open>i\<close> is entry \<open>i\<close> applied to peak \<open>i\<close>. The spec has each
  quantity resolved in the order: the peak's own literal field (named in the style of
  \<open>xMin\<close>, here \<open>xMax\<close>), then the option for the parameter kind (a literal, or a
  function of the peak, which is kept and called when the vectors are built), then the
  built-in default, here \<open>x + width \<sqdot> 2\<close>.\<close>

definition checkInput_parameters_x_max :: "resolvable option \<Rightarrow> obj list \<Rightarrow> (obj \<Rightarrow> jsnum) list" where
  "checkInput_parameters_x_max option peaks =
     map (\<lambda>peak.
            (case getProp peak ''xMax'' of
               Num n \<Rightarrow> (\<lambda>p. n)
             | _ \<Rightarrow>
               (case option of
                  Some (Literal n) \<Rightarrow> (\<lambda>p. n)
                | Some (FunctionOfPeak f) \<Rightarrow> (\<lambda>p. ToNumber (f p))
                | None \<Rightarrow>
                    (\<lambda>p. ToNumber (js_plus (getProp p ''x'')
                                       (js_times (getProp p ''width'') (Num (Fin 2))))))))
         peaks"

text \<open>The function \<open>peak => peak.x + peak.width * 0.1\<close> of the test.\<close>

definition testOverride :: "obj \<Rightarrow> jsval" where
  "testOverride peak =
     js_plus (getProp peak ''x'') (js_times (getProp peak ''width'') (Num (Fin (1 / 10))))"

section \<open>The heap\<close>

text \<open>The caller's peak objects and the array that holds them live in a heap: a list
  of cells, an address being an index. A new cell goes to the end. This makes
  aliasing and in-place writes visible.\<close>

datatype cell = Obj obj | Arr "nat list"

definition isObjAt :: "cell list \<Rightarrow> nat \<Rightarrow> bool" where
  "isObjAt h a = (a < length h \<and> (case h ! a of Obj ob \<Rightarrow> True | Arr as \<Rightarrow> False))"

definition objAt :: "cell list \<Rightarrow> nat \<Rightarrow> obj" where
  "objAt h a = (if a < length h then (case h ! a of Obj ob \<Rightarrow> ob | Arr as \<Rightarrow> []) else [])"

text \<open>\<open>o[k] = v\<close> on the object at address \<open>a\<close>.\<close>

definition setField :: "cell list \<Rightarrow> nat \<Rightarrow> string \<Rightarrow> jsval \<Rightarrow> cell list" where
  "setField h a k v =
     (if a < length h then (case h ! a of Obj ob \<Rightarrow> h[a := Obj (setProp ob k v)] | Arr as \<Rightarrow> h)
      else h)"

text \<open>\<open>JSON.parse(JSON.stringify(peaks))\<close>: a new object for every element and a new
  array of them. The answer is the new heap, the address of the new array and its
  elements. A \<open>peaks\<close> argument that is not an array of objects is outside the model;
  the function answers with a TypeError there.\<close>

definition jsonCopy :: "cell list \<Rightarrow> nat \<Rightarrow> error + (cell list \<times> nat \<times> nat list)" where
  "jsonCopy h p =
     (if p < length h then
        (case h ! p of
           Arr as \<Rightarrow>
             (if list_all (isObjAt h) as then
                (let base = length h;
                     copies = [base ..< base + length as]
                 in Inr (h @ map (\<lambda>a. Obj (jsonObj (objAt h a))) as @ [Arr copies],
                         base + length as, copies))
              else Inl (TypeError ''peaks is not an array of objects''))
         | Obj ob \<Rightarrow> Inl (TypeError ''peaks is not an array of objects''))
      else Inl (TypeError ''peaks is not an array of objects''))"

section \<open>The parameter vectors\<close>

text \<open>A Float64Array is a list of numbers. A store converts the value with ToNumber
  and is ignored out of range; a read out of range gives \<open>undefined\<close>.\<close>

definition store :: "jsnum list \<Rightarrow> nat \<Rightarrow> jsval \<Rightarrow> jsnum list" where
  "store xs j v = (if j < length xs then xs[j := ToNumber v] else xs)"

definition load :: "jsnum list \<Rightarrow> nat \<Rightarrow> jsval" where
  "load xs j = (if j < length xs then Num (xs ! j) else Undefined)"

record vectors =
  pInit :: "jsnum list"
  pMin :: "jsnum list"
  pMax :: "jsnum list"
  pGrad :: "jsnum list"

text \<open>The inner loop of lines 63 to 73, over the parameter kinds \<open>s\<close> of peak \<open>i\<close>.\<close>

function fillParams ::
  "nat \<Rightarrow> nat \<Rightarrow> nat \<Rightarrow> nat \<Rightarrow> obj \<Rightarrow> getValueOptions \<Rightarrow> vectors \<Rightarrow> error + vectors" where
  "fillParams s nbParams i nbShapes peak opts v =
     (if s < nbParams then
        (case getValue (int s) peak STATE_INIT opts of Inl e \<Rightarrow> Inl e | Inr a \<Rightarrow>
         case getValue (int s) peak STATE_MIN opts of Inl e \<Rightarrow> Inl e | Inr b \<Rightarrow>
         case getValue (int s) peak STATE_MAX opts of Inl e \<Rightarrow> Inl e | Inr c \<Rightarrow>
         case getValue (int s) peak STATE_GRADIENT_DIFFERENCE opts of Inl e \<Rightarrow> Inl e | Inr d \<Rightarrow>
           fillParams (s + 1) nbParams i nbShapes peak opts
             \<lparr> pInit = store (pInit v) (i + s * nbShapes) a,
               pMin = store (pMin v) (i + s * nbShapes) b,
               pMax = store (pMax v) (i + s * nbShapes) c,
               pGrad = store (pGrad v) (i + s * nbShapes) d \<rparr>)
      else Inr v)"
  by pat_completeness auto
termination
  by (relation "measure (\<lambda>(s, nbParams, i, nbShapes, peak, opts, v). nbParams - s)") auto

declare fillParams.simps [simp del]

text \<open>The outer loop of lines 61 to 74, over the copied peaks.\<close>

function fillPeaks ::
  "nat \<Rightarrow> nat \<Rightarrow> nat \<Rightarrow> obj list \<Rightarrow> getValueOptions \<Rightarrow> vectors \<Rightarrow> error + vectors" where
  "fillPeaks i nbShapes nbParams peaks opts v =
     (if i < nbShapes then
        (case fillParams 0 nbParams i nbShapes (peaks ! i) opts v of
           Inl e \<Rightarrow> Inl e
         | Inr v' \<Rightarrow> fillPeaks (i + 1) nbShapes nbParams peaks opts v')
      else Inr v)"
  by pat_completeness auto
termination
  by (relation "measure (\<lambda>(i, nbShapes, nbParams, peaks, opts, v). nbShapes - i)") auto

declare fillPeaks.simps [simp del]

definition buildVectors :: "nat \<Rightarrow> obj list \<Rightarrow> getValueOptions \<Rightarrow> error + vectors" where
  "buildVectors nbParams peaks opts =
     (let nbShapes = length peaks;
          zeros = replicate (nbShapes * nbParams) (Fin 0)
      in fillPeaks 0 nbShapes nbParams peaks opts
           \<lparr> pInit = zeros, pMin = zeros, pMax = zeros, pGrad = zeros \<rparr>)"

section \<open>Decoding the fitted vector\<close>

definition keyAt :: "nat \<Rightarrow> string" where
  "keyAt s = (if s < length keys then keys ! s else ''undefined'')"

text \<open>The inner loop of lines 89 to 92: \<open>peaks[i][keys[s]] = parameterValues[i + s * n]\<close>.\<close>

function decodeParams ::
  "nat \<Rightarrow> nat \<Rightarrow> nat \<Rightarrow> nat \<Rightarrow> nat \<Rightarrow> jsnum list \<Rightarrow> cell list \<Rightarrow> cell list" where
  "decodeParams s nbParams i n a pv h =
     (if s < nbParams then
        decodeParams (s + 1) nbParams i n a pv (setField h a (keyAt s) (load pv (i + s * n)))
      else h)"
  by pat_completeness auto
termination
  by (relation "measure (\<lambda>(s, nbParams, i, n, a, pv, h). nbParams - s)") auto

declare decodeParams.simps [simp del]

text \<open>\<open>parameterValues[j] *= maxY\<close> on a typed array.\<close>

definition scaleAt :: "jsnum list \<Rightarrow> nat \<Rightarrow> jsval \<Rightarrow> jsnum list" where
  "scaleAt pv j m = store pv j (js_times (load pv j) m)"

text \<open>The outer loop of lines 87 to 93, over the copied peaks at the addresses \<open>as\<close>.\<close>

function decodePeaks ::
  "nat \<Rightarrow> nat list \<Rightarrow> nat \<Rightarrow> jsval \<Rightarrow> jsnum list \<Rightarrow> cell list \<Rightarrow> cell list" where
  "decodePeaks i as nbParams m pv h =
     (if i < length as then
        (let pv' = scaleAt pv (i + length as) m
         in decodePeaks (i + 1) as nbParams m pv'
              (decodeParams 0 nbParams i (length as) (as ! i) pv' h))
      else h)"
  by pat_completeness auto
termination
  by (relation "measure (\<lambda>(i, as, nbParams, m, pv, h). length as - i)") auto

declare decodePeaks.simps [simp del]

section \<open>The first \<open>optimize\<close> of index.js\<close>

record data =
  data_x :: "jsnum list"
  data_y :: "jsnum list"

text \<open>What the solver is called with: the data, the model constructor, and the options
  object of \<open>selectMethod\<close> with the vectors attached.\<close>

record ('pf, 'so) solverCall =
  call_x :: "jsnum list"
  call_y :: "jsnum list"
  paramsFunc :: 'pf
  optimizationOptions :: 'so
  minValues :: "jsnum list"
  maxValues :: "jsnum list"
  initialValues :: "jsnum list"
  gradientDifference :: "jsnum list option"

record pFit =
  parameterValues :: "jsnum list"
  parameterError :: jsval
  iterations :: jsval

type_synonym ('pf, 'so) algorithm = "('pf, 'so) solverCall \<Rightarrow> error + pFit"

text \<open>The state that \<open>optimize\<close> works on: the heap, and the calls made to the solver
  so far.\<close>

record ('pf, 'so) state =
  heap :: "cell list"
  solverLog :: "('pf, 'so) solverCall list"

text \<open>The object \<open>checkInput\<close> returns. \<open>checkInput\<close> and \<open>selectMethod\<close> are not under
  src/; \<open>optimize\<close> takes them as parameters.\<close>

record ('pf, 'opt) checked =
  ck_y :: "jsnum list"
  ck_x :: "jsnum list"
  ck_maxY :: jsval
  ck_nbParams :: nat
  ck_paramsFunc :: 'pf
  ck_optimization :: 'opt
  ck_getValueOptions :: getValueOptions

record result =
  res_error :: jsval
  res_iterations :: jsval
  res_peaks :: nat

definition optimize ::
  "(data \<Rightarrow> 'o \<Rightarrow> error + ('pf, 'opt) checked) \<Rightarrow>
   ('opt \<Rightarrow> error + (('pf, 'so) algorithm \<times> 'so)) \<Rightarrow>
   ('pf, 'so) state \<Rightarrow> data \<Rightarrow> nat \<Rightarrow> 'o \<Rightarrow> (error + result) \<times> ('pf, 'so) state" where
  "optimize checkInput selectMethod st dat peaks opts =
     (case checkInput dat opts of Inl e \<Rightarrow> (Inl e, st) | Inr c \<Rightarrow>
      case jsonCopy (heap st) peaks of Inl e \<Rightarrow> (Inl e, st) | Inr (h1, peaks', as) \<Rightarrow>
      let st1 = st\<lparr>heap := h1\<rparr> in
      case buildVectors (ck_nbParams c) (map (objAt h1) as) (ck_getValueOptions c) of
        Inl e \<Rightarrow> (Inl e, st1) | Inr v \<Rightarrow>
      case selectMethod (ck_optimization c) of Inl e \<Rightarrow> (Inl e, st1) | Inr (algorithm, so) \<Rightarrow>
      let call = \<lparr> call_x = ck_x c, call_y = ck_y c, paramsFunc = ck_paramsFunc c,
                   optimizationOptions = so,
                   minValues = pMin v, maxValues = pMax v, initialValues = pInit v,
                   gradientDifference = Some (pGrad v) \<rparr>;
          st2 = st1\<lparr>solverLog := solverLog st1 @ [call]\<rparr> in
      case algorithm call of Inl e \<Rightarrow> (Inl e, st2) | Inr fit \<Rightarrow>
        (Inr \<lparr> res_error = parameterError fit, res_iterations = iterations fit,
               res_peaks = peaks' \<rparr>,
         st2\<lparr>heap := decodePeaks 0 as (ck_nbParams c) (ck_maxY c) (parameterValues fit) h1\<rparr>))"

section \<open>The second \<open>optimize\<close> of index.js\<close>

record shape =
  kind :: "string option"

record 'u optimization =
  opt_kind :: string
  opt_options :: "'u option"

record 'u options2 =
  shape :: "shape option"
  optimization :: "'u optimization option"

type_synonym model = "jsnum list \<Rightarrow> jsnum \<Rightarrow> jsnum"

text \<open>What the second \<open>optimize\<close> imports: \<open>getKind\<close> and the evaluators from
  ml-peak-shape-generator, \<open>getMaxValue\<close> from ml-array-max, and \<open>selectMethod\<close>.\<close>

record ('u, 'so) imports2 =
  getKind :: "string option \<Rightarrow> error + int"
  getMaxValue :: "jsnum list \<Rightarrow> error + jsnum"
  selectMethod2 :: "'u optimization \<Rightarrow> error + ((model, 'so) algorithm \<times> 'so)"
  gaussianFct :: evaluator3
  lorentzianFct :: evaluator3
  pseudovoigtFct :: evaluator4

text \<open>The loops of lines 234 to 241; this resolver raises nothing.\<close>

function fillParams2 ::
  "nat \<Rightarrow> nat \<Rightarrow> nat \<Rightarrow> nat \<Rightarrow> obj \<Rightarrow> jsnum \<Rightarrow> vectors \<Rightarrow> vectors" where
  "fillParams2 s nbParams i n peak deltaX v =
     (if s < nbParams then
        fillParams2 (s + 1) nbParams i n peak deltaX
          (v\<lparr> pInit := store (pInit v) (i + s * n) (getValue2 (int s) peak STATE_INIT deltaX),
              pMin := store (pMin v) (i + s * n) (getValue2 (int s) peak STATE_MIN deltaX),
              pMax := store (pMax v) (i + s * n) (getValue2 (int s) peak STATE_MAX deltaX) \<rparr>)
      else v)"
  by pat_completeness auto
termination
  by (relation "measure (\<lambda>(s, nbParams, i, n, peak, deltaX, v). nbParams - s)") auto

declare fillParams2.simps [simp del]

function fillPeaks2 ::
  "nat \<Rightarrow> nat \<Rightarrow> obj list \<Rightarrow> jsnum \<Rightarrow> vectors \<Rightarrow> vectors" where
  "fillPeaks2 i nbParams peaks deltaX v =
     (if i < length peaks then
        fillPeaks2 (i + 1) nbParams peaks deltaX
          (fillParams2 0 nbParams i (length peaks) (peaks ! i) deltaX v)
      else v)"
  by pat_completeness auto
termination
  by (relation "measure (\<lambda>(i, nbParams, peaks, deltaX, v). length peaks - i)") auto

declare fillPeaks2.simps [simp del]

definition buildVectors2 :: "nat \<Rightarrow> obj list \<Rightarrow> jsnum \<Rightarrow> vectors" where
  "buildVectors2 nbParams peaks deltaX =
     (let zeros = replicate (length peaks * nbParams) (Fin 0)
      in fillPeaks2 0 nbParams peaks deltaX
           \<lparr> pInit = zeros, pMin = zeros, pMax = zeros, pGrad = [] \<rparr>)"

definition optimize2 ::
  "('u, 'so) imports2 \<Rightarrow> (model, 'so) state \<Rightarrow> data \<Rightarrow> nat \<Rightarrow> 'u options2 \<Rightarrow>
   (error + result) \<times> (model, 'so) state" where
  "optimize2 imp st dat peaks opts =
     (let shape' = (case shape opts of None \<Rightarrow> \<lparr> kind = Some ''gaussian'' \<rparr> | Some sh \<Rightarrow> sh);
          optimization' = (case optimization opts of
                             None \<Rightarrow> \<lparr> opt_kind = ''lm'', opt_options = None \<rparr>
                           | Some ou \<Rightarrow> ou) in
      case jsonCopy (heap st) peaks of Inl e \<Rightarrow> (Inl e, st) | Inr (h1, peaks', as) \<Rightarrow>
      let st1 = st\<lparr>heap := h1\<rparr> in
      case getKind imp (kind shape') of Inl e \<Rightarrow> (Inl e, st1) | Inr knd \<Rightarrow>
      let x = data_x dat in
      case getMaxValue imp (data_y dat) of Inl e \<Rightarrow> (Inl e, st1) | Inr m \<Rightarrow>
      let y = map (\<lambda>e. jdiv e m) (data_y dat) in
      case (if knd = 1 then Inr (3, sumOfGaussians (gaussianFct imp))
            else if knd = 2 then Inr (3, sumOfLorentzians (lorentzianFct imp))
            else if knd = 3 then Inr (4, sumOfGaussianLorentzians (pseudovoigtFct imp))
            else Inl (Error ''kind of shape is not supported'')) of
        Inl e \<Rightarrow> (Inl e, st1) | Inr (nbParams, pf) \<Rightarrow>
      let deltaX = jabs (jsub (ToNumber (load (data_x dat) 0)) (ToNumber (load (data_x dat) 1)));
          v = buildVectors2 nbParams (map (objAt h1) as) deltaX in
      case selectMethod2 imp optimization' of Inl e \<Rightarrow> (Inl e, st1) | Inr (algorithm, so) \<Rightarrow>
      let call = \<lparr> call_x = x, call_y = y, paramsFunc = pf,
                   optimizationOptions = so,
                   minValues = pMin v, maxValues = pMax v, initialValues = pInit v,
                   gradientDifference = None \<rparr>;
          st2 = st1\<lparr>solverLog := solverLog st1 @ [call]\<rparr> in
      case algorithm call of Inl e \<Rightarrow> (Inl e, st2) | Inr fit \<Rightarrow>
        (Inr \<lparr> res_error = parameterError fit, res_iterations = iterations fit,
               res_peaks = peaks' \<rparr>,
         st2\<lparr>heap := decodePeaks 0 as nbParams (Num m) (parameterValues fit) h1\<rparr>))"

section \<open>The peak of the test\<close>

text \<open>The peak \<open>{ x: 0, y: 1, width: 2 }\<close> and the abscissas \<open>[-1, 0, 1]\<close> of
  __tests__/checkInput.test.js.\<close>

definition testPeak :: obj where
  "testPeak = [(''x'', Num (Fin 0)), (''y'', Num (Fin 1)), (''width'', Num (Fin 2))]"

definition testX :: "jsnum list" where
  "testX = [Fin (- 1), Fin 0, Fin 1]"

section \<open>Examples\<close>

text \<open>A caller's heap with the array \<open>peaks\<close> at address 0 and the peak of the test
  at address 1; the same with a mixing fraction of 0, and with a width of 0.\<close>

definition testHeap :: "cell list" where
  "testHeap = [Arr [1], Obj testPeak]"

definition zeroMuHeap :: "cell list" where
  "zeroMuHeap = [Arr [1], Obj (testPeak @ [(''mu'', Num (Fin 0))])]"

definition zeroWidthPeak :: obj where
  "zeroWidthPeak = [(''x'', Num (Fin 0)), (''y'', Num (Fin 1)), (''width'', Num (Fin 0))]"

definition zeroWidthHeap :: "cell list" where
  "zeroWidthHeap = [Arr [1], Obj zeroWidthPeak]"

text \<open>A caller's heap with an empty array \<open>peaks\<close> at address 0.\<close>

definition emptyPeaksHeap :: "cell list" where
  "emptyPeaksHeap = [Arr []]"

text \<open>The data of the test, and data whose \<open>x\<close> and \<open>y\<close> differ in length.\<close>

definition testData :: data where
  "testData = \<lparr> data_x = testX, data_y = [Fin 1, Fin 2, Fin 1] \<rparr>"

definition unequalData :: data where
  "unequalData = \<lparr> data_x = testX, data_y = [Fin 1, Fin 2] \<rparr>"

text \<open>The identity solver of the layout property in the spec: it returns its initial
  values unchanged.\<close>

definition identitySolver :: "('pf, 'so) algorithm" where
  "identitySolver call =
     Inr \<lparr> parameterValues = initialValues call, parameterError = Num (Fin 0),
           iterations = Num (Fin 0) \<rparr>"

text \<open>Stand-ins for the two functions that are not under src/, for the examples only.
  \<open>checkInputStub nb m\<close> returns what the spec has \<open>checkInput\<close> return for a supported
  kind with \<open>nb\<close> parameters per peak under the default options, \<open>m\<close> being the maximum
  of \<open>data.y\<close>; \<open>selectMethodStub\<close> returns the identity solver.\<close>

definition checkedStub :: "nat \<Rightarrow> jsnum \<Rightarrow> data \<Rightarrow> (unit, unit) checked" where
  "checkedStub nb m dat =
     \<lparr> ck_y = map (\<lambda>e. jdiv e m) (data_y dat), ck_x = data_x dat, ck_maxY = Num m,
       ck_nbParams = nb, ck_paramsFunc = (), ck_optimization = (),
       ck_getValueOptions = defaultOptions (Num m) \<rparr>"

definition checkInputStub :: "nat \<Rightarrow> jsnum \<Rightarrow> data \<Rightarrow> unit \<Rightarrow> error + (unit, unit) checked" where
  "checkInputStub nb m dat opts = Inr (checkedStub nb m dat)"

definition selectMethodStub :: "unit \<Rightarrow> error + ((unit, unit) algorithm \<times> unit)" where
  "selectMethodStub opt = Inr (identitySolver, ())"

text \<open>Stand-ins for the imports of the second \<open>optimize\<close>, for the examples only:
  \<open>getKind\<close> knows the three shape names, \<open>getMaxValue\<close> is the maximum of finite
  numbers, the evaluators return the height.\<close>

fun maxFin :: "jsnum list \<Rightarrow> error + jsnum" where
  "maxFin [] = Inl (TypeError ''input must not be empty'')"
| "maxFin [a] = Inr a"
| "maxFin (Fin a # Fin b # xs) = maxFin (Fin (max a b) # xs)"
| "maxFin (a # b # xs) = Inr NaN"

definition imports2Stub :: "(unit, unit) imports2" where
  "imports2Stub =
     \<lparr> getKind = (\<lambda>k. if k = Some ''gaussian'' then Inr 1
                        else if k = Some ''lorentzian'' then Inr 2
                        else if k = Some ''pseudovoigt'' then Inr 3
                        else Inl (Error ''Unknown kind'')),
       getMaxValue = maxFin,
       selectMethod2 = (\<lambda>opt. Inr (identitySolver, ())),
       gaussianFct = (\<lambda>x y w t. ToNumber y),
       lorentzianFct = (\<lambda>x y w t. ToNumber y),
       pseudovoigtFct = (\<lambda>x y w mu t. ToNumber y) \<rparr>"

text \<open>A caller's heap with two peaks, \<open>{x: 0, y: 1, width: 2}\<close> and
  \<open>{x: 3, y: 2, width: 8}\<close>; and one whose peak has an infinite position.\<close>

definition secondPeak :: obj where
  "secondPeak = [(''x'', Num (Fin 3)), (''y'', Num (Fin 2)), (''width'', Num (Fin 8))]"

definition twoPeaksHeap :: "cell list" where
  "twoPeaksHeap = [Arr [1, 2], Obj testPeak, Obj secondPeak]"

definition infiniteXPeak :: obj where
  "infiniteXPeak = [(''x'', Num PInf), (''y'', Num (Fin 1)), (''width'', Num (Fin 2))]"

definition infiniteXHeap :: "cell list" where
  "infiniteXHeap = [Arr [1], Obj infiniteXPeak]"

text \<open>Data whose ordinates are all 0, so that their maximum is 0; and data with a
  single abscissa.\<close>

definition flatData :: data where
  "flatData = \<lparr> data_x = testX, data_y = [Fin 0, Fin 0, Fin 0] \<rparr>"

definition singlePointData :: data where
  "singlePointData = \<lparr> data_x = [Fin 5], data_y = [Fin 2] \<rparr>"

section \<open>Closed forms of the loops\<close>

text \<open>What the loops compute, written without recursion; the lemmas below relate the
  loops to these.\<close>

text \<open>The value the resolver returns for kind \<open>s\<close> (\<open>undefined\<close> stands in where it
  raises).\<close>

definition valueAt :: "obj \<Rightarrow> int \<Rightarrow> getValueOptions \<Rightarrow> nat \<Rightarrow> jsval" where
  "valueAt peak state opts s =
     (case getValue (int s) peak state opts of Inl e \<Rightarrow> Undefined | Inr v \<Rightarrow> v)"

text \<open>The stores of one peak into one vector, and of the peaks \<open>i0\<close> up to \<open>i1\<close>.\<close>

definition storeKinds :: "(nat \<Rightarrow> jsval) \<Rightarrow> nat \<Rightarrow> nat \<Rightarrow> nat \<Rightarrow> nat \<Rightarrow> jsnum list \<Rightarrow> jsnum list" where
  "storeKinds f s nbParams i n xs = foldl (\<lambda>ys t. store ys (i + t * n) (f t)) xs [s ..< nbParams]"

definition storePeaks ::
  "(nat \<Rightarrow> nat \<Rightarrow> jsval) \<Rightarrow> nat \<Rightarrow> nat \<Rightarrow> nat \<Rightarrow> nat \<Rightarrow> jsnum list \<Rightarrow> jsnum list" where
  "storePeaks f i0 i1 n nbParams xs =
     foldl (\<lambda>ys i. storeKinds (f i) 0 nbParams i n ys) xs [i0 ..< i1]"

text \<open>The property writes of one peak, and the fitted vector after the height entries
  of the peaks \<open>i0\<close> up to \<open>i1\<close> have been scaled.\<close>

definition writeKinds :: "nat \<Rightarrow> nat \<Rightarrow> nat \<Rightarrow> nat \<Rightarrow> jsnum list \<Rightarrow> obj \<Rightarrow> obj" where
  "writeKinds s nbParams i n pv ob =
     foldl (\<lambda>o' t. setProp o' (keyAt t) (load pv (i + t * n))) ob [s ..< nbParams]"

definition scaled :: "nat \<Rightarrow> nat \<Rightarrow> nat \<Rightarrow> jsval \<Rightarrow> jsnum list \<Rightarrow> jsnum list" where
  "scaled i0 i1 n m pv = foldl (\<lambda>xs j. scaleAt xs (j + n) m) pv [i0 ..< i1]"

text \<open>A well-formed \<open>peaks\<close> argument: the address of an array whose elements are
  addresses of objects; and the elements of that array.\<close>

definition wfPeaks :: "cell list \<Rightarrow> nat \<Rightarrow> bool" where
  "wfPeaks h p =
     (p < length h \<and> (case h ! p of Arr as \<Rightarrow> list_all (isObjAt h) as | Obj ob \<Rightarrow> False))"

definition peakAddrs :: "cell list \<Rightarrow> nat \<Rightarrow> nat list" where
  "peakAddrs h p = (if p < length h then (case h ! p of Arr as \<Rightarrow> as | Obj ob \<Rightarrow> []) else [])"

text \<open>\<open>peaks[i]\<close>, for the array at address \<open>p\<close>.\<close>

definition peakAt :: "cell list \<Rightarrow> nat \<Rightarrow> nat \<Rightarrow> obj" where
  "peakAt h p i = objAt h (peakAddrs h p ! i)"

text \<open>The heap after the copy of a well-formed \<open>peaks\<close> argument, the addresses of the
  copied peaks, and the copied peaks themselves.\<close>

definition copyAddrs :: "cell list \<Rightarrow> nat \<Rightarrow> nat list" where
  "copyAddrs h p = [length h ..< length h + length (peakAddrs h p)]"

definition copiedPeaks :: "cell list \<Rightarrow> nat \<Rightarrow> obj list" where
  "copiedPeaks h p = map (\<lambda>a. jsonObj (objAt h a)) (peakAddrs h p)"

definition copiedHeap :: "cell list \<Rightarrow> nat \<Rightarrow> cell list" where
  "copiedHeap h p = h @ map Obj (copiedPeaks h p) @ [Arr (copyAddrs h p)]"

text \<open>The call that the first \<open>optimize\<close> makes to the solver, from what \<open>checkInput\<close>
  and \<open>selectMethod\<close> returned and the vectors built.\<close>

definition solverCallOf :: "('pf, 'opt) checked \<Rightarrow> 'so \<Rightarrow> vectors \<Rightarrow> ('pf, 'so) solverCall" where
  "solverCallOf c so v =
     \<lparr> call_x = ck_x c, call_y = ck_y c, paramsFunc = ck_paramsFunc c,
       optimizationOptions = so,
       minValues = pMin v, maxValues = pMax v, initialValues = pInit v,
       gradientDifference = Some (pGrad v) \<rparr>"

section \<open>Evaluation rules\<close>

lemmas source_constants = STATE_INIT_def STATE_MIN_def STATE_MAX_def
  STATE_GRADIENT_DIFFERENCE_def X_def Y_def WIDTH_def MU_def

lemmas js_operators = js_or_def js_plus_def js_minus_def js_times_def js_over_def jsub_def

section \<open>The shape model library\<close>

lemma sumLoop_foldl:
  "sumLoop nL body i acc = foldl jadd acc (map body [i ..< nat \<lceil>nL\<rceil>])"
proof (induction nL body i acc rule: sumLoop.induct)
  case (1 nL body i result)
  show ?case
  proof (cases "real i < nL")
    case True
    then have "i < nat \<lceil>nL\<rceil>" by linarith
    then have "[i ..< nat \<lceil>nL\<rceil>] = i # [i + 1 ..< nat \<lceil>nL\<rceil>]"
      by (simp add: upt_conv_Cons)
    with True 1 show ?thesis by (subst sumLoop.simps) simp
  next
    case False
    then have "nat \<lceil>nL\<rceil> \<le> i" by linarith
    with False show ?thesis by (subst sumLoop.simps) simp
  qed
qed

lemma batch_in_range:
  fixes i k n b :: nat
  assumes "i < n" "k < b"
  shows "i + k * n < b * n"
proof -
  from assms(2) have "Suc k * n \<le> b * n"
    by (intro mult_le_mono1) simp
  with assms(1) show ?thesis by simp
qed

lemma elemAt_index: "elemAt p (real k) = load p k"
  by (simp add: elemAt_def load_def)

lemma elemAt_batch:
  assumes "length p = b * n" "i < n" "k < b"
  shows "elemAt p (real i + real n * real k) = Num (p ! (i + k * n))"
proof -
  have "i + k * n < length p"
    using assms batch_in_range by simp
  moreover have "real i + real n * real k = real (i + k * n)" by simp
  ultimately show ?thesis
    by (simp only: elemAt_index load_def if_True)
qed

lemma three_batches:
  assumes len: "length p = 3 * n"
  shows "map (\<lambda>i. g (elemAt p (real i)) (elemAt p (real i + real n))
               (elemAt p (real i + real n * 2)) t) [0 ..< n]
   = map (\<lambda>i. g (Num (p ! i)) (Num (p ! (i + n))) (Num (p ! (i + 2 * n))) t) [0 ..< n]"
proof (rule map_cong [OF refl])
  fix i assume "i \<in> set [0 ..< n]"
  then have i: "i < n" by simp
  from elemAt_batch [OF len i, of 0] elemAt_batch [OF len i, of 1] elemAt_batch [OF len i, of 2]
  show "g (elemAt p (real i)) (elemAt p (real i + real n)) (elemAt p (real i + real n * 2)) t
      = g (Num (p ! i)) (Num (p ! (i + n))) (Num (p ! (i + 2 * n))) t"
    by simp
qed

lemma four_batches:
  assumes len: "length q = 4 * m"
  shows "map (\<lambda>i. v (elemAt q (real i)) (elemAt q (real i + real m))
               (elemAt q (real i + real m * 2)) (elemAt q (real i + real m * 3)) t) [0 ..< m]
   = map (\<lambda>i. v (Num (q ! i)) (Num (q ! (i + m))) (Num (q ! (i + 2 * m)))
               (Num (q ! (i + 3 * m))) t) [0 ..< m]"
proof (rule map_cong [OF refl])
  fix i assume "i \<in> set [0 ..< m]"
  then have i: "i < m" by simp
  from elemAt_batch [OF len i, of 0] elemAt_batch [OF len i, of 1] elemAt_batch [OF len i, of 2]
    elemAt_batch [OF len i, of 3]
  show "v (elemAt q (real i)) (elemAt q (real i + real m)) (elemAt q (real i + real m * 2))
          (elemAt q (real i + real m * 3)) t
      = v (Num (q ! i)) (Num (q ! (i + m))) (Num (q ! (i + 2 * m))) (Num (q ! (i + 3 * m))) t"
    by simp
qed

lemma sumOfGaussians_batches:
  assumes "length p = 3 * n"
  shows "sumOfGaussians g p t =
     foldl jadd (Fin 0)
       (map (\<lambda>i. g (Num (p ! i)) (Num (p ! (i + n))) (Num (p ! (i + 2 * n))) t) [0 ..< n])"
proof -
  from assms have nL: "real (length p) / 3 = real n" by simp
  show ?thesis
    unfolding sumOfGaussians_def Let_def nL sumLoop_foldl
    by (simp only: ceiling_of_nat nat_int three_batches [OF assms, of g t])
qed

lemma sumOfLorentzians_batches:
  assumes "length p = 3 * n"
  shows "sumOfLorentzians l p t =
     foldl jadd (Fin 0)
       (map (\<lambda>i. l (Num (p ! i)) (Num (p ! (i + n))) (Num (p ! (i + 2 * n))) t) [0 ..< n])"
proof -
  from assms have nL: "real (length p) / 3 = real n" by simp
  show ?thesis
    unfolding sumOfLorentzians_def Let_def nL sumLoop_foldl
    by (simp only: ceiling_of_nat nat_int three_batches [OF assms, of l t])
qed

lemma sumOfGaussianLorentzians_batches:
  assumes "length q = 4 * m"
  shows "sumOfGaussianLorentzians v q t =
     foldl jadd (Fin 0)
       (map (\<lambda>i. v (Num (q ! i)) (Num (q ! (i + m))) (Num (q ! (i + 2 * m)))
                  (Num (q ! (i + 3 * m))) t) [0 ..< m])"
proof -
  from assms have nL: "real (length q) / 4 = real m" by simp
  show ?thesis
    unfolding sumOfGaussianLorentzians_def Let_def nL sumLoop_foldl
    by (simp only: ceiling_of_nat nat_int four_batches [OF assms, of v t])
qed

text \<open>
  Claim C7. For every parameter vector and abscissa \<open>t\<close>, the function that
  \<open>sumOfGaussians(p)\<close> returns is the sum, in index order from 0, of the Gaussian
  evaluator at \<open>p[i]\<close>, \<open>p[i + nL]\<close>, \<open>p[i + 2 nL]\<close> over the \<open>i < nL = len(p) / 3\<close>;
  likewise \<open>sumOfLorentzians\<close>, and \<open>sumOfGaussianLorentzians\<close> with four batches,
  the fourth being the mixing fraction. When the length is a multiple of the batch
  count, every index is an element of the vector. The value depends on the evaluator,
  the vector and \<open>t\<close> only.
\<close>

theorem shape_model_sums:
  "sumOfGaussians g p t =
     foldl jadd (Fin 0)
       (map (\<lambda>i. g (elemAt p (real i)) (elemAt p (real i + real (length p) / 3))
                  (elemAt p (real i + real (length p) / 3 * 2)) t)
            [0 ..< nat \<lceil>real (length p) / 3\<rceil>])
   \<and> sumOfLorentzians l p t =
     foldl jadd (Fin 0)
       (map (\<lambda>i. l (elemAt p (real i)) (elemAt p (real i + real (length p) / 3))
                  (elemAt p (real i + real (length p) / 3 * 2)) t)
            [0 ..< nat \<lceil>real (length p) / 3\<rceil>])
   \<and> sumOfGaussianLorentzians v q t =
     foldl jadd (Fin 0)
       (map (\<lambda>i. v (elemAt q (real i)) (elemAt q (real i + real (length q) / 4))
                  (elemAt q (real i + real (length q) / 4 * 2))
                  (elemAt q (real i + real (length q) / 4 * 3)) t)
            [0 ..< nat \<lceil>real (length q) / 4\<rceil>])
   \<and> (length p = 3 * n \<longrightarrow>
        sumOfGaussians g p t =
          foldl jadd (Fin 0)
            (map (\<lambda>i. g (Num (p ! i)) (Num (p ! (i + n))) (Num (p ! (i + 2 * n))) t) [0 ..< n])
        \<and> sumOfLorentzians l p t =
          foldl jadd (Fin 0)
            (map (\<lambda>i. l (Num (p ! i)) (Num (p ! (i + n))) (Num (p ! (i + 2 * n))) t) [0 ..< n]))
   \<and> (length q = 4 * m \<longrightarrow>
        sumOfGaussianLorentzians v q t =
          foldl jadd (Fin 0)
            (map (\<lambda>i. v (Num (q ! i)) (Num (q ! (i + m))) (Num (q ! (i + 2 * m)))
                       (Num (q ! (i + 3 * m))) t) [0 ..< m]))"
proof (intro conjI impI)
  show "sumOfGaussians g p t =
     foldl jadd (Fin 0)
       (map (\<lambda>i. g (elemAt p (real i)) (elemAt p (real i + real (length p) / 3))
                  (elemAt p (real i + real (length p) / 3 * 2)) t)
            [0 ..< nat \<lceil>real (length p) / 3\<rceil>])"
    by (simp add: sumOfGaussians_def Let_def sumLoop_foldl)
  show "sumOfLorentzians l p t =
     foldl jadd (Fin 0)
       (map (\<lambda>i. l (elemAt p (real i)) (elemAt p (real i + real (length p) / 3))
                  (elemAt p (real i + real (length p) / 3 * 2)) t)
            [0 ..< nat \<lceil>real (length p) / 3\<rceil>])"
    by (simp add: sumOfLorentzians_def Let_def sumLoop_foldl)
  show "sumOfGaussianLorentzians v q t =
     foldl jadd (Fin 0)
       (map (\<lambda>i. v (elemAt q (real i)) (elemAt q (real i + real (length q) / 4))
                  (elemAt q (real i + real (length q) / 4 * 2))
                  (elemAt q (real i + real (length q) / 4 * 3)) t)
            [0 ..< nat \<lceil>real (length q) / 4\<rceil>])"
    by (simp add: sumOfGaussianLorentzians_def Let_def sumLoop_foldl)
next
  assume "length p = 3 * n"
  then show "sumOfGaussians g p t =
      foldl jadd (Fin 0)
        (map (\<lambda>i. g (Num (p ! i)) (Num (p ! (i + n))) (Num (p ! (i + 2 * n))) t) [0 ..< n])"
    and "sumOfLorentzians l p t =
      foldl jadd (Fin 0)
        (map (\<lambda>i. l (Num (p ! i)) (Num (p ! (i + n))) (Num (p ! (i + 2 * n))) t) [0 ..< n])"
    by (rule sumOfGaussians_batches, rule sumOfLorentzians_batches)
next
  assume "length q = 4 * m"
  then show "sumOfGaussianLorentzians v q t =
      foldl jadd (Fin 0)
        (map (\<lambda>i. v (Num (q ! i)) (Num (q ! (i + m))) (Num (q ! (i + 2 * m)))
                   (Num (q ! (i + 3 * m))) t) [0 ..< m])"
    by (rule sumOfGaussianLorentzians_batches)
qed

theorem shape_model_sums_witness:
  "length [Fin 0, Fin 1, Fin 1] = 3 * 1 \<and> length [Fin 0, Fin 1, Fin 1, Fin (1 / 2)] = 4 * 1 \<and>
   sumOfGaussians (\<lambda>x y w t. ToNumber y) [Fin 0, Fin 1, Fin 1] (Fin 0) = Fin 1 \<and>
   sumOfLorentzians (\<lambda>x y w t. ToNumber y) [Fin 0, Fin 1, Fin 1] (Fin 0) = Fin 1 \<and>
   sumOfGaussianLorentzians (\<lambda>x y w mu t. ToNumber y) [Fin 0, Fin 1, Fin 1, Fin (1 / 2)] (Fin 0)
     = Fin 1"
proof -
  note th = shape_model_sums [of "\<lambda>x y w t. ToNumber y" "[Fin 0, Fin 1, Fin 1]" "Fin 0"
      "\<lambda>x y w t. ToNumber y" "\<lambda>x y w mu t. ToNumber y" "[Fin 0, Fin 1, Fin 1, Fin (1 / 2)]" 1 1]
  have three: "length [Fin 0, Fin 1, Fin 1] = 3 * 1"
    by simp
  have four: "length [Fin 0, Fin 1, Fin 1, Fin (1 / 2)] = 4 * 1"
    by simp
  have batches3: "sumOfGaussians (\<lambda>x y w t. ToNumber y) [Fin 0, Fin 1, Fin 1] (Fin 0) =
      foldl jadd (Fin 0) (map (\<lambda>i. ToNumber (Num ([Fin 0, Fin 1, Fin 1] ! (i + 1)))) [0 ..< 1])
    \<and> sumOfLorentzians (\<lambda>x y w t. ToNumber y) [Fin 0, Fin 1, Fin 1] (Fin 0) =
      foldl jadd (Fin 0) (map (\<lambda>i. ToNumber (Num ([Fin 0, Fin 1, Fin 1] ! (i + 1)))) [0 ..< 1])"
    using th [THEN conjunct2, THEN conjunct2, THEN conjunct2, THEN conjunct1] three
    by (rule mp)
  have batches4: "sumOfGaussianLorentzians (\<lambda>x y w mu t. ToNumber y)
        [Fin 0, Fin 1, Fin 1, Fin (1 / 2)] (Fin 0) =
      foldl jadd (Fin 0)
        (map (\<lambda>i. ToNumber (Num ([Fin 0, Fin 1, Fin 1, Fin (1 / 2)] ! (i + 1)))) [0 ..< 1])"
    using th [THEN conjunct2, THEN conjunct2, THEN conjunct2, THEN conjunct2] four
    by (rule mp)
  show ?thesis
    unfolding batches3 [THEN conjunct1] batches3 [THEN conjunct2] batches4
    by simp
qed

section \<open>The value resolvers\<close>

text \<open>
  Claim C8, as amended. For every parameter index outside 0..3 and each of the four
  states (initial, min, max, gradient step), the resolver of the first \<open>optimize\<close>
  raises \<open>The parameter is not supported\<close>. The resolver of the second \<open>optimize\<close>
  raises nothing: every index other than 0, 1 and 2 takes its last branch and gets
  the mixing-fraction values 0.5, 0 and 1.
\<close>

theorem unsupported_index_per_resolver:
  "parameterIndex < 0 \<or> 3 < parameterIndex \<Longrightarrow>
   state \<in> {STATE_INIT, STATE_MIN, STATE_MAX, STATE_GRADIENT_DIFFERENCE} \<Longrightarrow>
   getValue parameterIndex peak state opts = Inl (Error ''The parameter is not supported'') \<and>
   getValue2 parameterIndex peak state dt =
     (if state = STATE_INIT then Num (Fin (1 / 2))
      else if state = STATE_MIN then Num (Fin 0) else Num (Fin 1))"
  by (auto simp: getValue_def getValue2_def source_constants)

theorem unsupported_index_per_resolver_witness:
  "((7::int) < 0 \<or> 3 < (7::int)) \<and>
   STATE_MIN \<in> {STATE_INIT, STATE_MIN, STATE_MAX, STATE_GRADIENT_DIFFERENCE} \<and>
   getValue 7 testPeak STATE_MIN (defaultOptions (Num (Fin 1)))
     = Inl (Error ''The parameter is not supported'') \<and>
   getValue2 7 testPeak STATE_MIN (Fin 1) = Num (Fin 0)"
proof -
  have idx: "(7::int) < 0 \<or> 3 < (7::int)"
    by simp
  have st: "STATE_MIN \<in> {STATE_INIT, STATE_MIN, STATE_MAX, STATE_GRADIENT_DIFFERENCE}"
    by simp
  from unsupported_index_per_resolver [OF idx st, of testPeak "defaultOptions (Num (Fin 1))" "Fin 1"]
  show ?thesis
    using idx st by (simp add: source_constants)
qed

text \<open>The claim as first stated fails on the resolver of the second \<open>optimize\<close>: index 7
  is answered with the default 0.5, no error.\<close>

theorem second_resolver_defaults_unsupported_index:
  "getValue2 7 testPeak STATE_INIT (Fin 1) = Num (Fin (1 / 2))"
  by (simp add: getValue2_def source_constants)

section \<open>Default bounds\<close>

lemmas build_rules = buildVectors_def fillPeaks.simps fillParams.simps getValue_def
  defaultOptions_def source_constants js_operators getProp_def store_def

lemmas build2_rules = buildVectors2_def fillPeaks2.simps fillParams2.simps getValue2_def
  source_constants js_operators getProp_def store_def

lemma buildVectors_testPeak_3:
  "buildVectors 3 [testPeak] (defaultOptions m) =
     Inr \<lparr> pInit = [Fin 0, jdiv (Fin 1) (ToNumber m), Fin 2],
           pMin = [Fin (- 4), jmul (jdiv (Fin 1) (ToNumber m)) (Fin 0), Fin (1 / 2)],
           pMax = [Fin 4, jmul (jdiv (Fin 1) (ToNumber m)) (Fin (3 / 2)), Fin 8],
           pGrad = [Fin (1 / 1000), Fin (1 / 1000), Fin (1 / 1000)] \<rparr>"
  by (simp add: build_rules testPeak_def numeral_3_eq_3)

lemma buildVectors_testPeak_4:
  "buildVectors 4 [testPeak] (defaultOptions m) =
     Inr \<lparr> pInit = [Fin 0, jdiv (Fin 1) (ToNumber m), Fin 2, Fin (1 / 2)],
           pMin = [Fin (- 4), jmul (jdiv (Fin 1) (ToNumber m)) (Fin 0), Fin (1 / 2), Fin 0],
           pMax = [Fin 4, jmul (jdiv (Fin 1) (ToNumber m)) (Fin (3 / 2)), Fin 8, Fin 1],
           pGrad = [Fin (1 / 1000), Fin (1 / 1000), Fin (1 / 1000), Fin (1 / 100)] \<rparr>"
  by (simp add: build_rules testPeak_def eval_nat_numeral)

lemma buildVectors2_testPeak_3:
  "buildVectors2 3 [testPeak] dt =
     \<lparr> pInit = [Fin 0, Fin 1, Fin 2],
       pMin = [jadd (Fin 0) (jneg dt), Fin 0, Fin (1 / 2)],
       pMax = [jadd (Fin 0) dt, Fin (3 / 2), Fin 8],
       pGrad = [] \<rparr>"
  by (simp add: build2_rules testPeak_def numeral_3_eq_3)

lemma buildVectors2_testPeak_4:
  "buildVectors2 4 [testPeak] dt =
     \<lparr> pInit = [Fin 0, Fin 1, Fin 2, Fin (1 / 2)],
       pMin = [jadd (Fin 0) (jneg dt), Fin 0, Fin (1 / 2), Fin 0],
       pMax = [jadd (Fin 0) dt, Fin (3 / 2), Fin 8, Fin 1],
       pGrad = [] \<rparr>"
  by (simp add: build2_rules testPeak_def eval_nat_numeral)

text \<open>
  Claim C2, as amended. For the peak \<open>{x: 0, y: 1, width: 2}\<close> under the default
  options, the vectors that the first \<open>optimize\<close> builds hold the lower position bound
  -4, the upper position bound 4, the lower width bound 0.5 and the upper width bound
  8, with three and with four parameters per peak. The second \<open>optimize\<close> builds the
  same width bounds, and the position bounds \<open>x - deltaX\<close> and \<open>x + deltaX\<close>, where
  \<open>deltaX\<close> is the distance of the first two abscissas of the data.
\<close>

theorem default_bounds_of_test_peak:
  "(\<exists>v. buildVectors 3 [testPeak] (defaultOptions m) = Inr v \<and>
        pMin v ! 0 = Fin (- 4) \<and> pMax v ! 0 = Fin 4 \<and>
        pMin v ! 2 = Fin (1 / 2) \<and> pMax v ! 2 = Fin 8)
   \<and> (\<exists>v. buildVectors 4 [testPeak] (defaultOptions m) = Inr v \<and>
        pMin v ! 0 = Fin (- 4) \<and> pMax v ! 0 = Fin 4 \<and>
        pMin v ! 2 = Fin (1 / 2) \<and> pMax v ! 2 = Fin 8)
   \<and> pMin (buildVectors2 3 [testPeak] dt) ! 0 = jsub (Fin 0) dt
   \<and> pMax (buildVectors2 3 [testPeak] dt) ! 0 = jadd (Fin 0) dt
   \<and> pMin (buildVectors2 3 [testPeak] dt) ! 2 = Fin (1 / 2)
   \<and> pMax (buildVectors2 3 [testPeak] dt) ! 2 = Fin 8
   \<and> pMin (buildVectors2 4 [testPeak] dt) ! 0 = jsub (Fin 0) dt
   \<and> pMax (buildVectors2 4 [testPeak] dt) ! 0 = jadd (Fin 0) dt
   \<and> pMin (buildVectors2 4 [testPeak] dt) ! 2 = Fin (1 / 2)
   \<and> pMax (buildVectors2 4 [testPeak] dt) ! 2 = Fin 8"
  by (simp add: buildVectors_testPeak_3 buildVectors_testPeak_4 buildVectors2_testPeak_3
      buildVectors2_testPeak_4 jsub_def)

text \<open>The claim as first stated fails on the second \<open>optimize\<close>: with the abscissas
  \<open>[-1, 0, 1]\<close> of the test, the position bounds of the peak are -1 and 1.\<close>

theorem second_optimize_position_bounds:
  "pMin (buildVectors2 3 [testPeak]
           (jabs (jsub (ToNumber (load testX 0)) (ToNumber (load testX 1))))) ! 0 = Fin (- 1)
   \<and> pMax (buildVectors2 3 [testPeak]
           (jabs (jsub (ToNumber (load testX 0)) (ToNumber (load testX 1))))) ! 0 = Fin 1"
  by (simp add: buildVectors2_testPeak_3 testX_def load_def jsub_def)

section \<open>Gradient steps\<close>

lemma jsonValue_range:
  "jsonValue v = Some w \<Longrightarrow> w = Null \<or> (\<exists>a. w = Num (Fin a))"
  by (cases v rule: jsonValue.cases) auto

lemma map_of_jsonObj_range:
  "map_of (jsonObj ob) k = Some w \<Longrightarrow> w = Null \<or> (\<exists>a. w = Num (Fin a))"
proof (induction ob rule: jsonObj.induct)
  case 1
  then show ?case by simp
next
  case (2 k' v ps)
  then show ?case
    by (cases "jsonValue v") (auto split: if_splits dest: jsonValue_range)
qed

lemma getProp_jsonObj_range:
  "getProp (jsonObj ob) k = Undefined \<or> getProp (jsonObj ob) k = Null \<or>
   (\<exists>a. getProp (jsonObj ob) k = Num (Fin a))"
  using map_of_jsonObj_range [of ob k]
  by (cases "map_of (jsonObj ob) k") (auto simp: getProp_def)

lemma getProp_jsonObj_no_closure: "getProp (jsonObj ob) k \<noteq> Closure f"
  using getProp_jsonObj_range [of ob k] by auto

lemma map_of_jsonObj_kept:
  "map_of ob k = Some v \<Longrightarrow> jsonValue v = Some w \<Longrightarrow> map_of (jsonObj ob) k = Some w"
proof (induction ob rule: jsonObj.induct)
  case 1
  then show ?case by simp
next
  case (2 k' v' ps)
  then show ?case
    by (cases "jsonValue v'") (auto split: if_splits)
qed

lemma getProp_jsonObj_number:
  "getProp ob k = Num (Fin a) \<Longrightarrow> getProp (jsonObj ob) k = Num (Fin a)"
proof -
  assume "getProp ob k = Num (Fin a)"
  then have "map_of ob k = Some (Num (Fin a))"
    by (cases "map_of ob k") (auto simp: getProp_def)
  from map_of_jsonObj_kept [OF this] show ?thesis
    by (simp add: getProp_def)
qed

text \<open>
  Claim C5, as amended. The gradient step of a peak is the peak's own field if that is
  defined, else the option value if that is defined, else \<open>peak.width / 2000\<close>, for
  the position and the width; for the height and the mixing fraction it is the peak's
  own field if defined, else the option value, whose documented defaults are 1e-3 and
  0.01. Whatever value is found is taken as it is: a function is not called, and as an
  element of the gradient vector it reads \<open>NaN\<close>. A function in a field of one of
  the caller's peaks never reaches the resolver, as the copy of the peaks has no
  function-valued property.
\<close>

theorem gradient_step_resolution:
  "(getProp peak ''xGradientDifference'' \<noteq> Undefined \<longrightarrow>
      getValue X peak STATE_GRADIENT_DIFFERENCE opts = Inr (getProp peak ''xGradientDifference''))
   \<and> (getProp peak ''xGradientDifference'' = Undefined \<and> xGradientDifference opts \<noteq> Undefined \<longrightarrow>
      getValue X peak STATE_GRADIENT_DIFFERENCE opts = Inr (xGradientDifference opts))
   \<and> (getProp peak ''xGradientDifference'' = Undefined \<and> xGradientDifference opts = Undefined \<longrightarrow>
      getValue X peak STATE_GRADIENT_DIFFERENCE opts
        = Inr (Num (jdiv (ToNumber (getProp peak ''width'')) (Fin 2000))))
   \<and> (getProp peak ''widthGradientDifference'' \<noteq> Undefined \<longrightarrow>
      getValue WIDTH peak STATE_GRADIENT_DIFFERENCE opts
        = Inr (getProp peak ''widthGradientDifference''))
   \<and> (getProp peak ''widthGradientDifference'' = Undefined \<and>
        widthGradientDifference opts \<noteq> Undefined \<longrightarrow>
      getValue WIDTH peak STATE_GRADIENT_DIFFERENCE opts = Inr (widthGradientDifference opts))
   \<and> (getProp peak ''widthGradientDifference'' = Undefined \<and>
        widthGradientDifference opts = Undefined \<longrightarrow>
      getValue WIDTH peak STATE_GRADIENT_DIFFERENCE opts
        = Inr (Num (jdiv (ToNumber (getProp peak ''width'')) (Fin 2000))))
   \<and> (getProp peak ''yGradientDifference'' \<noteq> Undefined \<longrightarrow>
      getValue Y peak STATE_GRADIENT_DIFFERENCE opts = Inr (getProp peak ''yGradientDifference''))
   \<and> (getProp peak ''yGradientDifference'' = Undefined \<longrightarrow>
      getValue Y peak STATE_GRADIENT_DIFFERENCE opts = Inr (yGradientDifference opts))
   \<and> (getProp peak ''muGradientDifference'' \<noteq> Undefined \<longrightarrow>
      getValue MU peak STATE_GRADIENT_DIFFERENCE opts = Inr (getProp peak ''muGradientDifference''))
   \<and> (getProp peak ''muGradientDifference'' = Undefined \<longrightarrow>
      getValue MU peak STATE_GRADIENT_DIFFERENCE opts = Inr (muGradientDifference opts))
   \<and> yGradientDifference (defaultOptions m) = Num (Fin (1 / 1000))
   \<and> muGradientDifference (defaultOptions m) = Num (Fin (1 / 100))
   \<and> ToNumber (Closure f) = NaN
   \<and> getProp (jsonObj ob) k \<noteq> Closure f"
  by (simp add: getValue_def source_constants js_over_def defaultOptions_def
      getProp_jsonObj_no_closure)

theorem gradient_step_resolution_witness:
  "getProp (testPeak @ [(''xGradientDifference'', Num (Fin (1 / 10))),
                        (''yGradientDifference'', Num (Fin (1 / 20))),
                        (''widthGradientDifference'', Num (Fin (1 / 30))),
                        (''muGradientDifference'', Num (Fin (1 / 40)))])
           ''xGradientDifference'' \<noteq> Undefined
   \<and> getValue X (testPeak @ [(''xGradientDifference'', Num (Fin (1 / 10))),
                        (''yGradientDifference'', Num (Fin (1 / 20))),
                        (''widthGradientDifference'', Num (Fin (1 / 30))),
                        (''muGradientDifference'', Num (Fin (1 / 40)))])
        STATE_GRADIENT_DIFFERENCE (defaultOptions (Num (Fin 1))) = Inr (Num (Fin (1 / 10)))
   \<and> getValue MU (testPeak @ [(''xGradientDifference'', Num (Fin (1 / 10))),
                        (''yGradientDifference'', Num (Fin (1 / 20))),
                        (''widthGradientDifference'', Num (Fin (1 / 30))),
                        (''muGradientDifference'', Num (Fin (1 / 40)))])
        STATE_GRADIENT_DIFFERENCE (defaultOptions (Num (Fin 1))) = Inr (Num (Fin (1 / 40)))
   \<and> getProp testPeak ''xGradientDifference'' = Undefined
   \<and> xGradientDifference ((defaultOptions (Num (Fin 1)))\<lparr>xGradientDifference := Num (Fin (1 / 50))\<rparr>)
        \<noteq> Undefined
   \<and> getValue X testPeak STATE_GRADIENT_DIFFERENCE
        ((defaultOptions (Num (Fin 1)))\<lparr>xGradientDifference := Num (Fin (1 / 50))\<rparr>)
        = Inr (Num (Fin (1 / 50)))
   \<and> xGradientDifference (defaultOptions (Num (Fin 1))) = Undefined
   \<and> getValue X testPeak STATE_GRADIENT_DIFFERENCE (defaultOptions (Num (Fin 1)))
        = Inr (Num (Fin (1 / 1000)))
   \<and> getValue WIDTH testPeak STATE_GRADIENT_DIFFERENCE (defaultOptions (Num (Fin 1)))
        = Inr (Num (Fin (1 / 1000)))
   \<and> getValue Y testPeak STATE_GRADIENT_DIFFERENCE (defaultOptions (Num (Fin 1)))
        = Inr (Num (Fin (1 / 1000)))
   \<and> getValue MU testPeak STATE_GRADIENT_DIFFERENCE (defaultOptions (Num (Fin 1)))
        = Inr (Num (Fin (1 / 100)))"
proof -
  note own = gradient_step_resolution
    [where peak = "testPeak @ [(''xGradientDifference'', Num (Fin (1 / 10))),
                        (''yGradientDifference'', Num (Fin (1 / 20))),
                        (''widthGradientDifference'', Num (Fin (1 / 30))),
                        (''muGradientDifference'', Num (Fin (1 / 40)))]"
       and opts = "defaultOptions (Num (Fin 1))" and m = "Num (Fin 1)" and f = 0
       and ob = testPeak and k = "''x''"]
  note option = gradient_step_resolution
    [where peak = testPeak
       and opts = "(defaultOptions (Num (Fin 1)))\<lparr>xGradientDifference := Num (Fin (1 / 50))\<rparr>"
       and m = "Num (Fin 1)" and f = 0 and ob = testPeak and k = "''x''"]
  note builtin = gradient_step_resolution
    [where peak = testPeak and opts = "defaultOptions (Num (Fin 1))"
       and m = "Num (Fin 1)" and f = 0 and ob = testPeak and k = "''x''"]
  have fields: "getProp (testPeak @ [(''xGradientDifference'', Num (Fin (1 / 10))),
                        (''yGradientDifference'', Num (Fin (1 / 20))),
                        (''widthGradientDifference'', Num (Fin (1 / 30))),
                        (''muGradientDifference'', Num (Fin (1 / 40)))])
           ''xGradientDifference'' = Num (Fin (1 / 10))"
    "getProp (testPeak @ [(''xGradientDifference'', Num (Fin (1 / 10))),
                        (''yGradientDifference'', Num (Fin (1 / 20))),
                        (''widthGradientDifference'', Num (Fin (1 / 30))),
                        (''muGradientDifference'', Num (Fin (1 / 40)))])
           ''muGradientDifference'' = Num (Fin (1 / 40))"
    "getProp testPeak ''xGradientDifference'' = Undefined"
    "getProp testPeak ''yGradientDifference'' = Undefined"
    "getProp testPeak ''widthGradientDifference'' = Undefined"
    "getProp testPeak ''muGradientDifference'' = Undefined"
    "getProp testPeak ''width'' = Num (Fin 2)"
    by (simp_all add: getProp_def testPeak_def)
  have options: "xGradientDifference (defaultOptions (Num (Fin 1))) = Undefined"
    "widthGradientDifference (defaultOptions (Num (Fin 1))) = Undefined"
    "yGradientDifference (defaultOptions (Num (Fin 1))) = Num (Fin (1 / 1000))"
    "muGradientDifference (defaultOptions (Num (Fin 1))) = Num (Fin (1 / 100))"
    by (simp_all add: defaultOptions_def)
  from own option builtin show ?thesis
    by (simp add: fields options)
qed

text \<open>The claim as first stated fails where an override is a function: the resolver
  hands back the function object, the gradient vector gets \<open>NaN\<close> for it, and a
  function in a field of a peak is lost when the peaks are copied.\<close>

theorem function_override_is_not_called:
  "getValue X testPeak STATE_GRADIENT_DIFFERENCE
     ((defaultOptions (Num (Fin 1)))\<lparr>xGradientDifference := Closure 0\<rparr>) = Inr (Closure 0)
   \<and> buildVectors 3 [testPeak] ((defaultOptions (Num (Fin 1)))\<lparr>xGradientDifference := Closure 0\<rparr>)
     = Inr \<lparr> pInit = [Fin 0, Fin 1, Fin 2],
             pMin = [Fin (- 4), Fin 0, Fin (1 / 2)],
             pMax = [Fin 4, Fin (3 / 2), Fin 8],
             pGrad = [NaN, Fin (1 / 1000), Fin (1 / 1000)] \<rparr>
   \<and> jsonObj (testPeak @ [(''xGradientDifference'', Closure 0)]) = testPeak"
  by (simp add: build_rules testPeak_def numeral_3_eq_3)

section \<open>The layout of the parameter vectors\<close>

lemma index_unique:
  fixes i i' t t' n :: nat
  assumes "i < n" "i' < n" "i + t * n = i' + t' * n"
  shows "i = i' \<and> t = t'"
proof -
  from assms(3) have "(i + t * n) mod n = (i' + t' * n) mod n"
    by simp
  with assms(1,2) have i: "i = i'"
    by simp
  with assms(3) have "t * n = t' * n"
    by simp
  with assms(1) have "t = t'"
    by simp
  with i show ?thesis ..
qed

lemma length_store [simp]: "length (store xs j v) = length xs"
  by (simp add: store_def)

lemma nth_store:
  "store xs j v ! k = (if k = j \<and> j < length xs then ToNumber v else xs ! k)"
  by (simp add: store_def)

lemma storeKinds_Suc:
  "s \<le> m \<Longrightarrow> storeKinds f s (Suc m) i n xs = store (storeKinds f s m i n xs) (i + m * n) (f m)"
  by (simp add: storeKinds_def)

lemma storeKinds_empty: "nbParams \<le> s \<Longrightarrow> storeKinds f s nbParams i n xs = xs"
  by (simp add: storeKinds_def)

lemma storeKinds_first:
  "s < nbParams \<Longrightarrow>
   storeKinds f s nbParams i n xs = storeKinds f (Suc s) nbParams i n (store xs (i + s * n) (f s))"
  by (simp add: storeKinds_def upt_conv_Cons)

lemma length_storeKinds [simp]: "length (storeKinds f s nbParams i n xs) = length xs"
proof (induction nbParams)
  case 0
  then show ?case by (simp add: storeKinds_def)
next
  case (Suc m)
  show ?case
  proof (cases "s \<le> m")
    case True
    with Suc show ?thesis by (simp add: storeKinds_Suc)
  next
    case False
    then show ?thesis by (simp add: storeKinds_empty)
  qed
qed

lemma storeKinds_nth_other:
  "(\<And>t. s \<le> t \<Longrightarrow> t < nbParams \<Longrightarrow> j \<noteq> i + t * n) \<Longrightarrow>
   storeKinds f s nbParams i n xs ! j = xs ! j"
proof (induction nbParams)
  case 0
  then show ?case by (simp add: storeKinds_def)
next
  case (Suc m)
  show ?case
  proof (cases "s \<le> m")
    case True
    have "j \<noteq> i + m * n"
      using Suc.prems [of m] True by simp
    moreover have "storeKinds f s m i n xs ! j = xs ! j"
      using Suc.prems by (intro Suc.IH) simp
    ultimately show ?thesis
      using True by (simp add: storeKinds_Suc nth_store)
  next
    case False
    then show ?thesis by (simp add: storeKinds_empty)
  qed
qed

lemma storeKinds_nth:
  "i < n \<Longrightarrow> s \<le> t \<Longrightarrow> t < nbParams \<Longrightarrow> i + t * n < length xs \<Longrightarrow>
   storeKinds f s nbParams i n xs ! (i + t * n) = ToNumber (f t)"
proof (induction nbParams)
  case 0
  then show ?case by simp
next
  case (Suc m)
  from Suc.prems have sm: "s \<le> m" by simp
  show ?case
  proof (cases "t = m")
    case True
    with Suc.prems sm show ?thesis
      by (simp add: storeKinds_Suc nth_store)
  next
    case False
    with Suc.prems have tm: "t < m" by simp
    from False Suc.prems(1) have "i + t * n \<noteq> i + m * n"
      by simp
    with Suc.IH [OF Suc.prems(1,2) tm Suc.prems(4)] sm show ?thesis
      by (simp add: storeKinds_Suc nth_store)
  qed
qed

lemma storePeaks_Suc:
  "i0 \<le> m \<Longrightarrow>
   storePeaks f i0 (Suc m) n nbParams xs = storeKinds (f m) 0 nbParams m n (storePeaks f i0 m n nbParams xs)"
  by (simp add: storePeaks_def)

lemma storePeaks_empty: "i1 \<le> i0 \<Longrightarrow> storePeaks f i0 i1 n nbParams xs = xs"
  by (simp add: storePeaks_def)

lemma storePeaks_first:
  "i0 < i1 \<Longrightarrow>
   storePeaks f i0 i1 n nbParams xs
     = storePeaks f (Suc i0) i1 n nbParams (storeKinds (f i0) 0 nbParams i0 n xs)"
  by (simp add: storePeaks_def upt_conv_Cons)

lemma length_storePeaks [simp]: "length (storePeaks f i0 i1 n nbParams xs) = length xs"
proof (induction i1)
  case 0
  then show ?case by (simp add: storePeaks_def)
next
  case (Suc m)
  show ?case
  proof (cases "i0 \<le> m")
    case True
    with Suc show ?thesis by (simp add: storePeaks_Suc)
  next
    case False
    then show ?thesis by (simp add: storePeaks_empty)
  qed
qed

lemma storePeaks_nth:
  "i0 \<le> i \<Longrightarrow> i < i1 \<Longrightarrow> i1 \<le> n \<Longrightarrow> t < nbParams \<Longrightarrow> i + t * n < length xs \<Longrightarrow>
   storePeaks f i0 i1 n nbParams xs ! (i + t * n) = ToNumber (f i t)"
proof (induction i1)
  case 0
  then show ?case by simp
next
  case (Suc m)
  from Suc.prems have i0m: "i0 \<le> m" and mn: "m < n" by simp_all
  show ?case
  proof (cases "i = m")
    case True
    with Suc.prems mn i0m show ?thesis
      by (simp add: storePeaks_Suc storeKinds_nth)
  next
    case False
    with Suc.prems have im: "i < m" and "i < n" by simp_all
    have other: "\<And>t'. i + t * n \<noteq> m + t' * n"
      using index_unique [OF \<open>i < n\<close> mn] False by blast
    have "storePeaks f i0 (Suc m) n nbParams xs ! (i + t * n)
        = storePeaks f i0 m n nbParams xs ! (i + t * n)"
      using i0m other by (simp add: storePeaks_Suc storeKinds_nth_other)
    also have "\<dots> = ToNumber (f i t)"
      using Suc.prems im mn by (intro Suc.IH) simp_all
    finally show ?thesis .
  qed
qed

lemma state_cases:
  "STATE_INIT = 0" "STATE_MIN = 1" "STATE_MAX = 2" "STATE_GRADIENT_DIFFERENCE = 3"
  by (simp_all add: source_constants)

lemma getValue_supported:
  assumes "s < 4"
    and "state \<in> {STATE_INIT, STATE_MIN, STATE_MAX, STATE_GRADIENT_DIFFERENCE}"
  shows "getValue (int s) peak state opts = Inr (valueAt peak state opts s)"
proof -
  from assms(1) have "s = 0 \<or> s = 1 \<or> s = 2 \<or> s = 3"
    by auto
  with assms(2) show ?thesis
    by (auto simp: valueAt_def getValue_def source_constants)
qed

lemma fillParams_closed:
  "nbParams \<le> 4 \<Longrightarrow>
   fillParams s nbParams i n peak opts v =
     Inr \<lparr> pInit = storeKinds (valueAt peak STATE_INIT opts) s nbParams i n (pInit v),
           pMin = storeKinds (valueAt peak STATE_MIN opts) s nbParams i n (pMin v),
           pMax = storeKinds (valueAt peak STATE_MAX opts) s nbParams i n (pMax v),
           pGrad = storeKinds (valueAt peak STATE_GRADIENT_DIFFERENCE opts) s nbParams i n (pGrad v) \<rparr>"
proof (induction s nbParams i n peak opts v rule: fillParams.induct)
  case (1 s nbParams i nbShapes peak opts v)
  show ?case
  proof (cases "s < nbParams")
    case True
    with "1.prems" have s4: "s < 4" by simp
    note gv = getValue_supported [OF s4, of _ peak opts]
    have a: "getValue (int s) peak STATE_INIT opts = Inr (valueAt peak STATE_INIT opts s)"
      by (rule gv) simp
    have b: "getValue (int s) peak STATE_MIN opts = Inr (valueAt peak STATE_MIN opts s)"
      by (rule gv) simp
    have c: "getValue (int s) peak STATE_MAX opts = Inr (valueAt peak STATE_MAX opts s)"
      by (rule gv) simp
    have d: "getValue (int s) peak STATE_GRADIENT_DIFFERENCE opts
        = Inr (valueAt peak STATE_GRADIENT_DIFFERENCE opts s)"
      by (rule gv) simp
    show ?thesis
      apply (subst fillParams.simps)
      apply (simp only: True if_True a b c d sum.case)
      apply (subst "1.IH" [OF True a b c d "1.prems"])
      apply (simp add: storeKinds_first [OF True])
      done
  next
    case False
    then show ?thesis
      by (subst fillParams.simps) (simp add: storeKinds_empty)
  qed
qed

lemma fillPeaks_closed:
  "nbParams \<le> 4 \<Longrightarrow>
   fillPeaks i0 n nbParams peaks opts v =
     Inr \<lparr> pInit = storePeaks (\<lambda>i. valueAt (peaks ! i) STATE_INIT opts) i0 n n nbParams (pInit v),
           pMin = storePeaks (\<lambda>i. valueAt (peaks ! i) STATE_MIN opts) i0 n n nbParams (pMin v),
           pMax = storePeaks (\<lambda>i. valueAt (peaks ! i) STATE_MAX opts) i0 n n nbParams (pMax v),
           pGrad = storePeaks (\<lambda>i. valueAt (peaks ! i) STATE_GRADIENT_DIFFERENCE opts) i0 n n
                     nbParams (pGrad v) \<rparr>"
proof (induction i0 n nbParams peaks opts v rule: fillPeaks.induct)
  case (1 i nbShapes nbParams peaks opts v)
  show ?case
  proof (cases "i < nbShapes")
    case True
    note inner = fillParams_closed [OF "1.prems", of 0 i nbShapes "peaks ! i" opts v]
    show ?thesis
      apply (subst fillPeaks.simps)
      apply (simp only: True if_True inner sum.case)
      apply (subst "1.IH" [OF True inner "1.prems"])
      apply (simp add: storePeaks_first [OF True])
      done
  next
    case False
    then show ?thesis
      by (subst fillPeaks.simps) (simp add: storePeaks_empty)
  qed
qed

lemma buildVectors_closed:
  "nbParams \<le> 4 \<Longrightarrow>
   buildVectors nbParams peaks opts =
     Inr \<lparr> pInit = storePeaks (\<lambda>i. valueAt (peaks ! i) STATE_INIT opts) 0 (length peaks)
                     (length peaks) nbParams (replicate (length peaks * nbParams) (Fin 0)),
           pMin = storePeaks (\<lambda>i. valueAt (peaks ! i) STATE_MIN opts) 0 (length peaks)
                     (length peaks) nbParams (replicate (length peaks * nbParams) (Fin 0)),
           pMax = storePeaks (\<lambda>i. valueAt (peaks ! i) STATE_MAX opts) 0 (length peaks)
                     (length peaks) nbParams (replicate (length peaks * nbParams) (Fin 0)),
           pGrad = storePeaks (\<lambda>i. valueAt (peaks ! i) STATE_GRADIENT_DIFFERENCE opts) 0
                     (length peaks) (length peaks) nbParams
                     (replicate (length peaks * nbParams) (Fin 0)) \<rparr>"
  by (simp add: buildVectors_def Let_def fillPeaks_closed)

lemma buildVectors_succeeds:
  "nbParams \<le> 4 \<Longrightarrow> \<exists>v. buildVectors nbParams peaks opts = Inr v"
  by (simp add: buildVectors_closed)

lemma buildVectors_length:
  assumes "buildVectors nbParams peaks opts = Inr v" "nbParams \<le> 4"
  shows "length (pInit v) = length peaks * nbParams"
    and "length (pMin v) = length peaks * nbParams"
    and "length (pMax v) = length peaks * nbParams"
    and "length (pGrad v) = length peaks * nbParams"
  using assms(1) unfolding buildVectors_closed [OF assms(2)] by auto

lemma buildVectors_layout:
  assumes "buildVectors nbParams peaks opts = Inr v" "nbParams \<le> 4"
    and "i < length peaks" "s < nbParams"
  shows "pInit v ! (i + s * length peaks) = ToNumber (valueAt (peaks ! i) STATE_INIT opts s)"
    and "pMin v ! (i + s * length peaks) = ToNumber (valueAt (peaks ! i) STATE_MIN opts s)"
    and "pMax v ! (i + s * length peaks) = ToNumber (valueAt (peaks ! i) STATE_MAX opts s)"
    and "pGrad v ! (i + s * length peaks)
           = ToNumber (valueAt (peaks ! i) STATE_GRADIENT_DIFFERENCE opts s)"
proof -
  have range: "i + s * length peaks < length (replicate (length peaks * nbParams) (Fin 0))"
    using batch_in_range [OF assms(3,4)] by (simp add: mult.commute)
  note nth = storePeaks_nth [OF le0 assms(3) order_refl assms(4) range]
  from assms(1) have v: "v = \<lparr> pInit = storePeaks (\<lambda>i. valueAt (peaks ! i) STATE_INIT opts) 0 (length peaks)
                     (length peaks) nbParams (replicate (length peaks * nbParams) (Fin 0)),
           pMin = storePeaks (\<lambda>i. valueAt (peaks ! i) STATE_MIN opts) 0 (length peaks)
                     (length peaks) nbParams (replicate (length peaks * nbParams) (Fin 0)),
           pMax = storePeaks (\<lambda>i. valueAt (peaks ! i) STATE_MAX opts) 0 (length peaks)
                     (length peaks) nbParams (replicate (length peaks * nbParams) (Fin 0)),
           pGrad = storePeaks (\<lambda>i. valueAt (peaks ! i) STATE_GRADIENT_DIFFERENCE opts) 0
                     (length peaks) (length peaks) nbParams
                     (replicate (length peaks * nbParams) (Fin 0)) \<rparr>"
    unfolding buildVectors_closed [OF assms(2)] by simp
  show "pInit v ! (i + s * length peaks) = ToNumber (valueAt (peaks ! i) STATE_INIT opts s)"
    by (subst v) (simp add: nth)
  show "pMin v ! (i + s * length peaks) = ToNumber (valueAt (peaks ! i) STATE_MIN opts s)"
    by (subst v) (simp add: nth)
  show "pMax v ! (i + s * length peaks) = ToNumber (valueAt (peaks ! i) STATE_MAX opts s)"
    by (subst v) (simp add: nth)
  show "pGrad v ! (i + s * length peaks)
           = ToNumber (valueAt (peaks ! i) STATE_GRADIENT_DIFFERENCE opts s)"
    by (subst v) (simp add: nth)
qed

section \<open>Objects and the heap\<close>

lemma getProp_setProp:
  "getProp (setProp ob k v) k' = (if k' = k then v else getProp ob k')"
  by (induction ob) (auto simp: getProp_def)

lemma keyAt_inject: "t < 4 \<Longrightarrow> t' < 4 \<Longrightarrow> keyAt t = keyAt t' \<Longrightarrow> t = t'"
proof -
  assume "t < 4" "t' < 4" and eq: "keyAt t = keyAt t'"
  then have "t = 0 \<or> t = 1 \<or> t = 2 \<or> t = 3" "t' = 0 \<or> t' = 1 \<or> t' = 2 \<or> t' = 3"
    by auto
  with eq show ?thesis
    by (auto simp: keyAt_def keys_def)
qed

lemma writeKinds_Suc:
  "s \<le> b \<Longrightarrow>
   writeKinds s (Suc b) i n pv ob = setProp (writeKinds s b i n pv ob) (keyAt b) (load pv (i + b * n))"
  by (simp add: writeKinds_def)

lemma writeKinds_empty: "nbParams \<le> s \<Longrightarrow> writeKinds s nbParams i n pv ob = ob"
  by (simp add: writeKinds_def)

lemma writeKinds_first:
  "s < nbParams \<Longrightarrow>
   writeKinds s nbParams i n pv ob
     = writeKinds (Suc s) nbParams i n pv (setProp ob (keyAt s) (load pv (i + s * n)))"
  by (simp add: writeKinds_def upt_conv_Cons)

lemma getProp_writeKinds:
  "nbParams \<le> 4 \<Longrightarrow> s \<le> t \<Longrightarrow> t < nbParams \<Longrightarrow>
   getProp (writeKinds s nbParams i n pv ob) (keyAt t) = load pv (i + t * n)"
proof (induction nbParams)
  case 0
  then show ?case by simp
next
  case (Suc b)
  from Suc.prems have sb: "s \<le> b" by simp
  show ?case
  proof (cases "t = b")
    case True
    with sb show ?thesis
      by (simp add: writeKinds_Suc getProp_setProp)
  next
    case False
    with Suc.prems have tb: "t < b" by simp
    with Suc.prems have "keyAt t \<noteq> keyAt b"
      using keyAt_inject [of t b] by auto
    moreover have "getProp (writeKinds s b i n pv ob) (keyAt t) = load pv (i + t * n)"
      using Suc.prems tb by (intro Suc.IH) simp_all
    ultimately show ?thesis
      using sb by (simp add: writeKinds_Suc getProp_setProp)
  qed
qed

lemma getProp_writeKinds_other:
  "(\<And>t. s \<le> t \<Longrightarrow> t < nbParams \<Longrightarrow> k \<noteq> keyAt t) \<Longrightarrow>
   getProp (writeKinds s nbParams i n pv ob) k = getProp ob k"
proof (induction nbParams)
  case 0
  then show ?case by (simp add: writeKinds_def)
next
  case (Suc b)
  show ?case
  proof (cases "s \<le> b")
    case True
    have "k \<noteq> keyAt b"
      using Suc.prems [of b] True by simp
    moreover have "getProp (writeKinds s b i n pv ob) k = getProp ob k"
      using Suc.prems by (intro Suc.IH) simp
    ultimately show ?thesis
      using True by (simp add: writeKinds_Suc getProp_setProp)
  next
    case False
    then show ?thesis by (simp add: writeKinds_empty)
  qed
qed

lemma length_setField [simp]: "length (setField h a k v) = length h"
  by (simp add: setField_def split: cell.splits)

lemma setField_frame: "n0 \<le> a \<Longrightarrow> take n0 (setField h a k v) = take n0 h"
  by (simp add: setField_def split: cell.splits)

lemma setField_obj:
  "isObjAt h a \<Longrightarrow> setField h a k v = h[a := Obj (setProp (objAt h a) k v)]"
  by (auto simp: setField_def isObjAt_def objAt_def split: cell.splits)

lemma isObjAt_update: "isObjAt h b \<Longrightarrow> isObjAt (h[a := Obj ob]) b"
  by (cases "b = a") (auto simp: isObjAt_def nth_list_update)

lemma objAt_update:
  "a < length h \<Longrightarrow> objAt (h[a := Obj ob]) b = (if b = a then ob else objAt h b)"
  by (auto simp: objAt_def nth_list_update)

lemma length_decodeParams [simp]: "length (decodeParams s nbParams i n a pv h) = length h"
proof (induction s nbParams i n a pv h rule: decodeParams.induct)
  case (1 s nbParams i n a pv h)
  then show ?case
    by (subst decodeParams.simps) simp
qed

lemma decodeParams_frame:
  "n0 \<le> a \<Longrightarrow> take n0 (decodeParams s nbParams i n a pv h) = take n0 h"
proof (induction s nbParams i n a pv h rule: decodeParams.induct)
  case (1 s nbParams i n a pv h)
  then show ?case
    by (subst decodeParams.simps) (simp add: setField_frame)
qed

lemma decodeParams_closed:
  "isObjAt h a \<Longrightarrow>
   decodeParams s nbParams i n a pv h = h[a := Obj (writeKinds s nbParams i n pv (objAt h a))]"
proof (induction s nbParams i n a pv h rule: decodeParams.induct)
  case (1 s nbParams i n a pv h)
  from "1.prems" have a: "a < length h" and cell: "h ! a = Obj (objAt h a)"
    by (auto simp: isObjAt_def objAt_def split: cell.splits)
  show ?case
  proof (cases "s < nbParams")
    case True
    have obj': "isObjAt (setField h a (keyAt s) (load pv (i + s * n))) a"
      using "1.prems" by (simp add: setField_obj isObjAt_update)
    show ?thesis
      apply (subst decodeParams.simps)
      apply (simp only: True if_True)
      apply (subst "1.IH" [OF True obj'])
      apply (simp add: setField_obj [OF "1.prems"] objAt_update a writeKinds_first [OF True])
      done
  next
    case False
    have "h[a := Obj (objAt h a)] = h"
      using list_update_id [of h a] cell by simp
    with False show ?thesis
      by (subst decodeParams.simps) (simp add: writeKinds_empty)
  qed
qed

lemma length_decodePeaks [simp]: "length (decodePeaks i as nbParams m pv h) = length h"
proof (induction i as nbParams m pv h rule: decodePeaks.induct)
  case (1 i as nbParams m pv h)
  then show ?case
    by (subst decodePeaks.simps) (simp add: Let_def)
qed

lemma decodePeaks_frame:
  "(\<And>a. a \<in> set as \<Longrightarrow> n0 \<le> a) \<Longrightarrow> take n0 (decodePeaks i as nbParams m pv h) = take n0 h"
proof (induction i as nbParams m pv h rule: decodePeaks.induct)
  case (1 i as nbParams m pv h)
  show ?case
  proof (cases "i < length as")
    case True
    then have "n0 \<le> as ! i"
      using "1.prems" by simp
    then show ?thesis
      using True "1.IH" [OF True refl] "1.prems"
      by (subst decodePeaks.simps) (simp add: Let_def decodeParams_frame)
  next
    case False
    then show ?thesis
      by (subst decodePeaks.simps) simp
  qed
qed

section \<open>The copy of the peaks\<close>

lemma jsonCopy_wf:
  "wfPeaks h p \<Longrightarrow>
   jsonCopy h p = Inr (copiedHeap h p, length h + length (peakAddrs h p), copyAddrs h p)"
  by (auto simp: wfPeaks_def jsonCopy_def peakAddrs_def copiedHeap_def copiedPeaks_def
      copyAddrs_def Let_def split: cell.splits)

lemma jsonCopy_cases:
  "(\<exists>e. jsonCopy h p = Inl e) \<or>
   (wfPeaks h p \<and>
    jsonCopy h p = Inr (copiedHeap h p, length h + length (peakAddrs h p), copyAddrs h p))"
proof (cases "wfPeaks h p")
  case True
  then show ?thesis by (simp add: jsonCopy_wf)
next
  case False
  then have "\<exists>e. jsonCopy h p = Inl e"
    by (auto simp: wfPeaks_def jsonCopy_def split: cell.splits)
  then show ?thesis ..
qed

lemma length_copyAddrs [simp]: "length (copyAddrs h p) = length (peakAddrs h p)"
  by (simp add: copyAddrs_def)

lemma length_copiedPeaks [simp]: "length (copiedPeaks h p) = length (peakAddrs h p)"
  by (simp add: copiedPeaks_def)

lemma length_copiedHeap [simp]: "length (copiedHeap h p) = Suc (length h + length (peakAddrs h p))"
  by (simp add: copiedHeap_def)

lemma copyAddrs_nth: "i < length (peakAddrs h p) \<Longrightarrow> copyAddrs h p ! i = length h + i"
  by (simp add: copyAddrs_def)

lemma copyAddrs_fresh: "a \<in> set (copyAddrs h p) \<Longrightarrow> length h \<le> a \<and> a < length h + length (peakAddrs h p)"
  by (simp add: copyAddrs_def)

lemma distinct_copyAddrs: "distinct (copyAddrs h p)"
  by (simp add: copyAddrs_def)

lemma take_copiedHeap: "take (length h) (copiedHeap h p) = h"
  by (simp add: copiedHeap_def)

lemma copiedHeap_nth:
  "i < length (peakAddrs h p) \<Longrightarrow> copiedHeap h p ! (length h + i) = Obj (copiedPeaks h p ! i)"
  by (simp add: copiedHeap_def nth_append)

lemma copiedHeap_array:
  "copiedHeap h p ! (length h + length (peakAddrs h p)) = Arr (copyAddrs h p)"
  by (simp add: copiedHeap_def nth_append)

lemma isObjAt_copy: "a \<in> set (copyAddrs h p) \<Longrightarrow> isObjAt (copiedHeap h p) a"
proof -
  assume "a \<in> set (copyAddrs h p)"
  then obtain i where "a = length h + i" "i < length (peakAddrs h p)"
    by (auto simp: copyAddrs_def intro: le_Suc_ex dest: le_Suc_ex)
  then show ?thesis
    by (simp add: isObjAt_def copiedHeap_nth)
qed

lemma objAt_copy:
  "i < length (peakAddrs h p) \<Longrightarrow> objAt (copiedHeap h p) (length h + i) = copiedPeaks h p ! i"
  by (simp add: objAt_def copiedHeap_nth)

lemma map_objAt_copies: "map (objAt (copiedHeap h p)) (copyAddrs h p) = copiedPeaks h p"
  by (rule nth_equalityI) (simp_all add: copyAddrs_nth objAt_copy)

section \<open>The frame of \<open>optimize\<close>\<close>

lemma setField_other: "b \<noteq> a \<Longrightarrow> setField h a k v ! b = h ! b"
  by (simp add: setField_def split: cell.splits)

lemma isObjAt_setField: "isObjAt h b \<Longrightarrow> isObjAt (setField h a k v) b"
  by (cases "b = a") (auto simp: setField_def isObjAt_def split: cell.splits)

lemma decodeParams_other: "b \<noteq> a \<Longrightarrow> decodeParams s nbParams i n a pv h ! b = h ! b"
proof (induction s nbParams i n a pv h rule: decodeParams.induct)
  case (1 s nbParams i n a pv h)
  then show ?case
    by (subst decodeParams.simps) (simp add: setField_other)
qed

lemma isObjAt_decodeParams: "isObjAt h b \<Longrightarrow> isObjAt (decodeParams s nbParams i n a pv h) b"
proof (induction s nbParams i n a pv h rule: decodeParams.induct)
  case (1 s nbParams i n a pv h)
  then show ?case
    by (subst decodeParams.simps) (simp add: isObjAt_setField)
qed

lemma decodePeaks_other: "b \<notin> set as \<Longrightarrow> decodePeaks i as nbParams m pv h ! b = h ! b"
proof (induction i as nbParams m pv h rule: decodePeaks.induct)
  case (1 i as nbParams m pv h)
  show ?case
  proof (cases "i < length as")
    case True
    with "1.prems" have "b \<noteq> as ! i"
      by auto
    with True "1.IH" [OF True refl "1.prems"] show ?thesis
      by (subst decodePeaks.simps) (simp add: Let_def decodeParams_other)
  next
    case False
    then show ?thesis
      by (subst decodePeaks.simps) simp
  qed
qed

lemma isObjAt_decodePeaks: "isObjAt h b \<Longrightarrow> isObjAt (decodePeaks i as nbParams m pv h) b"
proof (induction i as nbParams m pv h rule: decodePeaks.induct)
  case (1 i as nbParams m pv h)
  show ?case
  proof (cases "i < length as")
    case True
    have "isObjAt (decodeParams 0 nbParams i (length as) (as ! i)
                     (scaleAt pv (i + length as) m) h) b"
      using "1.prems" by (rule isObjAt_decodeParams)
    with True "1.IH" [OF True refl] show ?thesis
      by (subst decodePeaks.simps) (simp add: Let_def)
  next
    case False
    with "1.prems" show ?thesis
      by (subst decodePeaks.simps) simp
  qed
qed

lemma decodePeaks_copy_frame:
  "take (length h) (decodePeaks i (copyAddrs h p) nbParams m pv (copiedHeap h p)) = h"
proof -
  have "take (length h) (decodePeaks i (copyAddrs h p) nbParams m pv (copiedHeap h p))
      = take (length h) (copiedHeap h p)"
    by (rule decodePeaks_frame) (simp add: copyAddrs_fresh)
  then show ?thesis
    by (simp add: take_copiedHeap)
qed

lemma decodePeaks_copy_array:
  "decodePeaks i (copyAddrs h p) nbParams m pv (copiedHeap h p)
     ! (length h + length (peakAddrs h p)) = Arr (copyAddrs h p)"
proof -
  have "length h + length (peakAddrs h p) \<notin> set (copyAddrs h p)"
    by (simp add: copyAddrs_def)
  then show ?thesis
    by (simp add: decodePeaks_other copiedHeap_array)
qed

lemma decodePeaks_copy_objects:
  "a \<in> set (copyAddrs h p) \<Longrightarrow>
   isObjAt (decodePeaks i (copyAddrs h p) nbParams m pv (copiedHeap h p)) a"
  by (intro isObjAt_decodePeaks isObjAt_copy)

lemma optimize_frame:
  assumes "optimize checkInput selectMethod st dat peaks opts = (r, st')"
  shows "take (length (heap st)) (heap st') = heap st"
  using assms jsonCopy_cases [of "heap st" peaks]
  by (auto simp: optimize_def Let_def take_copiedHeap decodePeaks_copy_frame
      split: sum.splits prod.splits)

lemma optimize_result_fresh:
  assumes "optimize checkInput selectMethod st dat peaks opts = (Inr res, st')"
  shows "wfPeaks (heap st) peaks"
    and "res_peaks res = length (heap st) + length (peakAddrs (heap st) peaks)"
    and "length (heap st') = Suc (length (heap st) + length (peakAddrs (heap st) peaks))"
    and "heap st' ! res_peaks res = Arr (copyAddrs (heap st) peaks)"
    and "\<And>a. a \<in> set (copyAddrs (heap st) peaks) \<Longrightarrow> isObjAt (heap st') a"
  using assms jsonCopy_cases [of "heap st" peaks]
  by (auto simp: optimize_def Let_def decodePeaks_copy_array decodePeaks_copy_objects
      split: sum.splits prod.splits)

lemma optimize2_frame:
  assumes "optimize2 imp st dat peaks opts = (r, st')"
  shows "take (length (heap st)) (heap st') = heap st"
  using assms jsonCopy_cases [of "heap st" peaks]
  by (auto simp: optimize2_def Let_def take_copiedHeap decodePeaks_copy_frame
      split: sum.splits prod.splits if_splits)

lemma optimize2_result_fresh:
  assumes "optimize2 imp st dat peaks opts = (Inr res, st')"
  shows "wfPeaks (heap st) peaks"
    and "res_peaks res = length (heap st) + length (peakAddrs (heap st) peaks)"
    and "length (heap st') = Suc (length (heap st) + length (peakAddrs (heap st) peaks))"
    and "heap st' ! res_peaks res = Arr (copyAddrs (heap st) peaks)"
    and "\<And>a. a \<in> set (copyAddrs (heap st) peaks) \<Longrightarrow> isObjAt (heap st') a"
  using assms jsonCopy_cases [of "heap st" peaks]
  by (auto simp: optimize2_def Let_def decodePeaks_copy_array decodePeaks_copy_objects
      split: sum.splits prod.splits if_splits)

section \<open>Runs of the examples\<close>

lemmas decode_rules = decodePeaks.simps decodeParams.simps scaleAt_def load_def store_def
  setField_def keyAt_def keys_def

lemma jsonCopy_testHeap:
  "jsonCopy testHeap 0 = Inr ([Arr [1], Obj testPeak, Obj testPeak, Arr [2]], 3, [2])"
  by (simp add: jsonCopy_def testHeap_def isObjAt_def objAt_def testPeak_def Let_def)

lemma decodePeaks_testHeap:
  "decodePeaks 0 [2] 3 (Num (Fin 2)) [Fin 0, Fin (1 / 2), Fin 2]
     [Arr [1], Obj testPeak, Obj testPeak, Arr [2]]
   = [Arr [1], Obj testPeak, Obj testPeak, Arr [2]]"
  by (simp add: decode_rules testPeak_def js_operators numeral_3_eq_3)

lemma optimize_testHeap:
  "optimize (checkInputStub 3 (Fin 2)) selectMethodStub \<lparr> heap = testHeap, solverLog = [] \<rparr>
     testData 0 ()
   = (Inr \<lparr> res_error = Num (Fin 0), res_iterations = Num (Fin 0), res_peaks = 3 \<rparr>,
      \<lparr> heap = [Arr [1], Obj testPeak, Obj testPeak, Arr [2]],
        solverLog = [\<lparr> call_x = testX, call_y = [Fin (1 / 2), Fin 1, Fin (1 / 2)],
                       paramsFunc = (), optimizationOptions = (),
                       minValues = [Fin (- 4), Fin 0, Fin (1 / 2)],
                       maxValues = [Fin 4, Fin (3 / 4), Fin 8],
                       initialValues = [Fin 0, Fin (1 / 2), Fin 2],
                       gradientDifference = Some [Fin (1 / 1000), Fin (1 / 1000), Fin (1 / 1000)] \<rparr>] \<rparr>)"
  by (simp del: One_nat_def add: optimize_def checkInputStub_def checkedStub_def selectMethodStub_def
      identitySolver_def jsonCopy_testHeap testData_def objAt_def buildVectors_testPeak_3
      decodePeaks_testHeap)

lemma buildVectors2_testPeak_deltaX:
  "buildVectors2 3 [testPeak] (Fin 1) =
     \<lparr> pInit = [Fin 0, Fin 1, Fin 2], pMin = [Fin (- 1), Fin 0, Fin (1 / 2)],
       pMax = [Fin 1, Fin (3 / 2), Fin 8], pGrad = [] \<rparr>"
  by (simp add: buildVectors2_testPeak_3)

lemma decodePeaks2_testHeap:
  "decodePeaks 0 [2] 3 (Num (Fin 2)) [Fin 0, Fin 1, Fin 2]
     [Arr [1], Obj testPeak, Obj testPeak, Arr [2]]
   = [Arr [1], Obj testPeak,
      Obj [(''x'', Num (Fin 0)), (''y'', Num (Fin 2)), (''width'', Num (Fin 2))], Arr [2]]"
  by (simp add: decode_rules testPeak_def js_operators numeral_3_eq_3)

lemma optimize2_testHeap:
  "optimize2 imports2Stub \<lparr> heap = testHeap, solverLog = [] \<rparr> testData 0
     \<lparr> shape = None, optimization = None \<rparr>
   = (Inr \<lparr> res_error = Num (Fin 0), res_iterations = Num (Fin 0), res_peaks = 3 \<rparr>,
      \<lparr> heap = [Arr [1], Obj testPeak,
                Obj [(''x'', Num (Fin 0)), (''y'', Num (Fin 2)), (''width'', Num (Fin 2))],
                Arr [2]],
        solverLog = [\<lparr> call_x = testX, call_y = [Fin (1 / 2), Fin 1, Fin (1 / 2)],
                       paramsFunc = sumOfGaussians (\<lambda>x y w t. ToNumber y),
                       optimizationOptions = (),
                       minValues = [Fin (- 1), Fin 0, Fin (1 / 2)],
                       maxValues = [Fin 1, Fin (3 / 2), Fin 8],
                       initialValues = [Fin 0, Fin 1, Fin 2],
                       gradientDifference = None \<rparr>] \<rparr>)"
  by (simp del: One_nat_def add: optimize2_def imports2Stub_def identitySolver_def
      jsonCopy_testHeap testData_def testX_def objAt_def load_def jsub_def
      buildVectors2_testPeak_deltaX decodePeaks2_testHeap)

lemma optimize2_triangular:
  "optimize2 imports2Stub \<lparr> heap = testHeap, solverLog = [] \<rparr> testData 0
     \<lparr> shape = Some \<lparr> kind = Some ''triangular'' \<rparr>, optimization = None \<rparr>
   = (Inl (Error ''Unknown kind''),
      \<lparr> heap = [Arr [1], Obj testPeak, Obj testPeak, Arr [2]], solverLog = [] \<rparr>)"
  by (simp del: One_nat_def add: optimize2_def imports2Stub_def jsonCopy_testHeap)

section \<open>The deep copy of the peaks\<close>

text \<open>
  Claim C3. Whatever its arguments, and whether it returns or raises, \<open>optimize\<close>
  leaves every cell of the caller's heap as it was: the fitted values go to copies
  made before any of them is written. The array in the \<open>peaks\<close> field of a returned
  result and every element of it are new addresses, so none of them is one of the
  caller's objects. This holds for both \<open>optimize\<close> functions of index.js.
\<close>

theorem optimize_copies_peaks:
  "(optimize checkInput selectMethod st dat peaks opts = (r, st') \<longrightarrow>
      take (length (heap st)) (heap st') = heap st
      \<and> (\<forall>res. r = Inr res \<longrightarrow>
            length (heap st) \<le> res_peaks res
            \<and> heap st' ! res_peaks res = Arr (copyAddrs (heap st) peaks)
            \<and> (\<forall>a \<in> set (copyAddrs (heap st) peaks).
                  length (heap st) \<le> a \<and> isObjAt (heap st') a)))
   \<and> (optimize2 imp st2 dat2 peaks2 opts2 = (r2, st2') \<longrightarrow>
      take (length (heap st2)) (heap st2') = heap st2
      \<and> (\<forall>res. r2 = Inr res \<longrightarrow>
            length (heap st2) \<le> res_peaks res
            \<and> heap st2' ! res_peaks res = Arr (copyAddrs (heap st2) peaks2)
            \<and> (\<forall>a \<in> set (copyAddrs (heap st2) peaks2).
                  length (heap st2) \<le> a \<and> isObjAt (heap st2') a)))"
proof (intro conjI impI allI ballI)
  assume run: "optimize checkInput selectMethod st dat peaks opts = (r, st')"
  then show "take (length (heap st)) (heap st') = heap st"
    by (rule optimize_frame)
  fix res
  assume "r = Inr res"
  with run have ok: "optimize checkInput selectMethod st dat peaks opts = (Inr res, st')"
    by simp
  from optimize_result_fresh(2) [OF ok] show "length (heap st) \<le> res_peaks res"
    by simp
  from optimize_result_fresh(4) [OF ok]
  show "heap st' ! res_peaks res = Arr (copyAddrs (heap st) peaks)" .
  fix a
  assume a: "a \<in> set (copyAddrs (heap st) peaks)"
  then show "length (heap st) \<le> a"
    by (simp add: copyAddrs_fresh)
  from optimize_result_fresh(5) [OF ok a] show "isObjAt (heap st') a" .
next
  assume run: "optimize2 imp st2 dat2 peaks2 opts2 = (r2, st2')"
  then show "take (length (heap st2)) (heap st2') = heap st2"
    by (rule optimize2_frame)
  fix res
  assume "r2 = Inr res"
  with run have ok: "optimize2 imp st2 dat2 peaks2 opts2 = (Inr res, st2')"
    by simp
  from optimize2_result_fresh(2) [OF ok] show "length (heap st2) \<le> res_peaks res"
    by simp
  from optimize2_result_fresh(4) [OF ok]
  show "heap st2' ! res_peaks res = Arr (copyAddrs (heap st2) peaks2)" .
  fix a
  assume a: "a \<in> set (copyAddrs (heap st2) peaks2)"
  then show "length (heap st2) \<le> a"
    by (simp add: copyAddrs_fresh)
  from optimize2_result_fresh(5) [OF ok a] show "isObjAt (heap st2') a" .
qed

theorem optimize_copies_peaks_witness:
  "optimize (checkInputStub 3 (Fin 2)) selectMethodStub \<lparr> heap = testHeap, solverLog = [] \<rparr>
     testData 0 ()
   = (Inr \<lparr> res_error = Num (Fin 0), res_iterations = Num (Fin 0), res_peaks = 3 \<rparr>,
      \<lparr> heap = [Arr [1], Obj testPeak, Obj testPeak, Arr [2]],
        solverLog = [\<lparr> call_x = testX, call_y = [Fin (1 / 2), Fin 1, Fin (1 / 2)],
                       paramsFunc = (), optimizationOptions = (),
                       minValues = [Fin (- 4), Fin 0, Fin (1 / 2)],
                       maxValues = [Fin 4, Fin (3 / 4), Fin 8],
                       initialValues = [Fin 0, Fin (1 / 2), Fin 2],
                       gradientDifference = Some [Fin (1 / 1000), Fin (1 / 1000), Fin (1 / 1000)] \<rparr>] \<rparr>)
   \<and> take (length testHeap) [Arr [1], Obj testPeak, Obj testPeak, Arr [2]] = testHeap
   \<and> length testHeap \<le> 3
   \<and> 2 \<in> set (copyAddrs testHeap 0)
   \<and> isObjAt [Arr [1], Obj testPeak, Obj testPeak, Arr [2]] 2
   \<and> fst (optimize2 imports2Stub \<lparr> heap = testHeap, solverLog = [] \<rparr> testData 0
            \<lparr> shape = None, optimization = None \<rparr>)
       = Inr \<lparr> res_error = Num (Fin 0), res_iterations = Num (Fin 0), res_peaks = 3 \<rparr>
   \<and> take (length testHeap)
        (heap (snd (optimize2 imports2Stub \<lparr> heap = testHeap, solverLog = [] \<rparr> testData 0
            \<lparr> shape = None, optimization = None \<rparr>))) = testHeap"
proof -
  have addr: "copyAddrs testHeap 0 = [2]"
    by (simp add: copyAddrs_def peakAddrs_def testHeap_def)
  from optimize_copies_peaks
    [where checkInput = "checkInputStub 3 (Fin 2)" and selectMethod = selectMethodStub
       and st = "\<lparr> heap = testHeap, solverLog = [] \<rparr>" and dat = testData and peaks = 0
       and opts = "()"
       and r = "Inr \<lparr> res_error = Num (Fin 0), res_iterations = Num (Fin 0), res_peaks = 3 \<rparr>"
       and st' = "\<lparr> heap = [Arr [1], Obj testPeak, Obj testPeak, Arr [2]],
        solverLog = [\<lparr> call_x = testX, call_y = [Fin (1 / 2), Fin 1, Fin (1 / 2)],
                       paramsFunc = (), optimizationOptions = (),
                       minValues = [Fin (- 4), Fin 0, Fin (1 / 2)],
                       maxValues = [Fin 4, Fin (3 / 4), Fin 8],
                       initialValues = [Fin 0, Fin (1 / 2), Fin 2],
                       gradientDifference = Some [Fin (1 / 1000), Fin (1 / 1000), Fin (1 / 1000)] \<rparr>] \<rparr>"
       and imp = imports2Stub and ?st2.0 = "\<lparr> heap = testHeap, solverLog = [] \<rparr>"
       and ?dat2.0 = testData and ?peaks2.0 = 0
       and ?opts2.0 = "\<lparr> shape = None, optimization = None \<rparr>"
       and ?r2.0 = "fst (optimize2 imports2Stub \<lparr> heap = testHeap, solverLog = [] \<rparr> testData 0
            \<lparr> shape = None, optimization = None \<rparr>)"
       and st2' = "snd (optimize2 imports2Stub \<lparr> heap = testHeap, solverLog = [] \<rparr> testData 0
            \<lparr> shape = None, optimization = None \<rparr>)"]
  show ?thesis
    by (simp del: One_nat_def add: optimize_testHeap optimize2_testHeap addr)
qed

section \<open>Unsupported shape kinds\<close>

text \<open>
  Claim C4. For every unrecognized shape kind (\<open>getKind\<close> raises for it, or answers
  with something other than 1, 2 or 3), the second \<open>optimize\<close> raises, the solver has
  not been called, and every cell of the caller's heap is as it was. In the first
  \<open>optimize\<close> the kind is checked by \<open>checkInput\<close>; whenever that raises, \<open>optimize\<close>
  raises the same error and nothing has changed.
\<close>

theorem unsupported_kind_fails_before_solver:
  "(shape opts = Some \<lparr> kind = k \<rparr> \<and>
    (case getKind imp k of Inl e \<Rightarrow> True | Inr knd \<Rightarrow> knd \<noteq> 1 \<and> knd \<noteq> 2 \<and> knd \<noteq> 3) \<and>
    optimize2 imp st dat peaks opts = (r, st') \<longrightarrow>
      (\<exists>e. r = Inl e) \<and> solverLog st' = solverLog st \<and>
      take (length (heap st)) (heap st') = heap st)
   \<and> (checkInput dat1 opts1 = Inl e1 \<longrightarrow>
      optimize checkInput selectMethod st1 dat1 peaks1 opts1 = (Inl e1, st1))"
proof (intro conjI impI)
  assume h: "shape opts = Some \<lparr> kind = k \<rparr> \<and>
    (case getKind imp k of Inl e \<Rightarrow> True | Inr knd \<Rightarrow> knd \<noteq> 1 \<and> knd \<noteq> 2 \<and> knd \<noteq> 3) \<and>
    optimize2 imp st dat peaks opts = (r, st')"
  then show "take (length (heap st)) (heap st') = heap st"
    using optimize2_frame by blast
  from h show "\<exists>e. r = Inl e"
    by (auto simp: optimize2_def Let_def split: sum.splits prod.splits if_splits)
  from h show "solverLog st' = solverLog st"
    by (auto simp: optimize2_def Let_def split: sum.splits prod.splits if_splits)
next
  assume "checkInput dat1 opts1 = Inl e1"
  then show "optimize checkInput selectMethod st1 dat1 peaks1 opts1 = (Inl e1, st1)"
    by (simp add: optimize_def)
qed

theorem unsupported_kind_fails_before_solver_witness:
  "optimize2 imports2Stub \<lparr> heap = testHeap, solverLog = [] \<rparr> testData 0
     \<lparr> shape = Some \<lparr> kind = Some ''triangular'' \<rparr>, optimization = None \<rparr>
   = (Inl (Error ''Unknown kind''),
      \<lparr> heap = [Arr [1], Obj testPeak, Obj testPeak, Arr [2]], solverLog = [] \<rparr>)
   \<and> getKind imports2Stub (Some ''triangular'') = Inl (Error ''Unknown kind'')
   \<and> take (length testHeap) [Arr [1], Obj testPeak, Obj testPeak, Arr [2]] = testHeap
   \<and> optimize (\<lambda>d o'. Inl (Error ''kind of shape is not supported'')) selectMethodStub
        \<lparr> heap = testHeap, solverLog = [] \<rparr> testData 0 ()
     = (Inl (Error ''kind of shape is not supported''), \<lparr> heap = testHeap, solverLog = [] \<rparr>)"
proof -
  have unknown: "getKind imports2Stub (Some ''triangular'') = Inl (Error ''Unknown kind'')"
    by (simp add: imports2Stub_def)
  have hyp: "shape \<lparr> shape = Some \<lparr> kind = Some ''triangular'' \<rparr>, optimization = None \<rparr>
      = Some \<lparr> kind = Some ''triangular'' \<rparr> \<and>
    (case getKind imports2Stub (Some ''triangular'') of
       Inl e \<Rightarrow> True | Inr knd \<Rightarrow> knd \<noteq> 1 \<and> knd \<noteq> 2 \<and> knd \<noteq> 3) \<and>
    optimize2 imports2Stub \<lparr> heap = testHeap, solverLog = [] \<rparr> testData 0
       \<lparr> shape = Some \<lparr> kind = Some ''triangular'' \<rparr>, optimization = None \<rparr>
     = (Inl (Error ''Unknown kind''),
        \<lparr> heap = [Arr [1], Obj testPeak, Obj testPeak, Arr [2]], solverLog = [] \<rparr>)"
    by (simp add: unknown optimize2_triangular)
  from unsupported_kind_fails_before_solver
    [where opts = "\<lparr> shape = Some \<lparr> kind = Some ''triangular'' \<rparr>, optimization = None \<rparr>"
       and k = "Some ''triangular''" and imp = imports2Stub
       and st = "\<lparr> heap = testHeap, solverLog = [] \<rparr>" and dat = testData and peaks = 0
       and r = "Inl (Error ''Unknown kind'')"
       and st' = "\<lparr> heap = [Arr [1], Obj testPeak, Obj testPeak, Arr [2]], solverLog = [] \<rparr>"
       and checkInput = "\<lambda>d o'. Inl (Error ''kind of shape is not supported'')"
       and ?dat1.0 = testData and ?opts1.0 = "()"
       and ?e1.0 = "Error ''kind of shape is not supported''"
       and selectMethod = selectMethodStub
       and ?st1.0 = "\<lparr> heap = testHeap, solverLog = [] \<rparr>" and ?peaks1.0 = 0]
    hyp
  show ?thesis
    by (simp del: One_nat_def add: unknown optimize2_triangular)
qed

section \<open>Decoding\<close>

lemma length_scaleAt [simp]: "length (scaleAt pv j m) = length pv"
  by (simp add: scaleAt_def)

lemma nth_scaleAt:
  "scaleAt pv j m ! k = (if k = j \<and> j < length pv then jmul (pv ! j) (ToNumber m) else pv ! k)"
  by (simp add: scaleAt_def nth_store load_def js_times_def)

lemma scaled_Suc:
  "i0 \<le> k \<Longrightarrow> scaled i0 (Suc k) n m pv = scaleAt (scaled i0 k n m pv) (k + n) m"
  by (simp add: scaled_def)

lemma scaled_empty: "i1 \<le> i0 \<Longrightarrow> scaled i0 i1 n m pv = pv"
  by (simp add: scaled_def)

lemma scaled_first:
  "i0 < i1 \<Longrightarrow> scaled i0 i1 n m pv = scaled (Suc i0) i1 n m (scaleAt pv (i0 + n) m)"
  by (simp add: scaled_def upt_conv_Cons)

lemma length_scaled [simp]: "length (scaled i0 i1 n m pv) = length pv"
proof (induction i1)
  case 0
  then show ?case by (simp add: scaled_def)
next
  case (Suc k)
  show ?case
  proof (cases "i0 \<le> k")
    case True
    with Suc show ?thesis by (simp add: scaled_Suc)
  next
    case False
    then show ?thesis by (simp add: scaled_empty)
  qed
qed

lemma scaled_nth_other:
  "(\<And>j'. i0 \<le> j' \<Longrightarrow> j' < i1 \<Longrightarrow> j \<noteq> j' + n) \<Longrightarrow> scaled i0 i1 n m pv ! j = pv ! j"
proof (induction i1)
  case 0
  then show ?case by (simp add: scaled_def)
next
  case (Suc k)
  show ?case
  proof (cases "i0 \<le> k")
    case True
    have "j \<noteq> k + n"
      using Suc.prems [of k] True by simp
    moreover have "scaled i0 k n m pv ! j = pv ! j"
      using Suc.prems by (intro Suc.IH) simp
    ultimately show ?thesis
      using True by (simp add: scaled_Suc nth_scaleAt)
  next
    case False
    then show ?thesis by (simp add: scaled_empty)
  qed
qed

lemma scaled_nth:
  "i0 \<le> k \<Longrightarrow> k < i1 \<Longrightarrow> k + n < length pv \<Longrightarrow>
   scaled i0 i1 n m pv ! (k + n) = jmul (pv ! (k + n)) (ToNumber m)"
proof (induction i1)
  case 0
  then show ?case by simp
next
  case (Suc b)
  from Suc.prems have i0b: "i0 \<le> b" by simp
  show ?case
  proof (cases "k = b")
    case True
    have "scaled i0 b n m pv ! (b + n) = pv ! (b + n)"
      by (rule scaled_nth_other) simp
    with True Suc.prems i0b show ?thesis
      by (simp add: scaled_Suc nth_scaleAt)
  next
    case False
    with Suc.prems have "k < b" by simp
    with Suc.IH [OF Suc.prems(1) this Suc.prems(3)] False i0b show ?thesis
      by (simp add: scaled_Suc nth_scaleAt)
  qed
qed

lemma load_scaled:
  assumes "i < n"
  shows "load (scaled 0 (Suc i) n m pv) (i + t * n) =
     (if i + t * n < length pv
      then Num (if t = 1 then jmul (pv ! (i + n)) (ToNumber m) else pv ! (i + t * n))
      else Undefined)"
proof (cases "t = 1")
  case True
  then show ?thesis
    using scaled_nth [of 0 i "Suc i" n pv m] by (simp add: load_def)
next
  case False
  have "scaled 0 (Suc i) n m pv ! (i + t * n) = pv ! (i + t * n)"
  proof (rule scaled_nth_other)
    fix j'
    assume "j' < Suc i"
    with assms have "j' < n" by simp
    show "i + t * n \<noteq> j' + n"
      using index_unique [OF assms \<open>j' < n\<close>, of t 1] False by auto
  qed
  with False show ?thesis
    by (simp add: load_def)
qed

lemma decodePeaks_objects:
  "distinct as \<Longrightarrow> (\<And>a. a \<in> set as \<Longrightarrow> isObjAt h a) \<Longrightarrow> i < length as \<Longrightarrow>
   objAt (decodePeaks i0 as nbParams m pv h) (as ! i) =
     (if i0 \<le> i
      then writeKinds 0 nbParams i (length as) (scaled i0 (Suc i) (length as) m pv) (objAt h (as ! i))
      else objAt h (as ! i))"
proof (induction i0 as nbParams m pv h rule: decodePeaks.induct)
  case (1 i0 as nbParams m pv h)
  show ?case
  proof (cases "i0 < length as")
    case True
    define pv' where "pv' = scaleAt pv (i0 + length as) m"
    define h' where "h' = decodeParams 0 nbParams i0 (length as) (as ! i0) pv' h"
    have obj0: "isObjAt h (as ! i0)"
      using True "1.prems"(2) by simp
    then have a0: "as ! i0 < length h"
      by (simp add: isObjAt_def)
    have h': "h' = h[as ! i0 := Obj (writeKinds 0 nbParams i0 (length as) pv' (objAt h (as ! i0)))]"
      unfolding h'_def by (rule decodeParams_closed [OF obj0])
    have objs': "\<And>a. a \<in> set as \<Longrightarrow> isObjAt h' a"
      unfolding h' using "1.prems"(2) by (simp add: isObjAt_update)
    have step: "decodePeaks i0 as nbParams m pv h = decodePeaks (i0 + 1) as nbParams m pv' h'"
      using True by (subst decodePeaks.simps) (simp add: Let_def pv'_def h'_def)
    have IH: "objAt (decodePeaks (i0 + 1) as nbParams m pv' h') (as ! i) =
        (if i0 + 1 \<le> i
         then writeKinds 0 nbParams i (length as) (scaled (i0 + 1) (Suc i) (length as) m pv')
                (objAt h' (as ! i))
         else objAt h' (as ! i))"
      unfolding h'_def
      by (rule "1.IH" [OF True pv'_def "1.prems"(1) _ "1.prems"(3)])
        (use objs' in \<open>simp add: h'_def\<close>)
    show ?thesis
    proof (cases "i = i0")
      case same: True
      have "scaled i0 (Suc i0) (length as) m pv = pv'"
        by (simp add: scaled_Suc scaled_empty pv'_def)
      with same IH a0 show ?thesis
        unfolding step by (simp add: h' objAt_update)
    next
      case False
      with "1.prems"(1,3) True have "as ! i \<noteq> as ! i0"
        by (simp add: nth_eq_iff_index_eq)
      then have same_obj: "objAt h' (as ! i) = objAt h (as ! i)"
        by (simp add: h' objAt_update a0)
      show ?thesis
      proof (cases "i0 < i")
        case True
        then have "scaled i0 (Suc i) (length as) m pv = scaled (i0 + 1) (Suc i) (length as) m pv'"
          by (simp add: scaled_first pv'_def)
        with True IH same_obj show ?thesis
          unfolding step by simp
      next
        case lower: False
        with False IH same_obj show ?thesis
          unfolding step by simp
      qed
    qed
  next
    case False
    with "1.prems"(3) show ?thesis
      by (subst decodePeaks.simps) simp
  qed
qed

lemma decodePeaks_field:
  assumes "distinct as" "\<And>a. a \<in> set as \<Longrightarrow> isObjAt h a" "i < length as"
    and "nbParams \<le> 4" "t < nbParams"
  shows "getProp (objAt (decodePeaks 0 as nbParams m pv h) (as ! i)) (keyAt t) =
     (if i + t * length as < length pv
      then Num (if t = 1 then jmul (pv ! (i + length as)) (ToNumber m)
                else pv ! (i + t * length as))
      else Undefined)"
  using decodePeaks_objects [OF assms(1,2,3), of 0 nbParams m pv]
    getProp_writeKinds [OF assms(4) le0 assms(5)] load_scaled [OF assms(3)]
  by simp

lemma decodePeaks_untouched_field:
  assumes "distinct as" "\<And>a. a \<in> set as \<Longrightarrow> isObjAt h a" "i < length as"
    and "\<And>t. t < nbParams \<Longrightarrow> k \<noteq> keyAt t"
  shows "getProp (objAt (decodePeaks 0 as nbParams m pv h) (as ! i)) k = getProp (objAt h (as ! i)) k"
  using decodePeaks_objects [OF assms(1,2,3), of 0 nbParams m pv]
    getProp_writeKinds_other [of 0 nbParams k] assms(4)
  by simp

section \<open>Runs of the first \<open>optimize\<close>\<close>

lemma optimize_run:
  assumes "wfPeaks (heap st) peaks"
    and "checkInput dat opts = Inr c"
    and "selectMethod (ck_optimization c) = Inr (algorithm, so)"
    and "buildVectors (ck_nbParams c) (copiedPeaks (heap st) peaks) (ck_getValueOptions c) = Inr v"
  shows "optimize checkInput selectMethod st dat peaks opts =
     (case algorithm (solverCallOf c so v) of
        Inl e \<Rightarrow>
          (Inl e, st\<lparr>heap := copiedHeap (heap st) peaks,
                     solverLog := solverLog st @ [solverCallOf c so v]\<rparr>)
      | Inr fit \<Rightarrow>
          (Inr \<lparr> res_error = parameterError fit, res_iterations = iterations fit,
                 res_peaks = length (heap st) + length (peakAddrs (heap st) peaks) \<rparr>,
           st\<lparr>heap := decodePeaks 0 (copyAddrs (heap st) peaks) (ck_nbParams c) (ck_maxY c)
                         (parameterValues fit) (copiedHeap (heap st) peaks),
              solverLog := solverLog st @ [solverCallOf c so v]\<rparr>))"
  using assms
  by (simp add: optimize_def jsonCopy_wf map_objAt_copies solverCallOf_def Let_def
      split: sum.splits)

lemma valueAt_init:
  "valueAt pk STATE_INIT gvo 0 = getProp pk ''x''"
  "valueAt pk STATE_INIT gvo 1 = js_over (getProp pk ''y'') (maxY gvo)"
  "valueAt pk STATE_INIT gvo 2 = getProp pk ''width''"
  "valueAt pk STATE_INIT gvo 3 = js_or (getProp pk ''mu'') (Num (Fin (1 / 2)))"
  by (simp_all add: valueAt_def getValue_def source_constants)

lemma getValue_stored:
  assumes "s < 4"
    and "state \<in> {STATE_INIT, STATE_MIN, STATE_MAX, STATE_GRADIENT_DIFFERENCE}"
  shows "map_sum id ToNumber (getValue (int s) pk state gvo) = Inr (ToNumber (valueAt pk state gvo s))"
    and "map_sum id (\<lambda>v. Some (ToNumber v)) (getValue (int s) pk state gvo)
           = Inr (Some (ToNumber (valueAt pk state gvo s)))"
  by (simp_all add: getValue_supported [OF assms])

lemma copiedPeaks_nth:
  "i < length (peakAddrs h p) \<Longrightarrow> copiedPeaks h p ! i = jsonObj (peakAt h p i)"
  by (simp add: copiedPeaks_def peakAt_def)

lemma peakAddrs_array: "q < length H \<Longrightarrow> H ! q = Arr as \<Longrightarrow> peakAddrs H q = as"
  by (simp add: peakAddrs_def)

lemma returned_peak:
  assumes "i < length (peakAddrs h p)"
  shows "peakAt (decodePeaks 0 (copyAddrs h p) nbParams m pv (copiedHeap h p))
           (length h + length (peakAddrs h p)) i
       = objAt (decodePeaks 0 (copyAddrs h p) nbParams m pv (copiedHeap h p)) (copyAddrs h p ! i)"
proof -
  have "peakAddrs (decodePeaks 0 (copyAddrs h p) nbParams m pv (copiedHeap h p))
          (length h + length (peakAddrs h p)) = copyAddrs h p"
    by (rule peakAddrs_array) (simp_all add: decodePeaks_copy_array)
  then show ?thesis
    by (simp add: peakAt_def)
qed

lemma returned_field:
  assumes "i < length (peakAddrs h p)" "nbParams \<le> 4" "t < nbParams"
  shows "getProp (peakAt (decodePeaks 0 (copyAddrs h p) nbParams m pv (copiedHeap h p))
                    (length h + length (peakAddrs h p)) i) (keyAt t) =
     (if i + t * length (peakAddrs h p) < length pv
      then Num (if t = 1 then jmul (pv ! (i + length (peakAddrs h p))) (ToNumber m)
                else pv ! (i + t * length (peakAddrs h p)))
      else Undefined)"
proof -
  have i': "i < length (copyAddrs h p)"
    using assms(1) by simp
  from decodePeaks_field [OF distinct_copyAddrs isObjAt_copy i' assms(2,3), of h p m pv]
  show ?thesis
    by (simp add: returned_peak [OF assms(1)])
qed

lemma optimize_run_state:
  assumes "wfPeaks (heap st) peaks"
    and "checkInput dat opts = Inr c"
    and "selectMethod (ck_optimization c) = Inr (algorithm, so)"
    and "buildVectors (ck_nbParams c) (copiedPeaks (heap st) peaks) (ck_getValueOptions c) = Inr v"
    and "optimize checkInput selectMethod st dat peaks opts = (r, st')"
  shows "solverLog st' = solverLog st @ [solverCallOf c so v]"
    and "algorithm (solverCallOf c so v) = Inr fit \<Longrightarrow>
           r = Inr \<lparr> res_error = parameterError fit, res_iterations = iterations fit,
                     res_peaks = length (heap st) + length (peakAddrs (heap st) peaks) \<rparr>"
    and "algorithm (solverCallOf c so v) = Inr fit \<Longrightarrow>
           heap st' = decodePeaks 0 (copyAddrs (heap st) peaks) (ck_nbParams c) (ck_maxY c)
                        (parameterValues fit) (copiedHeap (heap st) peaks)"
    and "algorithm (solverCallOf c so v) = Inl e \<Longrightarrow> r = Inl e"
  using assms(5)
  unfolding optimize_run [where checkInput = checkInput and selectMethod = selectMethod,
      OF assms(1-4)]
  by (auto split: sum.splits)

lemma keyAt_values:
  "keyAt 0 = ''x''" "keyAt 1 = ''y''" "keyAt 2 = ''width''" "keyAt 3 = ''mu''"
  by (simp_all add: keyAt_def keys_def)

lemma keyAt_keys: "s < 4 \<Longrightarrow> keyAt s = keys ! s"
  by (simp add: keyAt_def keys_def)

section \<open>More runs of the examples\<close>

lemma wfPeaks_examples:
  "wfPeaks testHeap 0" "wfPeaks zeroMuHeap 0" "wfPeaks zeroWidthHeap 0"
  by (simp_all add: wfPeaks_def testHeap_def zeroMuHeap_def zeroWidthHeap_def isObjAt_def)

lemma peakAddrs_examples:
  "peakAddrs testHeap 0 = [1]" "peakAddrs zeroMuHeap 0 = [1]" "peakAddrs zeroWidthHeap 0 = [1]"
  by (simp_all add: peakAddrs_def testHeap_def zeroMuHeap_def zeroWidthHeap_def)

lemma peakAt_examples:
  "peakAt testHeap 0 0 = testPeak"
  "peakAt zeroMuHeap 0 0 = testPeak @ [(''mu'', Num (Fin 0))]"
  "peakAt zeroWidthHeap 0 0 = zeroWidthPeak"
  by (simp_all add: peakAt_def peakAddrs_def objAt_def testHeap_def zeroMuHeap_def
      zeroWidthHeap_def)

lemma jsonCopy_zeroMuHeap:
  "jsonCopy zeroMuHeap 0 =
     Inr ([Arr [1], Obj (testPeak @ [(''mu'', Num (Fin 0))]),
           Obj (testPeak @ [(''mu'', Num (Fin 0))]), Arr [2]], 3, [2])"
  by (simp add: jsonCopy_def zeroMuHeap_def isObjAt_def objAt_def testPeak_def Let_def)

lemma buildVectors_zeroMu:
  "buildVectors 4 [testPeak @ [(''mu'', Num (Fin 0))]] (defaultOptions (Num (Fin 2))) =
     Inr \<lparr> pInit = [Fin 0, Fin (1 / 2), Fin 2, Fin (1 / 2)],
           pMin = [Fin (- 4), Fin 0, Fin (1 / 2), Fin 0],
           pMax = [Fin 4, Fin (3 / 4), Fin 8, Fin 1],
           pGrad = [Fin (1 / 1000), Fin (1 / 1000), Fin (1 / 1000), Fin (1 / 100)] \<rparr>"
  by (simp add: build_rules testPeak_def eval_nat_numeral)

lemma decodePeaks_zeroMu:
  "decodePeaks 0 [2] 4 (Num (Fin 2)) [Fin 0, Fin (1 / 2), Fin 2, Fin (1 / 2)]
     [Arr [1], Obj (testPeak @ [(''mu'', Num (Fin 0))]),
      Obj (testPeak @ [(''mu'', Num (Fin 0))]), Arr [2]]
   = [Arr [1], Obj (testPeak @ [(''mu'', Num (Fin 0))]),
      Obj (testPeak @ [(''mu'', Num (Fin (1 / 2)))]), Arr [2]]"
  by (simp add: decode_rules testPeak_def js_operators eval_nat_numeral)

lemma optimize_zeroMuHeap:
  "optimize (checkInputStub 4 (Fin 2)) selectMethodStub \<lparr> heap = zeroMuHeap, solverLog = [] \<rparr>
     testData 0 ()
   = (Inr \<lparr> res_error = Num (Fin 0), res_iterations = Num (Fin 0), res_peaks = 3 \<rparr>,
      \<lparr> heap = [Arr [1], Obj (testPeak @ [(''mu'', Num (Fin 0))]),
                Obj (testPeak @ [(''mu'', Num (Fin (1 / 2)))]), Arr [2]],
        solverLog = [\<lparr> call_x = testX, call_y = [Fin (1 / 2), Fin 1, Fin (1 / 2)],
                       paramsFunc = (), optimizationOptions = (),
                       minValues = [Fin (- 4), Fin 0, Fin (1 / 2), Fin 0],
                       maxValues = [Fin 4, Fin (3 / 4), Fin 8, Fin 1],
                       initialValues = [Fin 0, Fin (1 / 2), Fin 2, Fin (1 / 2)],
                       gradientDifference =
                         Some [Fin (1 / 1000), Fin (1 / 1000), Fin (1 / 1000), Fin (1 / 100)] \<rparr>] \<rparr>)"
  by (simp del: One_nat_def add: optimize_def checkInputStub_def checkedStub_def selectMethodStub_def
      identitySolver_def jsonCopy_zeroMuHeap testData_def objAt_def buildVectors_zeroMu
      decodePeaks_zeroMu)

lemma jsonCopy_zeroWidthHeap:
  "jsonCopy zeroWidthHeap 0 =
     Inr ([Arr [1], Obj zeroWidthPeak, Obj zeroWidthPeak, Arr [2]], 3, [2])"
  by (simp add: jsonCopy_def zeroWidthHeap_def isObjAt_def objAt_def zeroWidthPeak_def Let_def)

lemma buildVectors_zeroWidth:
  "buildVectors 3 [zeroWidthPeak] (defaultOptions (Num (Fin 2))) =
     Inr \<lparr> pInit = [Fin 0, Fin (1 / 2), Fin 0],
           pMin = [Fin 0, Fin 0, Fin 0],
           pMax = [Fin 0, Fin (3 / 4), Fin 0],
           pGrad = [Fin 0, Fin (1 / 1000), Fin 0] \<rparr>"
  by (simp add: build_rules zeroWidthPeak_def numeral_3_eq_3)

lemma decodePeaks_zeroWidth:
  "decodePeaks 0 [2] 3 (Num (Fin 2)) [Fin 0, Fin (1 / 2), Fin 0]
     [Arr [1], Obj zeroWidthPeak, Obj zeroWidthPeak, Arr [2]]
   = [Arr [1], Obj zeroWidthPeak, Obj zeroWidthPeak, Arr [2]]"
  by (simp add: decode_rules zeroWidthPeak_def js_operators numeral_3_eq_3)

lemma optimize_zeroWidthHeap:
  "optimize (checkInputStub 3 (Fin 2)) selectMethodStub \<lparr> heap = zeroWidthHeap, solverLog = [] \<rparr>
     unequalData 0 ()
   = (Inr \<lparr> res_error = Num (Fin 0), res_iterations = Num (Fin 0), res_peaks = 3 \<rparr>,
      \<lparr> heap = [Arr [1], Obj zeroWidthPeak, Obj zeroWidthPeak, Arr [2]],
        solverLog = [\<lparr> call_x = testX, call_y = [Fin (1 / 2), Fin 1],
                       paramsFunc = (), optimizationOptions = (),
                       minValues = [Fin 0, Fin 0, Fin 0],
                       maxValues = [Fin 0, Fin (3 / 4), Fin 0],
                       initialValues = [Fin 0, Fin (1 / 2), Fin 0],
                       gradientDifference = Some [Fin 0, Fin (1 / 1000), Fin 0] \<rparr>] \<rparr>)"
  by (simp del: One_nat_def add: optimize_def checkInputStub_def checkedStub_def selectMethodStub_def
      identitySolver_def jsonCopy_zeroWidthHeap unequalData_def objAt_def buildVectors_zeroWidth
      decodePeaks_zeroWidth)

lemma checkedStub_fields:
  "ck_nbParams (checkedStub nb m dat) = nb"
  "ck_maxY (checkedStub nb m dat) = Num m"
  "ck_optimization (checkedStub nb m dat) = ()"
  "ck_getValueOptions (checkedStub nb m dat) = defaultOptions (Num m)"
  "ck_x (checkedStub nb m dat) = data_x dat"
  "ck_y (checkedStub nb m dat) = map (\<lambda>e. jdiv e m) (data_y dat)"
  by (simp_all add: checkedStub_def)

section \<open>The initial mixing fraction\<close>

text \<open>
  Claim C10. For a peak whose \<open>mu\<close> field is 0, the initial mixing-fraction entry of
  the initial-value vector is 0.5, as it is for a peak with no \<open>mu\<close> field: the
  resolver answers 0.5 in both cases, and with four parameters per peak the vector
  handed to the solver holds 0.5 at the index \<open>i + 3 n\<close> of that peak.
\<close>

theorem zero_mu_starts_at_half:
  "(getProp peak ''mu'' = Num (Fin 0) \<or> getProp peak ''mu'' = Undefined \<longrightarrow>
      getValue MU peak STATE_INIT gvo = Inr (Num (Fin (1 / 2))))
   \<and> (wfPeaks (heap st) peaks \<and> checkInput dat opts = Inr c \<and> ck_nbParams c = 4 \<and>
       selectMethod (ck_optimization c) = Inr (algorithm, so) \<and>
       optimize checkInput selectMethod st dat peaks opts = (r, st') \<and>
       i < length (peakAddrs (heap st) peaks) \<and>
       getProp (peakAt (heap st) peaks i) ''mu'' = Num (Fin 0) \<longrightarrow>
      (\<exists>call. solverLog st' = solverLog st @ [call] \<and>
              initialValues call ! (i + 3 * length (peakAddrs (heap st) peaks)) = Fin (1 / 2)))"
proof (intro conjI impI)
  assume "getProp peak ''mu'' = Num (Fin 0) \<or> getProp peak ''mu'' = Undefined"
  then show "getValue MU peak STATE_INIT gvo = Inr (Num (Fin (1 / 2)))"
    by (auto simp: getValue_def source_constants js_or_def)
next
  assume h: "wfPeaks (heap st) peaks \<and> checkInput dat opts = Inr c \<and> ck_nbParams c = 4 \<and>
       selectMethod (ck_optimization c) = Inr (algorithm, so) \<and>
       optimize checkInput selectMethod st dat peaks opts = (r, st') \<and>
       i < length (peakAddrs (heap st) peaks) \<and>
       getProp (peakAt (heap st) peaks i) ''mu'' = Num (Fin 0)"
  then have wf: "wfPeaks (heap st) peaks" and ck: "checkInput dat opts = Inr c"
    and nb: "ck_nbParams c = 4" and sm: "selectMethod (ck_optimization c) = Inr (algorithm, so)"
    and run: "optimize checkInput selectMethod st dat peaks opts = (r, st')"
    and i: "i < length (peakAddrs (heap st) peaks)"
    and mu: "getProp (peakAt (heap st) peaks i) ''mu'' = Num (Fin 0)"
    by simp_all
  from nb have nb4: "ck_nbParams c \<le> 4" and three: "3 < ck_nbParams c"
    by simp_all
  from buildVectors_succeeds [OF nb4] obtain v
    where bv: "buildVectors (ck_nbParams c) (copiedPeaks (heap st) peaks) (ck_getValueOptions c)
                 = Inr v"
    by blast
  have log: "solverLog st' = solverLog st @ [solverCallOf c so v]"
    by (rule optimize_run_state(1)
        [where checkInput = checkInput and selectMethod = selectMethod, OF wf ck sm bv run])
  have i': "i < length (copiedPeaks (heap st) peaks)"
    using i by simp
  have "pInit v ! (i + 3 * length (peakAddrs (heap st) peaks))
      = ToNumber (valueAt (jsonObj (peakAt (heap st) peaks i)) STATE_INIT (ck_getValueOptions c) 3)"
    using buildVectors_layout(1) [OF bv nb4 i' three] i by (simp add: copiedPeaks_nth)
  also have "\<dots> = Fin (1 / 2)"
    using getProp_jsonObj_number [OF mu] by (simp add: valueAt_init js_or_def)
  finally have "initialValues (solverCallOf c so v) ! (i + 3 * length (peakAddrs (heap st) peaks))
      = Fin (1 / 2)"
    by (simp add: solverCallOf_def)
  with log show "\<exists>call. solverLog st' = solverLog st @ [call] \<and>
      initialValues call ! (i + 3 * length (peakAddrs (heap st) peaks)) = Fin (1 / 2)"
    by blast
qed

theorem zero_mu_starts_at_half_witness:
  "getProp (peakAt zeroMuHeap 0 0) ''mu'' = Num (Fin 0)
   \<and> getValue MU (peakAt zeroMuHeap 0 0) STATE_INIT (defaultOptions (Num (Fin 2)))
       = Inr (Num (Fin (1 / 2)))
   \<and> wfPeaks zeroMuHeap 0
   \<and> checkInputStub 4 (Fin 2) testData () = Inr (checkedStub 4 (Fin 2) testData)
   \<and> ck_nbParams (checkedStub 4 (Fin 2) testData) = 4
   \<and> selectMethodStub (ck_optimization (checkedStub 4 (Fin 2) testData)) = Inr (identitySolver, ())
   \<and> 0 < length (peakAddrs zeroMuHeap 0)
   \<and> (\<exists>call. solverLog (snd (optimize (checkInputStub 4 (Fin 2)) selectMethodStub
                                \<lparr> heap = zeroMuHeap, solverLog = [] \<rparr> testData 0 ())) = [call]
            \<and> initialValues call ! 3 = Fin (1 / 2))"
proof -
  let ?c = "checkedStub 4 (Fin 2) testData"
  let ?run = "optimize (checkInputStub 4 (Fin 2)) selectMethodStub
                \<lparr> heap = zeroMuHeap, solverLog = [] \<rparr> testData 0 ()"
  have mu: "getProp (peakAt zeroMuHeap 0 0) ''mu'' = Num (Fin 0)"
    by (simp add: peakAt_examples testPeak_def getProp_def)
  have ck: "checkInputStub 4 (Fin 2) testData () = Inr ?c"
    by (simp add: checkInputStub_def)
  have nb: "ck_nbParams ?c = 4"
    by (simp add: checkedStub_fields)
  have sm: "selectMethodStub (ck_optimization ?c) = Inr (identitySolver, ())"
    by (simp add: selectMethodStub_def)
  have i: "0 < length (peakAddrs zeroMuHeap 0)"
    by (simp add: peakAddrs_examples)
  note th = zero_mu_starts_at_half
    [where peak = "peakAt zeroMuHeap 0 0" and gvo = "defaultOptions (Num (Fin 2))"
       and st = "\<lparr> heap = zeroMuHeap, solverLog = [] \<rparr>" and peaks = 0
       and checkInput = "checkInputStub 4 (Fin 2)" and dat = testData and opts = "()"
       and c = ?c and selectMethod = selectMethodStub and algorithm = identitySolver
       and so = "()" and r = "fst ?run" and st' = "snd ?run" and i = 0]
  from th [THEN conjunct1] mu
  have first: "getValue MU (peakAt zeroMuHeap 0 0) STATE_INIT (defaultOptions (Num (Fin 2)))
       = Inr (Num (Fin (1 / 2)))"
    by simp
  from th [THEN conjunct2] wfPeaks_examples(2) ck nb sm i mu
  have "\<exists>call. solverLog (snd ?run) = [] @ [call]
      \<and> initialValues call ! (0 + 3 * length (peakAddrs zeroMuHeap 0)) = Fin (1 / 2)"
    by simp
  then have second: "\<exists>call. solverLog (snd ?run) = [call] \<and> initialValues call ! 3 = Fin (1 / 2)"
    by (simp add: peakAddrs_examples)
  from mu first wfPeaks_examples(2) ck nb sm i second show ?thesis
    by blast
qed

section \<open>A run on an empty peak list\<close>

lemma jsonCopy_emptyPeaksHeap: "jsonCopy emptyPeaksHeap 0 = Inr ([Arr [], Arr []], 1, [])"
  by (simp add: jsonCopy_def emptyPeaksHeap_def Let_def)

lemma maxFin_unequalData: "maxFin (data_y unequalData) = Inr (Fin 2)"
  by (simp add: unequalData_def)

lemma optimize2_emptyPeaksHeap:
  "optimize2 imports2Stub \<lparr> heap = emptyPeaksHeap, solverLog = [] \<rparr> unequalData 0
     \<lparr> shape = None, optimization = None \<rparr>
   = (Inr \<lparr> res_error = Num (Fin 0), res_iterations = Num (Fin 0), res_peaks = 1 \<rparr>,
      \<lparr> heap = [Arr [], Arr []],
        solverLog = [\<lparr> call_x = testX, call_y = [Fin (1 / 2), Fin 1],
                       paramsFunc = sumOfGaussians (\<lambda>x y w t. ToNumber y),
                       optimizationOptions = (),
                       minValues = [], maxValues = [], initialValues = [],
                       gradientDifference = None \<rparr>] \<rparr>)"
  by (simp del: One_nat_def add: optimize2_def imports2Stub_def identitySolver_def
      jsonCopy_emptyPeaksHeap maxFin_unequalData buildVectors2_def fillPeaks2.simps
      decodePeaks.simps)
    (simp add: unequalData_def)

section \<open>Runs with two peaks, with flat data and with a single abscissa\<close>

lemma wfPeaks_more_examples:
  "wfPeaks twoPeaksHeap 0" "wfPeaks infiniteXHeap 0" "wfPeaks emptyPeaksHeap 0"
  by (simp_all add: wfPeaks_def twoPeaksHeap_def infiniteXHeap_def emptyPeaksHeap_def isObjAt_def)

lemma peakAddrs_more_examples:
  "peakAddrs twoPeaksHeap 0 = [1, 2]" "peakAddrs infiniteXHeap 0 = [1]"
  "peakAddrs emptyPeaksHeap 0 = []"
  by (simp_all add: peakAddrs_def twoPeaksHeap_def infiniteXHeap_def emptyPeaksHeap_def)

lemma peakAt_more_examples:
  "peakAt twoPeaksHeap 0 0 = testPeak"
  "peakAt twoPeaksHeap 0 1 = secondPeak"
  "peakAt infiniteXHeap 0 0 = infiniteXPeak"
  by (simp_all add: peakAt_def peakAddrs_def objAt_def twoPeaksHeap_def infiniteXHeap_def)

lemma jsonCopy_twoPeaksHeap:
  "jsonCopy twoPeaksHeap 0 =
     Inr ([Arr [1, 2], Obj testPeak, Obj secondPeak, Obj testPeak, Obj secondPeak, Arr [3, 4]],
          5, [3, 4])"
  by (simp add: jsonCopy_def twoPeaksHeap_def isObjAt_def objAt_def testPeak_def secondPeak_def
      Let_def)

lemma buildVectors_twoPeaks:
  "buildVectors 3 [testPeak, secondPeak] (defaultOptions (Num (Fin 2))) =
     Inr \<lparr> pInit = [Fin 0, Fin 3, Fin (1 / 2), Fin 1, Fin 2, Fin 8],
           pMin = [Fin (- 4), Fin (- 13), Fin 0, Fin 0, Fin (1 / 2), Fin 2],
           pMax = [Fin 4, Fin 19, Fin (3 / 4), Fin (3 / 2), Fin 8, Fin 32],
           pGrad = [Fin (1 / 1000), Fin (1 / 250), Fin (1 / 1000), Fin (1 / 1000),
                    Fin (1 / 1000), Fin (1 / 250)] \<rparr>"
  by (simp add: build_rules testPeak_def secondPeak_def eval_nat_numeral)

lemma decodePeaks_twoPeaks:
  "decodePeaks 0 [3, 4] 3 (Num (Fin 2)) [Fin 0, Fin 3, Fin (1 / 2), Fin 1, Fin 2, Fin 8]
     [Arr [1, 2], Obj testPeak, Obj secondPeak, Obj testPeak, Obj secondPeak, Arr [3, 4]]
   = [Arr [1, 2], Obj testPeak, Obj secondPeak, Obj testPeak, Obj secondPeak, Arr [3, 4]]"
  by (simp add: decode_rules testPeak_def secondPeak_def js_operators eval_nat_numeral)

lemma optimize_twoPeaksHeap:
  "optimize (checkInputStub 3 (Fin 2)) selectMethodStub \<lparr> heap = twoPeaksHeap, solverLog = [] \<rparr>
     testData 0 ()
   = (Inr \<lparr> res_error = Num (Fin 0), res_iterations = Num (Fin 0), res_peaks = 5 \<rparr>,
      \<lparr> heap = [Arr [1, 2], Obj testPeak, Obj secondPeak, Obj testPeak, Obj secondPeak,
                Arr [3, 4]],
        solverLog = [\<lparr> call_x = testX, call_y = [Fin (1 / 2), Fin 1, Fin (1 / 2)],
                       paramsFunc = (), optimizationOptions = (),
                       minValues = [Fin (- 4), Fin (- 13), Fin 0, Fin 0, Fin (1 / 2), Fin 2],
                       maxValues = [Fin 4, Fin 19, Fin (3 / 4), Fin (3 / 2), Fin 8, Fin 32],
                       initialValues = [Fin 0, Fin 3, Fin (1 / 2), Fin 1, Fin 2, Fin 8],
                       gradientDifference =
                         Some [Fin (1 / 1000), Fin (1 / 250), Fin (1 / 1000), Fin (1 / 1000),
                               Fin (1 / 1000), Fin (1 / 250)] \<rparr>] \<rparr>)"
  by (simp del: One_nat_def add: optimize_def checkInputStub_def checkedStub_def
      selectMethodStub_def identitySolver_def jsonCopy_twoPeaksHeap testData_def objAt_def
      buildVectors_twoPeaks decodePeaks_twoPeaks)

lemma decodePeaks_flatData:
  "decodePeaks 0 [2] 3 (Num (Fin 0)) [Fin 0, PInf, Fin 2]
     [Arr [1], Obj testPeak, Obj testPeak, Arr [2]]
   = [Arr [1], Obj testPeak,
      Obj [(''x'', Num (Fin 0)), (''y'', Num NaN), (''width'', Num (Fin 2))], Arr [2]]"
  by (simp add: decode_rules testPeak_def js_operators inf_of_def numeral_3_eq_3)

lemma optimize_flatData:
  "optimize (checkInputStub 3 (Fin 0)) selectMethodStub \<lparr> heap = testHeap, solverLog = [] \<rparr>
     flatData 0 ()
   = (Inr \<lparr> res_error = Num (Fin 0), res_iterations = Num (Fin 0), res_peaks = 3 \<rparr>,
      \<lparr> heap = [Arr [1], Obj testPeak,
                Obj [(''x'', Num (Fin 0)), (''y'', Num NaN), (''width'', Num (Fin 2))],
                Arr [2]],
        solverLog = [\<lparr> call_x = testX, call_y = [NaN, NaN, NaN],
                       paramsFunc = (), optimizationOptions = (),
                       minValues = [Fin (- 4), NaN, Fin (1 / 2)],
                       maxValues = [Fin 4, PInf, Fin 8],
                       initialValues = [Fin 0, PInf, Fin 2],
                       gradientDifference =
                         Some [Fin (1 / 1000), Fin (1 / 1000), Fin (1 / 1000)] \<rparr>] \<rparr>)"
  by (simp del: One_nat_def add: optimize_def checkInputStub_def checkedStub_def
      selectMethodStub_def identitySolver_def jsonCopy_testHeap flatData_def objAt_def
      buildVectors_testPeak_3 decodePeaks_flatData inf_of_def)

lemma jsonCopy_infiniteXHeap:
  "jsonCopy infiniteXHeap 0 =
     Inr ([Arr [1], Obj infiniteXPeak,
           Obj [(''x'', Null), (''y'', Num (Fin 1)), (''width'', Num (Fin 2))], Arr [2]], 3, [2])"
  by (simp add: jsonCopy_def infiniteXHeap_def isObjAt_def objAt_def infiniteXPeak_def Let_def)

lemma buildVectors_infiniteX:
  "buildVectors 3 [[(''x'', Null), (''y'', Num (Fin 1)), (''width'', Num (Fin 2))]]
     (defaultOptions (Num (Fin 2))) =
     Inr \<lparr> pInit = [Fin 0, Fin (1 / 2), Fin 2],
           pMin = [Fin (- 4), Fin 0, Fin (1 / 2)],
           pMax = [Fin 4, Fin (3 / 4), Fin 8],
           pGrad = [Fin (1 / 1000), Fin (1 / 1000), Fin (1 / 1000)] \<rparr>"
  by (simp add: build_rules numeral_3_eq_3)

lemma decodePeaks_infiniteX:
  "decodePeaks 0 [2] 3 (Num (Fin 2)) [Fin 0, Fin (1 / 2), Fin 2]
     [Arr [1], Obj infiniteXPeak,
      Obj [(''x'', Null), (''y'', Num (Fin 1)), (''width'', Num (Fin 2))], Arr [2]]
   = [Arr [1], Obj infiniteXPeak, Obj testPeak, Arr [2]]"
  by (simp add: decode_rules testPeak_def js_operators numeral_3_eq_3)

lemma optimize_infiniteXHeap:
  "optimize (checkInputStub 3 (Fin 2)) selectMethodStub
     \<lparr> heap = infiniteXHeap, solverLog = [] \<rparr> testData 0 ()
   = (Inr \<lparr> res_error = Num (Fin 0), res_iterations = Num (Fin 0), res_peaks = 3 \<rparr>,
      \<lparr> heap = [Arr [1], Obj infiniteXPeak, Obj testPeak, Arr [2]],
        solverLog = [\<lparr> call_x = testX, call_y = [Fin (1 / 2), Fin 1, Fin (1 / 2)],
                       paramsFunc = (), optimizationOptions = (),
                       minValues = [Fin (- 4), Fin 0, Fin (1 / 2)],
                       maxValues = [Fin 4, Fin (3 / 4), Fin 8],
                       initialValues = [Fin 0, Fin (1 / 2), Fin 2],
                       gradientDifference =
                         Some [Fin (1 / 1000), Fin (1 / 1000), Fin (1 / 1000)] \<rparr>] \<rparr>)"
  by (simp del: One_nat_def add: optimize_def checkInputStub_def checkedStub_def
      selectMethodStub_def identitySolver_def jsonCopy_infiniteXHeap testData_def objAt_def
      buildVectors_infiniteX decodePeaks_infiniteX)

lemma deltaX_singlePointData:
  "jabs (jsub (ToNumber (load (data_x singlePointData) 0))
              (ToNumber (load (data_x singlePointData) 1))) = NaN"
  by (simp add: singlePointData_def load_def jsub_def)

lemma optimize2_singlePointData:
  "optimize2 imports2Stub \<lparr> heap = testHeap, solverLog = [] \<rparr> singlePointData 0
     \<lparr> shape = None, optimization = None \<rparr>
   = (Inr \<lparr> res_error = Num (Fin 0), res_iterations = Num (Fin 0), res_peaks = 3 \<rparr>,
      \<lparr> heap = [Arr [1], Obj testPeak,
                Obj [(''x'', Num (Fin 0)), (''y'', Num (Fin 2)), (''width'', Num (Fin 2))],
                Arr [2]],
        solverLog = [\<lparr> call_x = [Fin 5], call_y = [Fin 1],
                       paramsFunc = sumOfGaussians (\<lambda>x y w t. ToNumber y),
                       optimizationOptions = (),
                       minValues = [NaN, Fin 0, Fin (1 / 2)],
                       maxValues = [NaN, Fin (3 / 2), Fin 8],
                       initialValues = [Fin 0, Fin 1, Fin 2],
                       gradientDifference = None \<rparr>] \<rparr>)"
  by (simp del: One_nat_def add: optimize2_def imports2Stub_def identitySolver_def
      jsonCopy_testHeap singlePointData_def objAt_def load_def jsub_def
      buildVectors2_testPeak_3 decodePeaks2_testHeap)

lemma optimize2_run:
  assumes "wfPeaks (heap st) peaks"
    and "getKind imp (kind (case shape opts of None \<Rightarrow> \<lparr> kind = Some ''gaussian'' \<rparr>
                                             | Some sh \<Rightarrow> sh)) = Inr knd"
    and "knd = 1 \<or> knd = 2 \<or> knd = 3"
    and "getMaxValue imp (data_y dat) = Inr m"
    and "selectMethod2 imp (case optimization opts of
                              None \<Rightarrow> \<lparr> opt_kind = ''lm'', opt_options = None \<rparr>
                            | Some ou \<Rightarrow> ou) = Inr (algorithm, so)"
    and "optimize2 imp st dat peaks opts = (r, st')"
    and "v = buildVectors2 (if knd = 3 then 4 else 3) (copiedPeaks (heap st) peaks)
               (jabs (jsub (ToNumber (load (data_x dat) 0)) (ToNumber (load (data_x dat) 1))))"
    and "call = \<lparr> call_x = data_x dat, call_y = map (\<lambda>e. jdiv e m) (data_y dat),
                  paramsFunc = (if knd = 1 then sumOfGaussians (gaussianFct imp)
                                else if knd = 2 then sumOfLorentzians (lorentzianFct imp)
                                else sumOfGaussianLorentzians (pseudovoigtFct imp)),
                  optimizationOptions = so,
                  minValues = pMin v, maxValues = pMax v, initialValues = pInit v,
                  gradientDifference = None \<rparr>"
  shows "solverLog st' = solverLog st @ [call]"
    and "r = map_sum id
               (\<lambda>fit. \<lparr> res_error = parameterError fit, res_iterations = iterations fit,
                         res_peaks = length (heap st) + length (peakAddrs (heap st) peaks) \<rparr>)
               (algorithm call)"
  using assms
  by (auto simp: optimize2_def jsonCopy_wf map_objAt_copies Let_def split: sum.splits)

section \<open>The override resolution of checkInput\<close>

text \<open>
  Claim C6. \<open>checkInput\<close> returns \<open>optimization.parameters.x.max\<close> as an array with one
  entry per peak, and the upper position bound of peak \<open>i\<close> is entry \<open>i\<close> applied to
  peak \<open>i\<close>. A literal \<open>xMax\<close> field of the peak wins over every option. For a peak
  without that field, an option that is a function of the peak is kept as the entry:
  applied to any peak the entry gives what the function gives, so the bound is the
  function's value at the peak itself; an option that is a literal is the bound; and
  without an option the bound is the default \<open>x + width \<sqdot> 2\<close>. Hence, given the peak
  \<open>{x: 0, y: 1, width: 2}\<close> and the option set to the function
  \<open>peak => peak.x + peak.width * 0.1\<close>, the test's expression
  \<open>parameters.x.max[0](peaks[0])\<close> is exactly 0.2, where the default would have given 4
  and a function that ignored the peak's width could not give \<open>0 + 2 \<sqdot> 0.1\<close>.
\<close>

theorem checkInput_resolves_function_override:
  "length (checkInput_parameters_x_max option peaks) = length peaks
   \<and> (\<forall>i < length peaks. \<forall>n.
         getProp (peaks ! i) ''xMax'' = Num n \<longrightarrow>
           (checkInput_parameters_x_max option peaks ! i) (peaks ! i) = n)
   \<and> (\<forall>i < length peaks. \<forall>f p.
         getProp (peaks ! i) ''xMax'' = Undefined \<and> option = Some (FunctionOfPeak f) \<longrightarrow>
           (checkInput_parameters_x_max option peaks ! i) p = ToNumber (f p))
   \<and> (\<forall>i < length peaks. \<forall>n.
         getProp (peaks ! i) ''xMax'' = Undefined \<and> option = Some (Literal n) \<longrightarrow>
           (checkInput_parameters_x_max option peaks ! i) (peaks ! i) = n)
   \<and> (\<forall>i < length peaks.
         getProp (peaks ! i) ''xMax'' = Undefined \<and> option = None \<longrightarrow>
           (checkInput_parameters_x_max option peaks ! i) (peaks ! i)
             = ToNumber (js_plus (getProp (peaks ! i) ''x'')
                                 (js_times (getProp (peaks ! i) ''width'') (Num (Fin 2)))))
   \<and> (checkInput_parameters_x_max (Some (FunctionOfPeak testOverride)) [testPeak] ! 0) testPeak
         = Fin (1 / 5)
   \<and> (checkInput_parameters_x_max None [testPeak] ! 0) testPeak = Fin 4"
  by (simp add: checkInput_parameters_x_max_def testOverride_def testPeak_def getProp_def
        js_operators)

theorem checkInput_resolves_function_override_witness:
  "(checkInput_parameters_x_max (Some (FunctionOfPeak testOverride)) [secondPeak, testPeak] ! 1)
       testPeak = Fin (1 / 5)
   \<and> (checkInput_parameters_x_max (Some (FunctionOfPeak testOverride)) [secondPeak, testPeak] ! 0)
       secondPeak = Fin (19 / 5)
   \<and> (checkInput_parameters_x_max (Some (Literal (Fin 7))) [secondPeak, testPeak] ! 1)
       testPeak = Fin 7
   \<and> (checkInput_parameters_x_max None [secondPeak, testPeak] ! 0) secondPeak = Fin 19
   \<and> (checkInput_parameters_x_max (Some (FunctionOfPeak testOverride))
         [secondPeak, (''xMax'', Num (Fin 9)) # testPeak] ! 1)
       ((''xMax'', Num (Fin 9)) # testPeak) = Fin 9"
proof -
  note T = checkInput_resolves_function_override
  have own: "getProp ((''xMax'', Num (Fin 9)) # testPeak) ''xMax'' = Num (Fin 9)"
    by (simp add: getProp_def)
  have none1: "getProp testPeak ''xMax'' = Undefined"
    by (simp add: getProp_def testPeak_def)
  have none2: "getProp secondPeak ''xMax'' = Undefined"
    by (simp add: getProp_def secondPeak_def)
  have v1: "ToNumber (testOverride testPeak) = Fin (1 / 5)"
    by (simp add: testOverride_def testPeak_def getProp_def js_operators)
  have v2: "ToNumber (testOverride secondPeak) = Fin (19 / 5)"
    by (simp add: testOverride_def secondPeak_def getProp_def js_operators)
  have v3: "ToNumber (js_plus (getProp secondPeak ''x'')
                (js_times (getProp secondPeak ''width'') (Num (Fin 2)))) = Fin 19"
    by (simp add: secondPeak_def getProp_def js_operators)
  have a: "(checkInput_parameters_x_max (Some (FunctionOfPeak testOverride))
              [secondPeak, testPeak] ! 1) testPeak = Fin (1 / 5)"
    using T [where option = "Some (FunctionOfPeak testOverride)"
               and peaks = "[secondPeak, testPeak]",
             THEN conjunct2, THEN conjunct2, THEN conjunct1, rule_format,
             of 1 testOverride testPeak]
    by (simp add: none1 v1)
  have b: "(checkInput_parameters_x_max (Some (FunctionOfPeak testOverride))
              [secondPeak, testPeak] ! 0) secondPeak = Fin (19 / 5)"
    using T [where option = "Some (FunctionOfPeak testOverride)"
               and peaks = "[secondPeak, testPeak]",
             THEN conjunct2, THEN conjunct2, THEN conjunct1, rule_format,
             of 0 testOverride secondPeak]
    by (simp add: none2 v2)
  have c: "(checkInput_parameters_x_max (Some (Literal (Fin 7))) [secondPeak, testPeak] ! 1)
              testPeak = Fin 7"
    using T [where option = "Some (Literal (Fin 7))" and peaks = "[secondPeak, testPeak]",
             THEN conjunct2, THEN conjunct2, THEN conjunct2, THEN conjunct1, rule_format,
             of 1 "Fin 7"]
    by (simp add: none1)
  have d: "(checkInput_parameters_x_max None [secondPeak, testPeak] ! 0) secondPeak = Fin 19"
    using T [where option = None and peaks = "[secondPeak, testPeak]",
             THEN conjunct2, THEN conjunct2, THEN conjunct2, THEN conjunct2, THEN conjunct1,
             rule_format, of 0]
    by (simp add: none2 v3)
  have e: "(checkInput_parameters_x_max (Some (FunctionOfPeak testOverride))
              [secondPeak, (''xMax'', Num (Fin 9)) # testPeak] ! 1)
            ((''xMax'', Num (Fin 9)) # testPeak) = Fin 9"
    using T [where option = "Some (FunctionOfPeak testOverride)"
               and peaks = "[secondPeak, (''xMax'', Num (Fin 9)) # testPeak]",
             THEN conjunct2, THEN conjunct1, rule_format, of 1 "Fin 9"]
    by (simp add: own)
  from a b c d e show ?thesis by blast
qed

section \<open>Inputs that are not validated\<close>

text \<open>
  Claim C9, as amended. Neither \<open>optimize\<close> validates its input. Given an array of
  peak objects (empty or not, whatever the widths), once \<open>checkInput\<close> and
  \<open>selectMethod\<close> (for the second \<open>optimize\<close>: \<open>getKind\<close>, \<open>getMaxValue\<close> and
  \<open>selectMethod\<close>) have returned, the solver is called once, with the call the code
  builds, and \<open>optimize\<close> raises only what the solver raises. In the first \<open>optimize\<close>
  the call holds \<open>x\<close>, \<open>y\<close> and the model function as \<open>checkInput\<close> returned them and
  the four vectors of the build loop. In the second it holds \<open>data.x\<close>, \<open>data.y\<close>
  divided by its maximum (the lengths are not compared), the sum function of the
  kind, the lower bounds, upper bounds and initial values of its build loop, and no
  gradient steps. For a peak of width 0 the default formulas give finite values: in
  the first \<open>optimize\<close> both position bounds are \<open>x\<close> and the width, both width bounds
  and the position and width gradient steps are 0; in the second both width bounds
  are 0 and the position bounds are \<open>x - deltaX\<close> and \<open>x + deltaX\<close>; no formula divides
  by the width. Infinity and NaN reach the solver from other inputs. In the first
  \<open>optimize\<close>, when \<open>maxY\<close> is 0 a peak of positive height gets the initial height and
  the upper height bound Infinity and the lower height bound NaN, as for the peak of
  the test with data whose ordinates are all 0. In the second \<open>optimize\<close>, a \<open>data.x\<close>
  with fewer than two elements makes \<open>deltaX\<close> NaN and with it both position bounds of
  every peak, as for the peak of the test with \<open>data.x = [5]\<close> and \<open>data.y = [2]\<close>.
\<close>

theorem no_validation_before_solver:
  "(wfPeaks (heap st) peaks \<and> checkInput dat opts = Inr c \<and> ck_nbParams c \<le> 4 \<and>
    selectMethod (ck_optimization c) = Inr (algorithm, so) \<and>
    optimize checkInput selectMethod st dat peaks opts = (r, st') \<longrightarrow>
      (\<exists>v. buildVectors (ck_nbParams c) (copiedPeaks (heap st) peaks) (ck_getValueOptions c)
              = Inr v
          \<and> solverLog st' = solverLog st @ [solverCallOf c so v]
          \<and> r = map_sum id
                  (\<lambda>fit. \<lparr> res_error = parameterError fit, res_iterations = iterations fit,
                            res_peaks = length (heap st) + length (peakAddrs (heap st) peaks) \<rparr>)
                  (algorithm (solverCallOf c so v))))
   \<and> (wfPeaks (heap st2) peaks2 \<and>
       getKind imp (kind (case shape opts2 of None \<Rightarrow> \<lparr> kind = Some ''gaussian'' \<rparr>
                                             | Some sh \<Rightarrow> sh)) = Inr knd \<and>
       (knd = 1 \<or> knd = 2 \<or> knd = 3) \<and>
       getMaxValue imp (data_y dat2) = Inr m \<and>
       selectMethod2 imp (case optimization opts2 of
                            None \<Rightarrow> \<lparr> opt_kind = ''lm'', opt_options = None \<rparr>
                          | Some ou \<Rightarrow> ou) = Inr (algorithm2, so2) \<and>
       optimize2 imp st2 dat2 peaks2 opts2 = (r2, st2') \<longrightarrow>
      (let v = buildVectors2 (if knd = 3 then 4 else 3) (copiedPeaks (heap st2) peaks2)
                 (jabs (jsub (ToNumber (load (data_x dat2) 0))
                             (ToNumber (load (data_x dat2) 1))));
           call = \<lparr> call_x = data_x dat2, call_y = map (\<lambda>e. jdiv e m) (data_y dat2),
                    paramsFunc = (if knd = 1 then sumOfGaussians (gaussianFct imp)
                                  else if knd = 2 then sumOfLorentzians (lorentzianFct imp)
                                  else sumOfGaussianLorentzians (pseudovoigtFct imp)),
                    optimizationOptions = so2,
                    minValues = pMin v, maxValues = pMax v, initialValues = pInit v,
                    gradientDifference = None \<rparr>
       in solverLog st2' = solverLog st2 @ [call]
          \<and> r2 = map_sum id
                   (\<lambda>fit. \<lparr> res_error = parameterError fit, res_iterations = iterations fit,
                             res_peaks = length (heap st2) + length (peakAddrs (heap st2) peaks2) \<rparr>)
                   (algorithm2 call)))
   \<and> (getProp peak ''x'' = Num (Fin a) \<and> getProp peak ''width'' = Num (Fin 0) \<and>
       getProp peak ''xGradientDifference'' = Undefined \<and>
       getProp peak ''widthGradientDifference'' = Undefined \<longrightarrow>
        getValue X peak STATE_MIN (defaultOptions mx) = Inr (Num (Fin a))
      \<and> getValue X peak STATE_MAX (defaultOptions mx) = Inr (Num (Fin a))
      \<and> getValue WIDTH peak STATE_INIT (defaultOptions mx) = Inr (Num (Fin 0))
      \<and> getValue WIDTH peak STATE_MIN (defaultOptions mx) = Inr (Num (Fin 0))
      \<and> getValue WIDTH peak STATE_MAX (defaultOptions mx) = Inr (Num (Fin 0))
      \<and> getValue X peak STATE_GRADIENT_DIFFERENCE (defaultOptions mx) = Inr (Num (Fin 0))
      \<and> getValue WIDTH peak STATE_GRADIENT_DIFFERENCE (defaultOptions mx) = Inr (Num (Fin 0))
      \<and> getValue2 0 peak STATE_MIN dt = Num (jsub (Fin a) dt)
      \<and> getValue2 0 peak STATE_MAX dt = Num (jadd (Fin a) dt)
      \<and> getValue2 2 peak STATE_MIN dt = Num (Fin 0)
      \<and> getValue2 2 peak STATE_MAX dt = Num (Fin 0))
   \<and> (getProp peak' ''y'' = Num (Fin b) \<and> 0 < b \<longrightarrow>
        getValue Y peak' STATE_INIT (defaultOptions (Num (Fin 0))) = Inr (Num PInf)
      \<and> getValue Y peak' STATE_MIN (defaultOptions (Num (Fin 0))) = Inr (Num NaN)
      \<and> getValue Y peak' STATE_MAX (defaultOptions (Num (Fin 0))) = Inr (Num PInf))
   \<and> solverLog (snd (optimize (checkInputStub 3 (Fin 0)) selectMethodStub
                        \<lparr> heap = testHeap, solverLog = [] \<rparr> flatData 0 ()))
       = [\<lparr> call_x = testX, call_y = [NaN, NaN, NaN], paramsFunc = (), optimizationOptions = (),
            minValues = [Fin (- 4), NaN, Fin (1 / 2)],
            maxValues = [Fin 4, PInf, Fin 8],
            initialValues = [Fin 0, PInf, Fin 2],
            gradientDifference = Some [Fin (1 / 1000), Fin (1 / 1000), Fin (1 / 1000)] \<rparr>]
   \<and> (length (data_x dat3) < 2 \<longrightarrow>
        jabs (jsub (ToNumber (load (data_x dat3) 0)) (ToNumber (load (data_x dat3) 1))) = NaN)
   \<and> getValue2 0 peak3 STATE_MIN NaN = Num NaN
   \<and> getValue2 0 peak3 STATE_MAX NaN = Num NaN
   \<and> solverLog (snd (optimize2 imports2Stub \<lparr> heap = testHeap, solverLog = [] \<rparr>
                        singlePointData 0 \<lparr> shape = None, optimization = None \<rparr>))
       = [\<lparr> call_x = [Fin 5], call_y = [Fin 1],
            paramsFunc = sumOfGaussians (\<lambda>x y w t. ToNumber y), optimizationOptions = (),
            minValues = [NaN, Fin 0, Fin (1 / 2)],
            maxValues = [NaN, Fin (3 / 2), Fin 8],
            initialValues = [Fin 0, Fin 1, Fin 2],
            gradientDifference = None \<rparr>]"
proof (intro conjI impI)
  assume h: "wfPeaks (heap st) peaks \<and> checkInput dat opts = Inr c \<and> ck_nbParams c \<le> 4 \<and>
    selectMethod (ck_optimization c) = Inr (algorithm, so) \<and>
    optimize checkInput selectMethod st dat peaks opts = (r, st')"
  then have wf: "wfPeaks (heap st) peaks" and ck: "checkInput dat opts = Inr c"
    and nb4: "ck_nbParams c \<le> 4" and sm: "selectMethod (ck_optimization c) = Inr (algorithm, so)"
    and run: "optimize checkInput selectMethod st dat peaks opts = (r, st')"
    by simp_all
  from buildVectors_succeeds [OF nb4] obtain v
    where bv: "buildVectors (ck_nbParams c) (copiedPeaks (heap st) peaks) (ck_getValueOptions c)
                 = Inr v"
    by blast
  note state = optimize_run_state
    [where checkInput = checkInput and selectMethod = selectMethod, OF wf ck sm bv run]
  have "r = map_sum id
                  (\<lambda>fit. \<lparr> res_error = parameterError fit, res_iterations = iterations fit,
                            res_peaks = length (heap st) + length (peakAddrs (heap st) peaks) \<rparr>)
                  (algorithm (solverCallOf c so v))"
    using state(2) state(4) by (cases "algorithm (solverCallOf c so v)") simp_all
  with bv state(1)
  show "\<exists>v. buildVectors (ck_nbParams c) (copiedPeaks (heap st) peaks) (ck_getValueOptions c)
              = Inr v
          \<and> solverLog st' = solverLog st @ [solverCallOf c so v]
          \<and> r = map_sum id
                  (\<lambda>fit. \<lparr> res_error = parameterError fit, res_iterations = iterations fit,
                            res_peaks = length (heap st) + length (peakAddrs (heap st) peaks) \<rparr>)
                  (algorithm (solverCallOf c so v))"
    by blast
next
  assume h2: "wfPeaks (heap st2) peaks2 \<and>
       getKind imp (kind (case shape opts2 of None \<Rightarrow> \<lparr> kind = Some ''gaussian'' \<rparr>
                                             | Some sh \<Rightarrow> sh)) = Inr knd \<and>
       (knd = 1 \<or> knd = 2 \<or> knd = 3) \<and>
       getMaxValue imp (data_y dat2) = Inr m \<and>
       selectMethod2 imp (case optimization opts2 of
                            None \<Rightarrow> \<lparr> opt_kind = ''lm'', opt_options = None \<rparr>
                          | Some ou \<Rightarrow> ou) = Inr (algorithm2, so2) \<and>
       optimize2 imp st2 dat2 peaks2 opts2 = (r2, st2')"
  show "let v = buildVectors2 (if knd = 3 then 4 else 3) (copiedPeaks (heap st2) peaks2)
                 (jabs (jsub (ToNumber (load (data_x dat2) 0))
                             (ToNumber (load (data_x dat2) 1))));
           call = \<lparr> call_x = data_x dat2, call_y = map (\<lambda>e. jdiv e m) (data_y dat2),
                    paramsFunc = (if knd = 1 then sumOfGaussians (gaussianFct imp)
                                  else if knd = 2 then sumOfLorentzians (lorentzianFct imp)
                                  else sumOfGaussianLorentzians (pseudovoigtFct imp)),
                    optimizationOptions = so2,
                    minValues = pMin v, maxValues = pMax v, initialValues = pInit v,
                    gradientDifference = None \<rparr>
       in solverLog st2' = solverLog st2 @ [call]
          \<and> r2 = map_sum id
                   (\<lambda>fit. \<lparr> res_error = parameterError fit, res_iterations = iterations fit,
                             res_peaks = length (heap st2) + length (peakAddrs (heap st2) peaks2) \<rparr>)
                   (algorithm2 call)"
    unfolding Let_def
    using optimize2_run [where imp = imp and algorithm = algorithm2,
        OF h2 [THEN conjunct1] h2 [THEN conjunct2, THEN conjunct1]
           h2 [THEN conjunct2, THEN conjunct2, THEN conjunct1]
           h2 [THEN conjunct2, THEN conjunct2, THEN conjunct2, THEN conjunct1]
           h2 [THEN conjunct2, THEN conjunct2, THEN conjunct2, THEN conjunct2, THEN conjunct1]
           h2 [THEN conjunct2, THEN conjunct2, THEN conjunct2, THEN conjunct2, THEN conjunct2]
           refl refl]
    by (rule conjI)
next
  assume "getProp peak ''x'' = Num (Fin a) \<and> getProp peak ''width'' = Num (Fin 0) \<and>
       getProp peak ''xGradientDifference'' = Undefined \<and>
       getProp peak ''widthGradientDifference'' = Undefined"
  then show "getValue X peak STATE_MIN (defaultOptions mx) = Inr (Num (Fin a))"
    and "getValue X peak STATE_MAX (defaultOptions mx) = Inr (Num (Fin a))"
    and "getValue WIDTH peak STATE_INIT (defaultOptions mx) = Inr (Num (Fin 0))"
    and "getValue WIDTH peak STATE_MIN (defaultOptions mx) = Inr (Num (Fin 0))"
    and "getValue WIDTH peak STATE_MAX (defaultOptions mx) = Inr (Num (Fin 0))"
    and "getValue X peak STATE_GRADIENT_DIFFERENCE (defaultOptions mx) = Inr (Num (Fin 0))"
    and "getValue WIDTH peak STATE_GRADIENT_DIFFERENCE (defaultOptions mx) = Inr (Num (Fin 0))"
    and "getValue2 0 peak STATE_MIN dt = Num (jsub (Fin a) dt)"
    and "getValue2 0 peak STATE_MAX dt = Num (jadd (Fin a) dt)"
    and "getValue2 2 peak STATE_MIN dt = Num (Fin 0)"
    and "getValue2 2 peak STATE_MAX dt = Num (Fin 0)"
    by (simp_all add: getValue_def getValue2_def defaultOptions_def source_constants js_operators)
next
  assume "getProp peak' ''y'' = Num (Fin b) \<and> 0 < b"
  then show "getValue Y peak' STATE_INIT (defaultOptions (Num (Fin 0))) = Inr (Num PInf)"
    and "getValue Y peak' STATE_MIN (defaultOptions (Num (Fin 0))) = Inr (Num NaN)"
    and "getValue Y peak' STATE_MAX (defaultOptions (Num (Fin 0))) = Inr (Num PInf)"
    by (simp_all add: getValue_def defaultOptions_def source_constants js_operators inf_of_def)
next
  show "solverLog (snd (optimize (checkInputStub 3 (Fin 0)) selectMethodStub
                        \<lparr> heap = testHeap, solverLog = [] \<rparr> flatData 0 ()))
       = [\<lparr> call_x = testX, call_y = [NaN, NaN, NaN], paramsFunc = (), optimizationOptions = (),
            minValues = [Fin (- 4), NaN, Fin (1 / 2)],
            maxValues = [Fin 4, PInf, Fin 8],
            initialValues = [Fin 0, PInf, Fin 2],
            gradientDifference = Some [Fin (1 / 1000), Fin (1 / 1000), Fin (1 / 1000)] \<rparr>]"
    by (simp add: optimize_flatData)
next
  assume "length (data_x dat3) < 2"
  then show "jabs (jsub (ToNumber (load (data_x dat3) 0)) (ToNumber (load (data_x dat3) 1))) = NaN"
    by (cases "load (data_x dat3) 0"; cases "ToNumber (load (data_x dat3) 0)")
      (simp_all add: load_def jsub_def)
next
  show "getValue2 0 peak3 STATE_MIN NaN = Num NaN"
    by (cases "ToNumber (getProp peak3 ''x'')")
      (simp_all add: getValue2_def source_constants js_operators)
next
  show "getValue2 0 peak3 STATE_MAX NaN = Num NaN"
    by (cases "ToNumber (getProp peak3 ''x'')")
      (simp_all add: getValue2_def source_constants js_operators)
next
  show "solverLog (snd (optimize2 imports2Stub \<lparr> heap = testHeap, solverLog = [] \<rparr>
                        singlePointData 0 \<lparr> shape = None, optimization = None \<rparr>))
       = [\<lparr> call_x = [Fin 5], call_y = [Fin 1],
            paramsFunc = sumOfGaussians (\<lambda>x y w t. ToNumber y), optimizationOptions = (),
            minValues = [NaN, Fin 0, Fin (1 / 2)],
            maxValues = [NaN, Fin (3 / 2), Fin 8],
            initialValues = [Fin 0, Fin 1, Fin 2],
            gradientDifference = None \<rparr>]"
    by (simp add: optimize2_singlePointData)
qed

theorem no_validation_before_solver_witness:
  "wfPeaks zeroWidthHeap 0
   \<and> checkInputStub 3 (Fin 2) unequalData () = Inr (checkedStub 3 (Fin 2) unequalData)
   \<and> ck_nbParams (checkedStub 3 (Fin 2) unequalData) \<le> 4
   \<and> selectMethodStub (ck_optimization (checkedStub 3 (Fin 2) unequalData))
       = Inr (identitySolver, ())
   \<and> length (data_x unequalData) \<noteq> length (data_y unequalData)
   \<and> (\<exists>v. buildVectors 3 (copiedPeaks zeroWidthHeap 0) (defaultOptions (Num (Fin 2))) = Inr v
          \<and> solverLog (snd (optimize (checkInputStub 3 (Fin 2)) selectMethodStub
                               \<lparr> heap = zeroWidthHeap, solverLog = [] \<rparr> unequalData 0 ()))
              = [solverCallOf (checkedStub 3 (Fin 2) unequalData) () v])
   \<and> wfPeaks emptyPeaksHeap 0
   \<and> peakAddrs emptyPeaksHeap 0 = []
   \<and> getKind imports2Stub (Some ''gaussian'') = Inr 1
   \<and> getMaxValue imports2Stub (data_y unequalData) = Inr (Fin 2)
   \<and> solverLog (snd (optimize2 imports2Stub \<lparr> heap = emptyPeaksHeap, solverLog = [] \<rparr>
                        unequalData 0 \<lparr> shape = None, optimization = None \<rparr>))
       = [\<lparr> call_x = testX, call_y = [Fin (1 / 2), Fin 1],
            paramsFunc = sumOfGaussians (\<lambda>x y w t. ToNumber y), optimizationOptions = (),
            minValues = [], maxValues = [], initialValues = [],
            gradientDifference = None \<rparr>]
   \<and> getProp zeroWidthPeak ''x'' = Num (Fin 0)
   \<and> getProp zeroWidthPeak ''width'' = Num (Fin 0)
   \<and> getValue X zeroWidthPeak STATE_MIN (defaultOptions (Num (Fin 2))) = Inr (Num (Fin 0))
   \<and> getValue WIDTH zeroWidthPeak STATE_MAX (defaultOptions (Num (Fin 2))) = Inr (Num (Fin 0))
   \<and> getValue2 2 zeroWidthPeak STATE_MIN (Fin 1) = Num (Fin 0)
   \<and> getProp testPeak ''y'' = Num (Fin 1)
   \<and> getValue Y testPeak STATE_INIT (defaultOptions (Num (Fin 0))) = Inr (Num PInf)
   \<and> getValue Y testPeak STATE_MIN (defaultOptions (Num (Fin 0))) = Inr (Num NaN)
   \<and> length (data_x singlePointData) < 2
   \<and> jabs (jsub (ToNumber (load (data_x singlePointData) 0))
                 (ToNumber (load (data_x singlePointData) 1))) = NaN"
proof -
  let ?c = "checkedStub 3 (Fin 2) unequalData"
  let ?run = "optimize (checkInputStub 3 (Fin 2)) selectMethodStub
                \<lparr> heap = zeroWidthHeap, solverLog = [] \<rparr> unequalData 0 ()"
  let ?run2 = "optimize2 imports2Stub \<lparr> heap = emptyPeaksHeap, solverLog = [] \<rparr>
                 unequalData 0 \<lparr> shape = None, optimization = None \<rparr>"
  note th = no_validation_before_solver
    [where st = "\<lparr> heap = zeroWidthHeap, solverLog = [] \<rparr>" and peaks = 0
       and checkInput = "checkInputStub 3 (Fin 2)" and dat = unequalData and opts = "()"
       and c = ?c and selectMethod = selectMethodStub and algorithm = identitySolver
       and so = "()" and r = "fst ?run" and st' = "snd ?run"
       and ?st2.0 = "\<lparr> heap = emptyPeaksHeap, solverLog = [] \<rparr>" and ?peaks2.0 = 0
       and imp = imports2Stub and ?opts2.0 = "\<lparr> shape = None, optimization = None \<rparr>"
       and knd = 1 and ?dat2.0 = unequalData and m = "Fin 2" and ?algorithm2.0 = identitySolver
       and ?so2.0 = "()" and ?r2.0 = "fst ?run2" and st2' = "snd ?run2"
       and peak = zeroWidthPeak and a = 0 and mx = "Num (Fin 2)" and dt = "Fin 1"
       and peak' = testPeak and b = 1 and ?dat3.0 = singlePointData]
  have wf: "wfPeaks zeroWidthHeap 0" "wfPeaks emptyPeaksHeap 0"
    by (simp_all add: wfPeaks_examples wfPeaks_more_examples)
  have ck: "checkInputStub 3 (Fin 2) unequalData () = Inr ?c"
    by (simp add: checkInputStub_def)
  have nb: "ck_nbParams ?c \<le> 4" "ck_nbParams ?c = 3"
    by (simp_all add: checkedStub_fields)
  have sm: "selectMethodStub (ck_optimization ?c) = Inr (identitySolver, ())"
    by (simp add: selectMethodStub_def)
  have unequal: "length (data_x unequalData) \<noteq> length (data_y unequalData)"
    by (simp add: unequalData_def testX_def)
  have empty: "peakAddrs emptyPeaksHeap 0 = []"
    by (simp add: peakAddrs_more_examples)
  have ext: "getKind imports2Stub (Some ''gaussian'') = Inr 1"
    "getMaxValue imports2Stub (data_y unequalData) = Inr (Fin 2)"
    "selectMethod2 imports2Stub \<lparr> opt_kind = ''lm'', opt_options = None \<rparr>
       = Inr (identitySolver, ())"
    by (simp_all add: imports2Stub_def maxFin_unequalData)
  have fields: "getProp zeroWidthPeak ''x'' = Num (Fin 0)"
    "getProp zeroWidthPeak ''width'' = Num (Fin 0)"
    "getProp zeroWidthPeak ''xGradientDifference'' = Undefined"
    "getProp zeroWidthPeak ''widthGradientDifference'' = Undefined"
    "getProp testPeak ''y'' = Num (Fin 1)"
    by (simp_all add: zeroWidthPeak_def testPeak_def getProp_def)
  have short: "length (data_x singlePointData) < 2"
    by (simp add: singlePointData_def)
  have novec: "buildVectors2 3 (copiedPeaks emptyPeaksHeap 0) dx
                 = \<lparr> pInit = [], pMin = [], pMax = [], pGrad = [] \<rparr>" for dx
    by (simp add: copiedPeaks_def empty buildVectors2_def fillPeaks2.simps)
  have stub: "gaussianFct imports2Stub = (\<lambda>x y w t. ToNumber y)"
    by (simp add: imports2Stub_def)
  from th [THEN conjunct1] wf(1) ck nb(1) sm
  have first: "\<exists>v. buildVectors 3 (copiedPeaks zeroWidthHeap 0) (defaultOptions (Num (Fin 2))) = Inr v
      \<and> solverLog (snd ?run) = [solverCallOf ?c () v]"
    by (simp add: checkedStub_fields) blast
  from th [THEN conjunct2, THEN conjunct1] wf(2) ext
  have second: "solverLog (snd ?run2)
       = [\<lparr> call_x = testX, call_y = [Fin (1 / 2), Fin 1],
            paramsFunc = sumOfGaussians (\<lambda>x y w t. ToNumber y), optimizationOptions = (),
            minValues = [], maxValues = [], initialValues = [],
            gradientDifference = None \<rparr>]"
    by (simp add: Let_def novec stub unequalData_def)
  from th [THEN conjunct2, THEN conjunct2, THEN conjunct1] fields
  have third: "getValue X zeroWidthPeak STATE_MIN (defaultOptions (Num (Fin 2))) = Inr (Num (Fin 0))"
    "getValue WIDTH zeroWidthPeak STATE_MAX (defaultOptions (Num (Fin 2))) = Inr (Num (Fin 0))"
    "getValue2 2 zeroWidthPeak STATE_MIN (Fin 1) = Num (Fin 0)"
    by simp_all
  from th [THEN conjunct2, THEN conjunct2, THEN conjunct2, THEN conjunct1] fields
  have fourth: "getValue Y testPeak STATE_INIT (defaultOptions (Num (Fin 0))) = Inr (Num PInf)"
    "getValue Y testPeak STATE_MIN (defaultOptions (Num (Fin 0))) = Inr (Num NaN)"
    by simp_all
  from th [THEN conjunct2, THEN conjunct2, THEN conjunct2, THEN conjunct2, THEN conjunct2,
           THEN conjunct1] short
  have fifth: "jabs (jsub (ToNumber (load (data_x singlePointData) 0))
                 (ToNumber (load (data_x singlePointData) 1))) = NaN"
    by (rule mp)
  from wf ck nb(1) sm unequal first empty ext(1,2) second fields(1,2,5) third fourth short fifth
  show ?thesis
    by blast
qed

text \<open>The claim as first stated fails for a peak of width 0: the vectors handed to the
  solver hold finite numbers only, no NaN and no Infinity.\<close>

theorem zero_width_vectors_are_finite:
  "getProp (peakAt zeroWidthHeap 0 0) ''width'' = Num (Fin 0)
   \<and> optimize (checkInputStub 3 (Fin 2)) selectMethodStub
        \<lparr> heap = zeroWidthHeap, solverLog = [] \<rparr> unequalData 0 ()
      = (Inr \<lparr> res_error = Num (Fin 0), res_iterations = Num (Fin 0), res_peaks = 3 \<rparr>,
         \<lparr> heap = [Arr [1], Obj zeroWidthPeak, Obj zeroWidthPeak, Arr [2]],
           solverLog = [\<lparr> call_x = testX, call_y = [Fin (1 / 2), Fin 1],
                          paramsFunc = (), optimizationOptions = (),
                          minValues = [Fin 0, Fin 0, Fin 0],
                          maxValues = [Fin 0, Fin (3 / 4), Fin 0],
                          initialValues = [Fin 0, Fin (1 / 2), Fin 0],
                          gradientDifference = Some [Fin 0, Fin (1 / 1000), Fin 0] \<rparr>] \<rparr>)
   \<and> list_all finite_num
        ([Fin 0, Fin 0, Fin 0] @ [Fin 0, Fin (3 / 4), Fin 0] @ [Fin 0, Fin (1 / 2), Fin 0]
         @ [Fin 0, Fin (1 / 1000), Fin 0])"
  by (simp add: optimize_zeroWidthHeap peakAt_examples zeroWidthPeak_def getProp_def)

section \<open>Layout and round trip\<close>

text \<open>
  Claim C1, as amended. For a peak list of length \<open>n\<close> and three or four parameters
  per peak, each of the four vectors handed to the solver holds at index \<open>i + s n\<close>
  the value the resolver gives for kind \<open>s\<close> of the copy of peak \<open>i\<close>, converted to a
  number. When the solver returns, \<open>fitted[i + s n]\<close> is written to the field for kind
  \<open>s\<close> of peak \<open>i\<close> of the result, the height entry multiplied by \<open>maxY\<close>. With an
  identity solver, a peak whose \<open>x\<close> and \<open>width\<close> are finite numbers comes back with
  the same \<open>x\<close> and \<open>width\<close>; a finite \<open>y\<close> comes back as the product
  \<open>(y / maxY) \<sqdot> maxY\<close> that the program computes, which is not asserted to be \<open>y\<close>;
  and, with four parameters, a finite \<open>mu\<close> other than 0 comes back the same.
\<close>

theorem layout_and_round_trip:
  assumes wf: "wfPeaks (heap st) peaks"
    and ck: "checkInput dat opts = Inr c"
    and nb: "ck_nbParams c = 3 \<or> ck_nbParams c = 4"
    and sm: "selectMethod (ck_optimization c) = Inr (algorithm, so)"
    and run: "optimize checkInput selectMethod st dat peaks opts = (r, st')"
    and i: "i < length (peakAddrs (heap st) peaks)"
    and s: "s < ck_nbParams c"
  shows "\<exists>call.
      solverLog st' = solverLog st @ [call]
    \<and> Inr (initialValues call ! (i + s * length (peakAddrs (heap st) peaks)))
        = map_sum id ToNumber
            (getValue (int s) (jsonObj (peakAt (heap st) peaks i)) STATE_INIT (ck_getValueOptions c))
    \<and> Inr (minValues call ! (i + s * length (peakAddrs (heap st) peaks)))
        = map_sum id ToNumber
            (getValue (int s) (jsonObj (peakAt (heap st) peaks i)) STATE_MIN (ck_getValueOptions c))
    \<and> Inr (maxValues call ! (i + s * length (peakAddrs (heap st) peaks)))
        = map_sum id ToNumber
            (getValue (int s) (jsonObj (peakAt (heap st) peaks i)) STATE_MAX (ck_getValueOptions c))
    \<and> Inr (map_option (\<lambda>g. g ! (i + s * length (peakAddrs (heap st) peaks)))
             (gradientDifference call))
        = map_sum id (\<lambda>v. Some (ToNumber v))
            (getValue (int s) (jsonObj (peakAt (heap st) peaks i)) STATE_GRADIENT_DIFFERENCE
               (ck_getValueOptions c))
    \<and> (\<forall>fit. algorithm call = Inr fit \<longrightarrow>
          r = Inr \<lparr> res_error = parameterError fit, res_iterations = iterations fit,
                    res_peaks = length (heap st) + length (peakAddrs (heap st) peaks) \<rparr>
        \<and> (i + s * length (peakAddrs (heap st) peaks) < length (parameterValues fit) \<longrightarrow>
             getProp (peakAt (heap st') (length (heap st) + length (peakAddrs (heap st) peaks)) i)
                     (keys ! s)
               = Num (if s = 1
                      then jmul (parameterValues fit ! (i + length (peakAddrs (heap st) peaks)))
                             (ToNumber (ck_maxY c))
                      else parameterValues fit ! (i + s * length (peakAddrs (heap st) peaks))))
        \<and> (parameterValues fit = initialValues call \<longrightarrow>
             (\<forall>a. getProp (peakAt (heap st) peaks i) ''x'' = Num (Fin a) \<longrightarrow>
                  getProp (peakAt (heap st') (length (heap st) + length (peakAddrs (heap st) peaks)) i)
                    ''x'' = Num (Fin a))
           \<and> (\<forall>w. getProp (peakAt (heap st) peaks i) ''width'' = Num (Fin w) \<longrightarrow>
                  getProp (peakAt (heap st') (length (heap st) + length (peakAddrs (heap st) peaks)) i)
                    ''width'' = Num (Fin w))
           \<and> (\<forall>b. getProp (peakAt (heap st) peaks i) ''y'' = Num (Fin b) \<longrightarrow>
                  getProp (peakAt (heap st') (length (heap st) + length (peakAddrs (heap st) peaks)) i)
                    ''y''
                  = Num (jmul (jdiv (Fin b) (ToNumber (maxY (ck_getValueOptions c))))
                           (ToNumber (ck_maxY c))))
           \<and> (\<forall>u. ck_nbParams c = 4 \<and> getProp (peakAt (heap st) peaks i) ''mu'' = Num (Fin u) \<and>
                   u \<noteq> 0 \<longrightarrow>
                  getProp (peakAt (heap st') (length (heap st) + length (peakAddrs (heap st) peaks)) i)
                    ''mu'' = Num (Fin u))))"
proof -
  let ?h = "heap st"
  let ?N = "length (peakAddrs ?h peaks)"
  let ?gvo = "ck_getValueOptions c"
  let ?pk = "jsonObj (peakAt ?h peaks i)"
  let ?out = "peakAt (heap st') (length ?h + ?N) i"
  from nb have nb4: "ck_nbParams c \<le> 4" and nb3: "3 \<le> ck_nbParams c"
    by auto
  from s nb4 have s4: "s < 4"
    by simp
  from buildVectors_succeeds [OF nb4] obtain v
    where bv: "buildVectors (ck_nbParams c) (copiedPeaks ?h peaks) ?gvo = Inr v"
    by blast
  let ?call = "solverCallOf c so v"
  note state = optimize_run_state
    [where checkInput = checkInput and selectMethod = selectMethod, OF wf ck sm bv run]
  have i': "i < length (copiedPeaks ?h peaks)"
    using i by simp
  have layout:
    "pInit v ! (i + t * ?N) = ToNumber (valueAt ?pk STATE_INIT ?gvo t)"
    "pMin v ! (i + t * ?N) = ToNumber (valueAt ?pk STATE_MIN ?gvo t)"
    "pMax v ! (i + t * ?N) = ToNumber (valueAt ?pk STATE_MAX ?gvo t)"
    "pGrad v ! (i + t * ?N) = ToNumber (valueAt ?pk STATE_GRADIENT_DIFFERENCE ?gvo t)"
    if "t < ck_nbParams c" for t
    using buildVectors_layout [OF bv nb4 i' that] i by (simp_all add: copiedPeaks_nth)
  have len: "length (pInit v) = ?N * ck_nbParams c"
    using buildVectors_length(1) [OF bv nb4] by simp
  have in_range: "i + t * ?N < length (pInit v)" if "t < ck_nbParams c" for t
    unfolding len using batch_in_range [OF i that] by (simp add: mult.commute)
  have A: "solverLog st' = solverLog st @ [?call]"
    by (rule state(1))
  have B1: "Inr (initialValues ?call ! (i + s * ?N))
        = map_sum id ToNumber (getValue (int s) ?pk STATE_INIT ?gvo)"
    by (simp add: solverCallOf_def layout(1) [OF s] getValue_stored(1) [OF s4])
  have B2: "Inr (minValues ?call ! (i + s * ?N))
        = map_sum id ToNumber (getValue (int s) ?pk STATE_MIN ?gvo)"
    by (simp add: solverCallOf_def layout(2) [OF s] getValue_stored(1) [OF s4])
  have B3: "Inr (maxValues ?call ! (i + s * ?N))
        = map_sum id ToNumber (getValue (int s) ?pk STATE_MAX ?gvo)"
    by (simp add: solverCallOf_def layout(3) [OF s] getValue_stored(1) [OF s4])
  have B4: "Inr (map_option (\<lambda>g. g ! (i + s * ?N)) (gradientDifference ?call))
        = map_sum id (\<lambda>v. Some (ToNumber v))
            (getValue (int s) ?pk STATE_GRADIENT_DIFFERENCE ?gvo)"
    by (simp add: solverCallOf_def layout(4) [OF s] getValue_stored(2) [OF s4])
  have C: "r = Inr \<lparr> res_error = parameterError fit, res_iterations = iterations fit,
                    res_peaks = length ?h + ?N \<rparr>"
    if "algorithm ?call = Inr fit" for fit
    using state(2) [OF that] .
  have field: "getProp ?out (keyAt t) =
        (if i + t * ?N < length (parameterValues fit)
         then Num (if t = 1 then jmul (parameterValues fit ! (i + ?N)) (ToNumber (ck_maxY c))
                   else parameterValues fit ! (i + t * ?N))
         else Undefined)"
    if "algorithm ?call = Inr fit" "t < ck_nbParams c" for fit t
    unfolding state(3) [OF that(1)] by (rule returned_field [OF i nb4 that(2)])
  have D: "getProp ?out (keys ! s)
        = Num (if s = 1 then jmul (parameterValues fit ! (i + ?N)) (ToNumber (ck_maxY c))
               else parameterValues fit ! (i + s * ?N))"
    if "algorithm ?call = Inr fit" "i + s * ?N < length (parameterValues fit)" for fit
    using field [OF that(1) s] that(2) by (simp add: keyAt_keys [OF s4])
  have identity: "getProp ?out (keyAt t) =
        Num (if t = 1 then jmul (ToNumber (valueAt ?pk STATE_INIT ?gvo 1)) (ToNumber (ck_maxY c))
             else ToNumber (valueAt ?pk STATE_INIT ?gvo t))"
    if "algorithm ?call = Inr fit" "parameterValues fit = initialValues ?call"
      "t < ck_nbParams c" for fit t
  proof -
    have pv: "parameterValues fit = pInit v"
      using that(2) by (simp add: solverCallOf_def)
    have one: "1 < ck_nbParams c"
      using nb3 by simp
    show ?thesis
      using field [OF that(1,3)] in_range [OF that(3)] layout(1) [OF that(3)]
        layout(1) [OF one]
      by (simp add: pv)
  qed
  have E1: "getProp ?out ''x'' = Num (Fin a)"
    if "algorithm ?call = Inr fit" "parameterValues fit = initialValues ?call"
      "getProp (peakAt ?h peaks i) ''x'' = Num (Fin a)" for fit a
  proof -
    have "0 < ck_nbParams c" using nb3 by simp
    from identity [OF that(1,2) this] getProp_jsonObj_number [OF that(3)]
    show ?thesis
      by (simp add: keyAt_values valueAt_init)
  qed
  have E2: "getProp ?out ''width'' = Num (Fin w)"
    if "algorithm ?call = Inr fit" "parameterValues fit = initialValues ?call"
      "getProp (peakAt ?h peaks i) ''width'' = Num (Fin w)" for fit w
  proof -
    have "2 < ck_nbParams c" using nb3 by simp
    from identity [OF that(1,2) this] getProp_jsonObj_number [OF that(3)]
    show ?thesis
      by (simp add: keyAt_values valueAt_init)
  qed
  have E3: "getProp ?out ''y''
        = Num (jmul (jdiv (Fin b) (ToNumber (maxY ?gvo))) (ToNumber (ck_maxY c)))"
    if "algorithm ?call = Inr fit" "parameterValues fit = initialValues ?call"
      "getProp (peakAt ?h peaks i) ''y'' = Num (Fin b)" for fit b
  proof -
    have "1 < ck_nbParams c" using nb3 by simp
    from identity [OF that(1,2) this] getProp_jsonObj_number [OF that(3)]
    show ?thesis
      by (simp del: One_nat_def add: keyAt_values valueAt_init js_over_def)
  qed
  have E5: "getProp ?out ''mu'' = Num (Fin u)"
    if "algorithm ?call = Inr fit" "parameterValues fit = initialValues ?call"
      "ck_nbParams c = 4 \<and> getProp (peakAt ?h peaks i) ''mu'' = Num (Fin u) \<and> u \<noteq> 0" for fit u
  proof -
    from that(3) have "3 < ck_nbParams c" and mu: "getProp (peakAt ?h peaks i) ''mu'' = Num (Fin u)"
      and u: "u \<noteq> 0"
      by simp_all
    from identity [OF that(1,2) this(1)] getProp_jsonObj_number [OF mu] u
    show ?thesis
      by (simp add: keyAt_values valueAt_init js_or_def)
  qed
  show ?thesis
    apply (rule exI [of _ ?call])
    apply (intro conjI allI impI)
              apply (rule A)
             apply (rule B1)
            apply (rule B2)
           apply (rule B3)
          apply (rule B4)
         apply (erule C)
        apply (erule (1) D)
       apply (erule (2) E1)
      apply (erule (2) E2)
     apply (erule (2) E3)
    apply (erule (2) E5)
    done
qed

theorem layout_and_round_trip_witness:
  "wfPeaks twoPeaksHeap 0
   \<and> checkInputStub 3 (Fin 2) testData () = Inr (checkedStub 3 (Fin 2) testData)
   \<and> (ck_nbParams (checkedStub 3 (Fin 2) testData) = 3 \<or>
       ck_nbParams (checkedStub 3 (Fin 2) testData) = 4)
   \<and> selectMethodStub (ck_optimization (checkedStub 3 (Fin 2) testData)) = Inr (identitySolver, ())
   \<and> length (peakAddrs twoPeaksHeap 0) = 2
   \<and> 1 < ck_nbParams (checkedStub 3 (Fin 2) testData)
   \<and> getProp (peakAt twoPeaksHeap 0 1) ''x'' = Num (Fin 3)
   \<and> getProp (peakAt twoPeaksHeap 0 1) ''y'' = Num (Fin 2)
   \<and> (\<exists>call.
         solverLog (snd (optimize (checkInputStub 3 (Fin 2)) selectMethodStub
                           \<lparr> heap = twoPeaksHeap, solverLog = [] \<rparr> testData 0 ())) = [call]
         \<and> initialValues call ! 1 = Fin 3
         \<and> minValues call ! 1 = Fin (- 13)
         \<and> maxValues call ! 1 = Fin 19
         \<and> gradientDifference call \<noteq> None
         \<and> the (gradientDifference call) ! 1 = Fin (1 / 250)
         \<and> initialValues call ! 3 = Fin 1
         \<and> minValues call ! 3 = Fin 0
         \<and> maxValues call ! 3 = Fin (3 / 2)
         \<and> the (gradientDifference call) ! 3 = Fin (1 / 1000)
         \<and> getProp (peakAt (heap (snd (optimize (checkInputStub 3 (Fin 2)) selectMethodStub
                                         \<lparr> heap = twoPeaksHeap, solverLog = [] \<rparr> testData 0 ())))
                       5 1) ''x'' = Num (Fin 3)
         \<and> getProp (peakAt (heap (snd (optimize (checkInputStub 3 (Fin 2)) selectMethodStub
                                         \<lparr> heap = twoPeaksHeap, solverLog = [] \<rparr> testData 0 ())))
                       5 1) ''y'' = Num (Fin 2))"
proof -
  let ?c = "checkedStub 3 (Fin 2) testData"
  let ?st = "\<lparr> heap = twoPeaksHeap, solverLog = ([] :: (unit, unit) solverCall list) \<rparr>"
  let ?run = "optimize (checkInputStub 3 (Fin 2)) selectMethodStub ?st testData 0 ()"
  let ?pk = "jsonObj (peakAt twoPeaksHeap 0 1)"
  let ?out = "peakAt (heap (snd ?run)) (length twoPeaksHeap + length (peakAddrs twoPeaksHeap 0)) 1"
  have wf: "wfPeaks (heap ?st) 0"
    by (simp add: wfPeaks_more_examples)
  have ck: "checkInputStub 3 (Fin 2) testData () = Inr ?c"
    by (simp add: checkInputStub_def)
  have nb: "ck_nbParams ?c = 3 \<or> ck_nbParams ?c = 4"
    by (simp add: checkedStub_fields)
  have sm: "selectMethodStub (ck_optimization ?c) = Inr (identitySolver, ())"
    by (simp add: selectMethodStub_def)
  have run: "?run = (fst ?run, snd ?run)"
    by simp
  have i: "1 < length (peakAddrs (heap ?st) 0)"
    by (simp add: peakAddrs_more_examples)
  have s0: "0 < ck_nbParams ?c" and s1: "1 < ck_nbParams ?c"
    by (simp_all add: checkedStub_fields)
  have n2: "length (peakAddrs twoPeaksHeap 0) = 2"
    by (simp add: peakAddrs_more_examples)
  have x: "getProp (peakAt twoPeaksHeap 0 1) ''x'' = Num (Fin 3)"
    and y: "getProp (peakAt twoPeaksHeap 0 1) ''y'' = Num (Fin 2)"
    unfolding peakAt_more_examples by (simp_all add: secondPeak_def getProp_def)
  have pk: "?pk = secondPeak"
    unfolding peakAt_more_examples by (simp add: secondPeak_def)
  have gvo: "ck_getValueOptions ?c = defaultOptions (Num (Fin 2))" "ck_maxY ?c = Num (Fin 2)"
    by (simp_all add: checkedStub_fields)
  have vals:
    "getValue (int 0) secondPeak STATE_INIT (defaultOptions (Num (Fin 2))) = Inr (Num (Fin 3))"
    "getValue (int 0) secondPeak STATE_MIN (defaultOptions (Num (Fin 2))) = Inr (Num (Fin (- 13)))"
    "getValue (int 0) secondPeak STATE_MAX (defaultOptions (Num (Fin 2))) = Inr (Num (Fin 19))"
    "getValue (int 0) secondPeak STATE_GRADIENT_DIFFERENCE (defaultOptions (Num (Fin 2)))
       = Inr (Num (Fin (1 / 250)))"
    "getValue (int 1) secondPeak STATE_INIT (defaultOptions (Num (Fin 2))) = Inr (Num (Fin 1))"
    "getValue (int 1) secondPeak STATE_MIN (defaultOptions (Num (Fin 2))) = Inr (Num (Fin 0))"
    "getValue (int 1) secondPeak STATE_MAX (defaultOptions (Num (Fin 2))) = Inr (Num (Fin (3 / 2)))"
    "getValue (int 1) secondPeak STATE_GRADIENT_DIFFERENCE (defaultOptions (Num (Fin 2)))
       = Inr (Num (Fin (1 / 1000)))"
    by (simp_all add: getValue_def defaultOptions_def source_constants js_operators getProp_def
        secondPeak_def)
  have fit: "identitySolver call = Inr \<lparr> parameterValues = initialValues call,
      parameterError = Num (Fin 0), iterations = Num (Fin 0) \<rparr>" for call :: "(unit, unit) solverCall"
    by (simp add: identitySolver_def)
  from layout_and_round_trip
    [where checkInput = "checkInputStub 3 (Fin 2)" and selectMethod = selectMethodStub,
      OF wf ck nb sm run i s0]
  obtain call0 where
    log0: "solverLog (snd ?run) = [] @ [call0]"
    and init0: "Inr (initialValues call0 ! (1 + 0 * length (peakAddrs twoPeaksHeap 0)))
        = map_sum id ToNumber (getValue (int 0) ?pk STATE_INIT (ck_getValueOptions ?c))"
    and min0: "Inr (minValues call0 ! (1 + 0 * length (peakAddrs twoPeaksHeap 0)))
        = map_sum id ToNumber (getValue (int 0) ?pk STATE_MIN (ck_getValueOptions ?c))"
    and max0: "Inr (maxValues call0 ! (1 + 0 * length (peakAddrs twoPeaksHeap 0)))
        = map_sum id ToNumber (getValue (int 0) ?pk STATE_MAX (ck_getValueOptions ?c))"
    and grad0: "Inr (map_option (\<lambda>g. g ! (1 + 0 * length (peakAddrs twoPeaksHeap 0)))
                      (gradientDifference call0))
        = map_sum id (\<lambda>v. Some (ToNumber v))
            (getValue (int 0) ?pk STATE_GRADIENT_DIFFERENCE (ck_getValueOptions ?c))"
    and decode0: "\<forall>fit. identitySolver call0 = Inr fit \<longrightarrow>
          fst ?run = Inr \<lparr> res_error = parameterError fit, res_iterations = iterations fit,
                           res_peaks = length twoPeaksHeap + length (peakAddrs twoPeaksHeap 0) \<rparr>
        \<and> (1 + 0 * length (peakAddrs twoPeaksHeap 0) < length (parameterValues fit) \<longrightarrow>
             getProp ?out (keys ! 0)
               = Num (if (0::nat) = 1
                      then jmul (parameterValues fit ! (1 + length (peakAddrs twoPeaksHeap 0))) (ToNumber (ck_maxY ?c))
                      else parameterValues fit ! (1 + 0 * length (peakAddrs twoPeaksHeap 0))))
        \<and> (parameterValues fit = initialValues call0 \<longrightarrow>
             (\<forall>a. getProp (peakAt twoPeaksHeap 0 1) ''x'' = Num (Fin a) \<longrightarrow>
                  getProp ?out ''x'' = Num (Fin a))
           \<and> (\<forall>w. getProp (peakAt twoPeaksHeap 0 1) ''width'' = Num (Fin w) \<longrightarrow>
                  getProp ?out ''width'' = Num (Fin w))
           \<and> (\<forall>b. getProp (peakAt twoPeaksHeap 0 1) ''y'' = Num (Fin b) \<longrightarrow>
                  getProp ?out ''y''
                  = Num (jmul (jdiv (Fin b) (ToNumber (maxY (ck_getValueOptions ?c))))
                           (ToNumber (ck_maxY ?c))))
           \<and> (\<forall>u. ck_nbParams ?c = 4 \<and> getProp (peakAt twoPeaksHeap 0 1) ''mu'' = Num (Fin u) \<and>
                   u \<noteq> 0 \<longrightarrow>
                  getProp ?out ''mu'' = Num (Fin u)))"
    unfolding state.simps by blast
  from layout_and_round_trip
    [where checkInput = "checkInputStub 3 (Fin 2)" and selectMethod = selectMethodStub,
      OF wf ck nb sm run i s1]
  obtain call1 where
    log1: "solverLog (snd ?run) = [] @ [call1]"
    and init1: "Inr (initialValues call1 ! (1 + 1 * length (peakAddrs twoPeaksHeap 0)))
        = map_sum id ToNumber (getValue (int 1) ?pk STATE_INIT (ck_getValueOptions ?c))"
    and min1: "Inr (minValues call1 ! (1 + 1 * length (peakAddrs twoPeaksHeap 0)))
        = map_sum id ToNumber (getValue (int 1) ?pk STATE_MIN (ck_getValueOptions ?c))"
    and max1: "Inr (maxValues call1 ! (1 + 1 * length (peakAddrs twoPeaksHeap 0)))
        = map_sum id ToNumber (getValue (int 1) ?pk STATE_MAX (ck_getValueOptions ?c))"
    and grad1: "Inr (map_option (\<lambda>g. g ! (1 + 1 * length (peakAddrs twoPeaksHeap 0)))
                      (gradientDifference call1))
        = map_sum id (\<lambda>v. Some (ToNumber v))
            (getValue (int 1) ?pk STATE_GRADIENT_DIFFERENCE (ck_getValueOptions ?c))"
    and decode1: "\<forall>fit. identitySolver call1 = Inr fit \<longrightarrow>
          fst ?run = Inr \<lparr> res_error = parameterError fit, res_iterations = iterations fit,
                           res_peaks = length twoPeaksHeap + length (peakAddrs twoPeaksHeap 0) \<rparr>
        \<and> (1 + 1 * length (peakAddrs twoPeaksHeap 0) < length (parameterValues fit) \<longrightarrow>
             getProp ?out (keys ! 1)
               = Num (if (1::nat) = 1
                      then jmul (parameterValues fit ! (1 + length (peakAddrs twoPeaksHeap 0))) (ToNumber (ck_maxY ?c))
                      else parameterValues fit ! (1 + 1 * length (peakAddrs twoPeaksHeap 0))))
        \<and> (parameterValues fit = initialValues call1 \<longrightarrow>
             (\<forall>a. getProp (peakAt twoPeaksHeap 0 1) ''x'' = Num (Fin a) \<longrightarrow>
                  getProp ?out ''x'' = Num (Fin a))
           \<and> (\<forall>w. getProp (peakAt twoPeaksHeap 0 1) ''width'' = Num (Fin w) \<longrightarrow>
                  getProp ?out ''width'' = Num (Fin w))
           \<and> (\<forall>b. getProp (peakAt twoPeaksHeap 0 1) ''y'' = Num (Fin b) \<longrightarrow>
                  getProp ?out ''y''
                  = Num (jmul (jdiv (Fin b) (ToNumber (maxY (ck_getValueOptions ?c))))
                           (ToNumber (ck_maxY ?c))))
           \<and> (\<forall>u. ck_nbParams ?c = 4 \<and> getProp (peakAt twoPeaksHeap 0 1) ''mu'' = Num (Fin u) \<and>
                   u \<noteq> 0 \<longrightarrow>
                  getProp ?out ''mu'' = Num (Fin u)))"
    unfolding state.simps by blast
  have eq: "call1 = call0"
    using log0 log1 by simp
  have log: "solverLog (snd ?run) = [call0]"
    using log0 by simp
  have v0: "initialValues call0 ! 1 = Fin 3" "minValues call0 ! 1 = Fin (- 13)"
    "maxValues call0 ! 1 = Fin 19"
    using init0 min0 max0 unfolding pk gvo vals by simp_all
  have g0: "map_option (\<lambda>g. g ! 1) (gradientDifference call0) = Some (Fin (1 / 250))"
    using grad0 unfolding pk gvo vals by simp
  have v1: "initialValues call0 ! 3 = Fin 1" "minValues call0 ! 3 = Fin 0"
    "maxValues call0 ! 3 = Fin (3 / 2)"
    using init1 min1 max1 unfolding pk gvo vals eq n2 by (simp_all add: numeral_3_eq_3)
  have g1: "map_option (\<lambda>g. g ! 3) (gradientDifference call0) = Some (Fin (1 / 1000))"
    using grad1 unfolding pk gvo vals eq n2 by (simp add: numeral_3_eq_3)
  from g0 g1 have g: "gradientDifference call0 \<noteq> None"
    "the (gradientDifference call0) ! 1 = Fin (1 / 250)"
    "the (gradientDifference call0) ! 3 = Fin (1 / 1000)"
    by auto
  have "length twoPeaksHeap = 3"
    by (simp add: twoPeaksHeap_def)
  then have addr: "length twoPeaksHeap + length (peakAddrs twoPeaksHeap 0) = 5"
    by (simp add: n2)
  from decode0 [rule_format, OF fit, THEN conjunct2, THEN conjunct2] x
  have outx: "getProp (peakAt (heap (snd ?run)) 5 1) ''x'' = Num (Fin 3)"
    unfolding addr by simp
  from decode1 [rule_format, OF fit, THEN conjunct2, THEN conjunct2] y
  have outy: "getProp (peakAt (heap (snd ?run)) 5 1) ''y'' = Num (Fin 2)"
    unfolding addr gvo by (simp add: defaultOptions_def)
  from log v0 g v1 outx outy
  have "\<exists>call. solverLog (snd ?run) = [call]
         \<and> initialValues call ! 1 = Fin 3
         \<and> minValues call ! 1 = Fin (- 13)
         \<and> maxValues call ! 1 = Fin 19
         \<and> gradientDifference call \<noteq> None
         \<and> the (gradientDifference call) ! 1 = Fin (1 / 250)
         \<and> initialValues call ! 3 = Fin 1
         \<and> minValues call ! 3 = Fin 0
         \<and> maxValues call ! 3 = Fin (3 / 2)
         \<and> the (gradientDifference call) ! 3 = Fin (1 / 1000)
         \<and> getProp (peakAt (heap (snd ?run)) 5 1) ''x'' = Num (Fin 3)
         \<and> getProp (peakAt (heap (snd ?run)) 5 1) ''y'' = Num (Fin 2)"
    by blast
  with wfPeaks_more_examples(1) ck nb sm n2 s1 x y show ?thesis
    by blast
qed

text \<open>The claim as first stated fails. With the identity solver and data whose
  ordinates are all 0, so that \<open>maxY\<close> is 0, the peak \<open>{x: 0, y: 1, width: 2}\<close> comes
  back with \<open>y\<close> NaN: its initial height is \<open>1 / 0\<close>, and Infinity times 0 is NaN. And
  the peak \<open>{x: Infinity, y: 1, width: 2}\<close> comes back with \<open>x\<close> 0: the copy made
  through JSON holds \<open>null\<close> for an infinite number.\<close>

theorem identity_solver_changes_height_and_position:
  "getProp (peakAt testHeap 0 0) ''y'' = Num (Fin 1)
   \<and> optimize (checkInputStub 3 (Fin 0)) selectMethodStub \<lparr> heap = testHeap, solverLog = [] \<rparr>
        flatData 0 ()
      = (Inr \<lparr> res_error = Num (Fin 0), res_iterations = Num (Fin 0), res_peaks = 3 \<rparr>,
         \<lparr> heap = [Arr [1], Obj testPeak,
                   Obj [(''x'', Num (Fin 0)), (''y'', Num NaN), (''width'', Num (Fin 2))],
                   Arr [2]],
           solverLog = [\<lparr> call_x = testX, call_y = [NaN, NaN, NaN],
                          paramsFunc = (), optimizationOptions = (),
                          minValues = [Fin (- 4), NaN, Fin (1 / 2)],
                          maxValues = [Fin 4, PInf, Fin 8],
                          initialValues = [Fin 0, PInf, Fin 2],
                          gradientDifference =
                            Some [Fin (1 / 1000), Fin (1 / 1000), Fin (1 / 1000)] \<rparr>] \<rparr>)
   \<and> getProp (peakAt [Arr [1], Obj testPeak,
                       Obj [(''x'', Num (Fin 0)), (''y'', Num NaN), (''width'', Num (Fin 2))],
                       Arr [2]] 3 0) ''y''
      = Num NaN
   \<and> getProp (peakAt infiniteXHeap 0 0) ''x'' = Num PInf
   \<and> optimize (checkInputStub 3 (Fin 2)) selectMethodStub
        \<lparr> heap = infiniteXHeap, solverLog = [] \<rparr> testData 0 ()
      = (Inr \<lparr> res_error = Num (Fin 0), res_iterations = Num (Fin 0), res_peaks = 3 \<rparr>,
         \<lparr> heap = [Arr [1], Obj infiniteXPeak, Obj testPeak, Arr [2]],
           solverLog = [\<lparr> call_x = testX, call_y = [Fin (1 / 2), Fin 1, Fin (1 / 2)],
                          paramsFunc = (), optimizationOptions = (),
                          minValues = [Fin (- 4), Fin 0, Fin (1 / 2)],
                          maxValues = [Fin 4, Fin (3 / 4), Fin 8],
                          initialValues = [Fin 0, Fin (1 / 2), Fin 2],
                          gradientDifference =
                            Some [Fin (1 / 1000), Fin (1 / 1000), Fin (1 / 1000)] \<rparr>] \<rparr>)
   \<and> getProp (peakAt [Arr [1], Obj infiniteXPeak, Obj testPeak, Arr [2]] 3 0) ''x''
      = Num (Fin 0)"
  by (simp add: optimize_flatData optimize_infiniteXHeap peakAt_examples peakAt_more_examples)
    (simp add: peakAt_def peakAddrs_def objAt_def testPeak_def infiniteXPeak_def getProp_def)

end
